theory Spec2Isabelle
  imports Main
begin

section \<open>Python strings\<close>

text \<open>
  Python strings are modelled as lists of characters whose code points lie below 256
  (the range of \<^typ>\<open>char\<close>). The character classes below are those of Python 3 on
  that range: \<open>str.isspace\<close>, \<open>str.isdigit\<close>, \<open>str.isupper\<close>, \<open>str.lower\<close>, and the
  classes \<open>\s\<close>, \<open>\d\<close>, \<open>\w\<close> of the \<open>re\<close> module for \<open>str\<close> patterns.
\<close>

definition code :: "char \<Rightarrow> nat" where
  "code c = of_char c"

definition py_isspace :: "char \<Rightarrow> bool" where
  "py_isspace c = (let n = code c in (9 \<le> n \<and> n \<le> 13) \<or> (28 \<le> n \<and> n \<le> 32) \<or> n = 133 \<or> n = 160)"

definition ascii_digit :: "char \<Rightarrow> bool" where
  "ascii_digit c = (let n = code c in 48 \<le> n \<and> n \<le> 57)"

definition py_isdigit :: "char \<Rightarrow> bool" where
  "py_isdigit c = (let n = code c in (48 \<le> n \<and> n \<le> 57) \<or> n = 178 \<or> n = 179 \<or> n = 185)"

definition ascii_upper :: "char \<Rightarrow> bool" where
  "ascii_upper c = (let n = code c in 65 \<le> n \<and> n \<le> 90)"

definition ascii_lower :: "char \<Rightarrow> bool" where
  "ascii_lower c = (let n = code c in 97 \<le> n \<and> n \<le> 122)"

definition py_isupper :: "char \<Rightarrow> bool" where
  "py_isupper c = (let n = code c in (65 \<le> n \<and> n \<le> 90) \<or> (192 \<le> n \<and> n \<le> 214) \<or> (216 \<le> n \<and> n \<le> 222))"

definition py_lower_char :: "char \<Rightarrow> char" where
  "py_lower_char c = (if py_isupper c then char_of (code c + 32) else c)"

definition py_lower :: "string \<Rightarrow> string" where
  "py_lower s = map py_lower_char s"

definition re_word :: "char \<Rightarrow> bool" where
  "re_word c = (let n = code c in
     (48 \<le> n \<and> n \<le> 57) \<or> (65 \<le> n \<and> n \<le> 90) \<or> n = 95 \<or> (97 \<le> n \<and> n \<le> 122)
     \<or> n = 170 \<or> n = 178 \<or> n = 179 \<or> n = 181 \<or> n = 185 \<or> n = 186 \<or> (188 \<le> n \<and> n \<le> 190)
     \<or> (192 \<le> n \<and> n \<le> 214) \<or> (216 \<le> n \<and> n \<le> 246) \<or> (248 \<le> n \<and> n \<le> 255))"

definition py_lstrip :: "string \<Rightarrow> string" where
  "py_lstrip s = dropWhile py_isspace s"

definition py_rstrip :: "string \<Rightarrow> string" where
  "py_rstrip s = rev (dropWhile py_isspace (rev s))"

definition py_strip :: "string \<Rightarrow> string" where
  "py_strip s = py_rstrip (py_lstrip s)"

text \<open>\<open>s.rstrip(chars)\<close> and \<open>s.strip(chars)\<close> with an explicit character set.\<close>

definition py_rstrip_chars :: "string \<Rightarrow> string \<Rightarrow> string" where
  "py_rstrip_chars chars s = rev (dropWhile (\<lambda>c. c \<in> set chars) (rev s))"

definition startswith :: "string \<Rightarrow> string \<Rightarrow> bool" where
  "startswith s p = (take (length p) s = p)"

definition endswith :: "string \<Rightarrow> string \<Rightarrow> bool" where
  "endswith s p = (length p \<le> length s \<and> drop (length s - length p) s = p)"

text \<open>\<open>needle in hay\<close> on strings.\<close>

fun contains :: "string \<Rightarrow> string \<Rightarrow> bool" where
  "contains needle [] = (needle = [])"
| "contains needle (c # cs) = (startswith (c # cs) needle \<or> contains needle cs)"

text \<open>\<open>hay.find(needle)\<close>: the first index, or \<open>-1\<close>.\<close>

fun find_from :: "string \<Rightarrow> nat \<Rightarrow> string \<Rightarrow> int" where
  "find_from needle i [] = (if needle = [] then int i else -1)"
| "find_from needle i (c # cs) = (if startswith (c # cs) needle then int i else find_from needle (Suc i) cs)"

definition py_find :: "string \<Rightarrow> string \<Rightarrow> int" where
  "py_find hay needle = find_from needle 0 hay"

text \<open>\<open>s.split(sep)\<close> for a one-character separator: empty pieces are kept.\<close>

fun py_split :: "char \<Rightarrow> string \<Rightarrow> string list" where
  "py_split sep [] = [[]]"
| "py_split sep (c # cs) =
     (case py_split sep cs of
        [] \<Rightarrow> [[]]
      | p # ps \<Rightarrow> if c = sep then [] # p # ps else (c # p) # ps)"

text \<open>\<open>s.split()\<close>: pieces between runs of whitespace, none of them empty.\<close>

fun split_ws_aux :: "string \<Rightarrow> string \<Rightarrow> string list" where
  "split_ws_aux cur [] = (if cur = [] then [] else [rev cur])"
| "split_ws_aux cur (c # cs) =
     (if py_isspace c then (if cur = [] then split_ws_aux [] cs else rev cur # split_ws_aux [] cs)
      else split_ws_aux (c # cur) cs)"

definition py_split_ws :: "string \<Rightarrow> string list" where
  "py_split_ws s = split_ws_aux [] s"

text \<open>\<open>s.replace(old, new)\<close> for a non-empty \<open>old\<close>: \<open>skip\<close> counts the characters of a
  replaced occurrence that are still to be passed over.\<close>

fun replace_aux :: "string \<Rightarrow> string \<Rightarrow> nat \<Rightarrow> string \<Rightarrow> string" where
  "replace_aux old new skip [] = []"
| "replace_aux old new skip (c # cs) =
     (if 0 < skip then replace_aux old new (skip - 1) cs
      else if startswith (c # cs) old then new @ replace_aux old new (length old - 1) cs
      else c # replace_aux old new 0 cs)"

definition py_replace :: "string \<Rightarrow> string \<Rightarrow> string \<Rightarrow> string" where
  "py_replace old new s = replace_aux old new 0 s"

text \<open>Truthiness of optional values: \<open>None\<close>, the empty string and \<open>0\<close> are false.\<close>

definition truthy :: "string option \<Rightarrow> bool" where
  "truthy x = (case x of None \<Rightarrow> False | Some s \<Rightarrow> s \<noteq> [])"

definition truthy_int :: "int option \<Rightarrow> bool" where
  "truthy_int x = (case x of None \<Rightarrow> False | Some n \<Rightarrow> n \<noteq> 0)"

text \<open>\<open>a or b\<close> on optional strings and on optional integers.\<close>

definition py_or :: "string option \<Rightarrow> string option \<Rightarrow> string option" where
  "py_or a b = (if truthy a then a else b)"

definition py_or_int :: "int option \<Rightarrow> int option \<Rightarrow> int option" where
  "py_or_int a b = (if truthy_int a then a else b)"

text \<open>\<open>str(n)\<close> for an integer, and \<open>int(s)\<close> for a string of ASCII digits.\<close>

fun digits_of :: "nat \<Rightarrow> nat \<Rightarrow> string" where
  "digits_of 0 n = []"
| "digits_of (Suc fuel) n =
     (if n < 10 then [char_of (48 + n)] else digits_of fuel (n div 10) @ [char_of (48 + n mod 10)])"

definition py_str_int :: "int \<Rightarrow> string" where
  "py_str_int i = (if i < 0 then CHR ''-'' # digits_of (Suc (nat (- i))) (nat (- i))
                   else digits_of (Suc (nat i)) (nat i))"

definition py_int :: "string \<Rightarrow> int" where
  "py_int s = int (foldl (\<lambda>acc c. 10 * acc + (code c - 48)) 0 s)"

section \<open>Regular expressions\<close>

text \<open>
  The patterns of the source are values of \<open>rx\<close>; \<open>rmatch\<close> is a backtracking matcher
  with the priorities of Python's \<open>re\<close>: alternatives left to right, greedy repetition
  longest first, lazy repetition shortest first. A state holds the offset reached, the
  character before it (for \<open>\b\<close>), the text still to read and the groups closed so far.
\<close>

datatype rx =
    Chr "char \<Rightarrow> bool"
  | Eps
  | Seq rx rx
  | Alt rx rx
  | Rep nat "nat option" bool rx
  | Grp nat rx
  | Bol
  | Eol
  | WordB

datatype mstate = MState (ms_pos: nat) (ms_prev: "char option") (ms_rest: string) (ms_caps: "(nat \<times> nat \<times> nat) list")

type_synonym cont = "mstate \<Rightarrow> mstate option"

primrec rep_loop :: "(cont \<Rightarrow> cont) \<Rightarrow> bool \<Rightarrow> nat \<Rightarrow> nat \<Rightarrow> nat option \<Rightarrow> cont \<Rightarrow> cont" where
  "rep_loop step greedy 0 mn mx k s = (if mn = 0 then k s else None)"
| "rep_loop step greedy (Suc fuel) mn mx k s =
     (let again = (\<lambda>u::unit. if mx = Some 0 then None
                    else step (\<lambda>s'. if ms_pos s < ms_pos s'
                                    then rep_loop step greedy fuel (mn - 1) (map_option (\<lambda>m. m - 1) mx) k s'
                                    else None) s)
      in if 0 < mn then again ()
         else if greedy then (case again () of Some r \<Rightarrow> Some r | None \<Rightarrow> k s)
         else (case k s of Some r \<Rightarrow> Some r | None \<Rightarrow> again ()))"

definition at_word_boundary :: "mstate \<Rightarrow> bool" where
  "at_word_boundary s =
     ((case ms_prev s of None \<Rightarrow> False | Some c \<Rightarrow> re_word c)
      \<noteq> (case ms_rest s of [] \<Rightarrow> False | c # _ \<Rightarrow> re_word c))"

primrec rmatch :: "rx \<Rightarrow> cont \<Rightarrow> cont" where
  "rmatch (Chr P) k s =
     (case ms_rest s of [] \<Rightarrow> None
      | c # cs \<Rightarrow> if P c then k (MState (Suc (ms_pos s)) (Some c) cs (ms_caps s)) else None)"
| "rmatch Eps k s = k s"
| "rmatch (Seq a b) k s = rmatch a (rmatch b k) s"
| "rmatch (Alt a b) k s = (case rmatch a k s of Some r \<Rightarrow> Some r | None \<Rightarrow> rmatch b k s)"
| "rmatch (Rep mn mx greedy r) k s = rep_loop (rmatch r) greedy (Suc (length (ms_rest s))) mn mx k s"
| "rmatch (Grp n r) k s =
     rmatch r (\<lambda>s'. k (MState (ms_pos s') (ms_prev s') (ms_rest s') ((n, ms_pos s, ms_pos s') # ms_caps s'))) s"
| "rmatch Bol k s = (if ms_pos s = 0 then k s else None)"
| "rmatch Eol k s = (if ms_rest s = [] \<or> ms_rest s = [CHR 0x0A] then k s else None)"
| "rmatch WordB k s = (if at_word_boundary s then k s else None)"

text \<open>A match: where it starts, where it ends, and its groups.\<close>

datatype rmatch_result = Match (m_start: nat) (m_end: nat) (m_caps: "(nat \<times> nat \<times> nat) list")

text \<open>\<open>re.match\<close>: the pattern is tried at offset 0 only.\<close>

definition re_match :: "rx \<Rightarrow> string \<Rightarrow> rmatch_result option" where
  "re_match r txt = map_option (\<lambda>s. Match 0 (ms_pos s) (ms_caps s)) (rmatch r Some (MState 0 None txt []))"

text \<open>\<open>re.search\<close>: the first offset at which the pattern matches.\<close>

fun search_from :: "rx \<Rightarrow> nat \<Rightarrow> char option \<Rightarrow> string \<Rightarrow> rmatch_result option" where
  "search_from r p pv [] = map_option (\<lambda>s. Match p (ms_pos s) (ms_caps s)) (rmatch r Some (MState p pv [] []))"
| "search_from r p pv (c # cs) =
     (case rmatch r Some (MState p pv (c # cs) []) of
        Some s \<Rightarrow> Some (Match p (ms_pos s) (ms_caps s))
      | None \<Rightarrow> search_from r (Suc p) (Some c) cs)"

definition re_search :: "rx \<Rightarrow> string \<Rightarrow> rmatch_result option" where
  "re_search r txt = search_from r 0 None txt"

text \<open>\<open>m.group(n)\<close> for a group that took part in the match.\<close>

definition slice :: "string \<Rightarrow> nat \<Rightarrow> nat \<Rightarrow> string" where
  "slice txt i j = take (j - i) (drop i txt)"

definition group :: "string \<Rightarrow> rmatch_result \<Rightarrow> nat \<Rightarrow> string" where
  "group txt m n = (case map_of (m_caps m) n of None \<Rightarrow> [] | Some (i, j) \<Rightarrow> slice txt i j)"

definition group0 :: "string \<Rightarrow> rmatch_result \<Rightarrow> string" where
  "group0 txt m = slice txt (m_start m) (m_end m)"

text \<open>\<open>re.sub(pattern, repl, s)\<close> for a pattern that never matches the empty string and a
  replacement without group references.\<close>

fun sub_from :: "rx \<Rightarrow> string \<Rightarrow> nat \<Rightarrow> nat \<Rightarrow> char option \<Rightarrow> string \<Rightarrow> string" where
  "sub_from r repl skip p pv [] = []"
| "sub_from r repl skip p pv (c # cs) =
     (if 0 < skip then sub_from r repl (skip - 1) (Suc p) (Some c) cs
      else (case rmatch r Some (MState p pv (c # cs) []) of
              Some s \<Rightarrow> if p < ms_pos s then repl @ sub_from r repl (ms_pos s - p - 1) (Suc p) (Some c) cs
                        else c # sub_from r repl 0 (Suc p) (Some c) cs
            | None \<Rightarrow> c # sub_from r repl 0 (Suc p) (Some c) cs))"

definition re_sub :: "rx \<Rightarrow> string \<Rightarrow> string \<Rightarrow> string" where
  "re_sub r repl txt = sub_from r repl 0 0 None txt"

text \<open>Building blocks for patterns.\<close>

definition ch :: "char \<Rightarrow> rx" where
  "ch c = Chr (\<lambda>x. x = c)"

definition chi :: "char \<Rightarrow> rx" where
  "chi c = Chr (\<lambda>x. py_lower_char x = py_lower_char c)"

fun seqs :: "rx list \<Rightarrow> rx" where
  "seqs [] = Eps"
| "seqs [r] = r"
| "seqs (r # rs) = Seq r (seqs rs)"

definition lit :: "string \<Rightarrow> rx" where
  "lit s = seqs (map ch s)"

definition liti :: "string \<Rightarrow> rx" where
  "liti s = seqs (map chi s)"

definition star :: "rx \<Rightarrow> rx" where
  "star r = Rep 0 None True r"

definition plus :: "rx \<Rightarrow> rx" where
  "plus r = Rep 1 None True r"

definition opt :: "rx \<Rightarrow> rx" where
  "opt r = Rep 0 (Some 1) True r"

definition rx_space :: rx where
  "rx_space = Chr py_isspace"

definition rx_digit :: rx where
  "rx_digit = Chr ascii_digit"

definition rx_upper :: rx where
  "rx_upper = Chr ascii_upper"

definition rx_lower :: rx where
  "rx_lower = Chr ascii_lower"

definition none_of :: "string \<Rightarrow> rx" where
  "none_of cs = Chr (\<lambda>x. x \<notin> set cs)"

section \<open>Identifier extraction\<close>

text \<open>\<open>[^\s\)]+\<close>, the body of a DOI in both patterns of \<open>extract_doi\<close>.\<close>

definition rx_doi_body :: rx where
  "rx_doi_body = plus (Chr (\<lambda>x. \<not> py_isspace x \<and> x \<noteq> CHR '')''))"

text \<open>\<open>doi:([^\s\)]+)\<close>, case-insensitive.\<close>

definition rx_doi_prefix :: rx where
  "rx_doi_prefix = seqs [liti ''doi:'', Grp 1 rx_doi_body]"

text \<open>\<open>https?://(?:dx\.)?doi\.org/([^\s\)]+)\<close>, case-insensitive.\<close>

definition rx_doi_url :: rx where
  "rx_doi_url = seqs [liti ''http'', opt (chi CHR ''s''), liti ''://'', opt (liti ''dx.''),
                      liti ''doi.org/'', Grp 1 rx_doi_body]"

definition extract_doi :: "string \<Rightarrow> string option" where
  "extract_doi citation_text =
     (case re_search rx_doi_prefix citation_text of
        Some m \<Rightarrow> Some (py_strip (group citation_text m 1))
      | None \<Rightarrow>
          (case re_search rx_doi_url citation_text of
             Some m \<Rightarrow> Some (py_strip (group citation_text m 1))
           | None \<Rightarrow> None))"

definition extract_doi_from_url :: "string option \<Rightarrow> string option" where
  "extract_doi_from_url url =
     (if \<not> truthy url then None
      else (case re_search rx_doi_url (the url) of
              Some m \<Rightarrow> Some (py_strip (group (the url) m 1))
            | None \<Rightarrow> None))"

text \<open>The cleaning step at the head of \<open>lookup_doi_metadata\<close> (the three prefix tests in
  the source's order, each followed by \<open>strip\<close>).\<close>

definition clean_doi :: "string \<Rightarrow> string" where
  "clean_doi doi =
     (let d0 = py_strip doi;
          d1 = (if startswith d0 ''doi:'' then py_strip (drop 4 d0) else d0);
          d2 = (if startswith d1 ''https://doi.org/'' then py_strip (drop 16 d1) else d1);
          d3 = (if startswith d2 ''http://dx.doi.org/'' then py_strip (drop 18 d2) else d2)
      in d3)"

section \<open>Name normalisation\<close>

text \<open>\<open>normalize_author_name\<close>: \<open>re.sub(r'\*+', '', name).strip()\<close>, then
  \<open>re.sub(r'\s+', ' ', name)\<close>.\<close>

definition normalize_author_name :: "string \<Rightarrow> string" where
  "normalize_author_name name =
     re_sub (plus rx_space) '' '' (py_strip (re_sub (plus (ch CHR ''*'')) [] name))"

definition ANUM_NAMES :: "string list" where
  "ANUM_NAMES = [''Kazerouni, A. S.'', ''Kazerouni, A.S.'', ''Syed, A. K.'', ''Syed, A.K.'',
                 ''Syed A. K.'', ''Syed A.K.'']"

definition is_anum_author :: "string \<Rightarrow> bool" where
  "is_anum_author name =
     (let normalized = normalize_author_name name
      in list_ex (\<lambda>anum_name. py_lower (normalize_author_name anum_name) = py_lower normalized) ANUM_NAMES)"

section \<open>The regex fallback parser\<close>

fun alts :: "rx list \<Rightarrow> rx" where
  "alts [] = Chr (\<lambda>x. False)"
| "alts [r] = r"
| "alts (r # rs) = Alt r (alts rs)"

definition exactly :: "nat \<Rightarrow> rx \<Rightarrow> rx" where
  "exactly n r = Rep n (Some n) True r"

text \<open>\<open>\((\d{4})\)\<close>\<close>

definition rx_year :: rx where
  "rx_year = seqs [ch CHR ''('', Grp 1 (exactly 4 rx_digit), ch CHR '')'']"

text \<open>\<open>([A-Z][a-z]+(?:\s+[A-Z][a-z]+)*)\s+(\d+)\s*,\s*([a-z]?\d+)\<close>\<close>

definition rx_vol_article :: rx where
  "rx_vol_article =
     seqs [Grp 1 (seqs [rx_upper, plus rx_lower, star (seqs [plus rx_space, rx_upper, plus rx_lower])]),
           plus rx_space, Grp 2 (plus rx_digit), star rx_space, ch CHR '','', star rx_space,
           Grp 3 (seqs [opt rx_lower, plus rx_digit])]"

text \<open>\<open>(?:vol\.?\s*)?(\d+)\s*,\s*(?:no\.?\s*)?(\d+)\<close>, case-insensitive\<close>

definition rx_vol_issue :: rx where
  "rx_vol_issue =
     seqs [opt (seqs [liti ''vol'', opt (ch CHR ''.''), star rx_space]),
           Grp 1 (plus rx_digit), star rx_space, ch CHR '','', star rx_space,
           opt (seqs [liti ''no'', opt (ch CHR ''.''), star rx_space]),
           Grp 2 (plus rx_digit)]"

text \<open>\<open>\b(\d{3,4})\s*,\<close>\<close>

definition rx_vol :: rx where
  "rx_vol = seqs [WordB, Grp 1 (Rep 3 (Some 4) True rx_digit), star rx_space, ch CHR '','']"

text \<open>\<open>pp\.\s*([^,\s]+)\<close>, case-insensitive\<close>

definition rx_pages :: rx where
  "rx_pages = seqs [liti ''pp'', ch CHR ''.'', star rx_space,
                    Grp 1 (plus (Chr (\<lambda>x. x \<noteq> CHR '','' \<and> \<not> py_isspace x)))]"

text \<open>\<open>\.\s+([A-Z][^.]{20,})\<close>\<close>

definition rx_title_start :: rx where
  "rx_title_start = seqs [ch CHR ''.'', plus rx_space,
                          Grp 1 (seqs [rx_upper, Rep 20 None True (none_of ''.'')])]"

text \<open>\<open>\.\s+([^.]{10,}?)\s*\.\s+in\s+([^(]+?)\s*\(([^)]+),\s*(\d{4})\)\<close>, case-insensitive\<close>

definition rx_book_chapter :: rx where
  "rx_book_chapter =
     seqs [ch CHR ''.'', plus rx_space, Grp 1 (Rep 10 None False (none_of ''.'')), star rx_space,
           ch CHR ''.'', plus rx_space, liti ''in'', plus rx_space,
           Grp 2 (Rep 1 None False (none_of ''('')), star rx_space, ch CHR ''('',
           Grp 3 (plus (none_of '')'')), ch CHR '','', star rx_space,
           Grp 4 (exactly 4 rx_digit), ch CHR '')'']"

text \<open>\<open>^[A-Z]\.\s*[A-Z]\.?$\<close>\<close>

definition rx_initials :: rx where
  "rx_initials = seqs [Bol, rx_upper, ch CHR ''.'', star rx_space, rx_upper, opt (ch CHR ''.''), Eol]"

text \<open>\<open>\s+[a-z]+\.\d+\<close> (case-insensitive), \<open>\s+vol\.?\s*\d+\<close> (case-insensitive) and
  \<open>\s+\d+\<close>, the three clean-up patterns of the venue.\<close>

definition rx_article_id :: rx where
  "rx_article_id = seqs [plus rx_space, plus (Chr (\<lambda>x. ascii_lower x \<or> ascii_upper x)),
                         ch CHR ''.'', plus rx_digit]"

definition rx_vol_token :: rx where
  "rx_vol_token = seqs [plus rx_space, liti ''vol'', opt (ch CHR ''.''), star rx_space, plus rx_digit]"

definition rx_number_token :: rx where
  "rx_number_token = seqs [plus rx_space, plus rx_digit]"

text \<open>\<open>(January|...|December)\s+\d{4}\<close>\<close>

definition rx_date :: rx where
  "rx_date = seqs [Grp 1 (alts (map lit [''January'', ''February'', ''March'', ''April'', ''May'',
                     ''June'', ''July'', ''August'', ''September'', ''October'', ''November'',
                     ''December''])),
                   plus rx_space, exactly 4 rx_digit]"

text \<open>\<open>,\s*([A-Z][a-z]+(?:\s+[A-Z][a-z]+)?),\s*([A-Z]{2}|[A-Z][a-z]+)$\<close>\<close>

definition rx_location :: rx where
  "rx_location =
     seqs [ch CHR '','', star rx_space,
           Grp 1 (seqs [rx_upper, plus rx_lower, opt (seqs [plus rx_space, rx_upper, plus rx_lower])]),
           ch CHR '','', star rx_space,
           Grp 2 (Alt (exactly 2 rx_upper) (seqs [rx_upper, plus rx_lower])), Eol]"

record fallback_parsed =
  fb_title :: string
  fb_year :: "int option"
  fb_venue :: "string option"
  fb_volume :: "string option"
  fb_issue :: "string option"
  fb_pages :: "string option"
  fb_doi :: "string option"
  fb_date :: "string option"
  fb_location :: "string option"
  fb_authors :: "string list"
  fb_first_author_positions :: "nat list"

definition extract_year :: "string \<Rightarrow> int option" where
  "extract_year citation_text =
     (case re_search rx_year citation_text of
        Some m \<Rightarrow> Some (py_int (group citation_text m 1))
      | None \<Rightarrow> None)"

text \<open>\<open>citation_text.find(f"({year})")\<close>\<close>

definition find_year :: "string \<Rightarrow> int option \<Rightarrow> int" where
  "find_year citation_text year = py_find citation_text (''('' @ py_str_int (the year) @ '')'')"

text \<open>Volume, issue, pages and the venue detected with the volume (lines 551-600): the
  result is \<open>(volume, issue, pages, detected_venue_from_vol)\<close>.\<close>

definition volume_pattern1 :: "string \<Rightarrow> int option \<Rightarrow> string option \<times> string option \<times> string option \<times> string option" where
  "volume_pattern1 citation_text year =
     (case re_search rx_vol_article citation_text of
        None \<Rightarrow> (None, None, None, None)
      | Some m \<Rightarrow>
          (let potential_venue = group citation_text m 1;
               vol_num = group citation_text m 2;
               article_id = group citation_text m 3;
               vol_pos = int (m_start m);
               year_pos = (if truthy_int year then find_year citation_text year
                           else int (length citation_text))
           in if vol_pos < year_pos \<and> length (py_split_ws potential_venue) \<le> 3
              then (if startswith article_id ''e'' \<or> startswith article_id ''E''
                       \<or> startswith article_id ''a'' \<or> startswith article_id ''A''
                    then (Some vol_num, None, Some article_id, Some potential_venue)
                    else (Some vol_num, Some article_id, None, Some potential_venue))
              else (None, None, None, None)))"

definition volume_pattern2 :: "string \<Rightarrow> string option \<times> string option \<Rightarrow> string option \<times> string option" where
  "volume_pattern2 citation_text vi =
     (if \<not> truthy (fst vi)
      then (case re_search rx_vol_issue citation_text of
              Some m \<Rightarrow> (Some (group citation_text m 1), Some (group citation_text m 2))
            | None \<Rightarrow> vi)
      else vi)"

definition volume_pattern3 :: "string \<Rightarrow> int option \<Rightarrow> string option \<Rightarrow> string option" where
  "volume_pattern3 citation_text year volume =
     (if \<not> truthy volume
      then (case re_search rx_vol citation_text of
              Some m \<Rightarrow>
                (let vol_pos = int (m_start m);
                     year_pos = (if truthy_int year then find_year citation_text year else -1)
                 in if vol_pos < year_pos then Some (group citation_text m 1) else volume)
            | None \<Rightarrow> volume)
      else volume)"

definition extract_pages :: "string \<Rightarrow> string option \<Rightarrow> string option" where
  "extract_pages citation_text pages =
     (if \<not> truthy pages
      then (case re_search rx_pages citation_text of
              Some m \<Rightarrow> Some (group citation_text m 1)
            | None \<Rightarrow> pages)
      else pages)"

text \<open>\<open>[p.strip() for p in citation_text.split('.') if p.strip() and len(p.strip()) > 1]\<close>\<close>

definition period_parts :: "string \<Rightarrow> string list" where
  "period_parts citation_text =
     map py_strip (filter (\<lambda>p. py_strip p \<noteq> [] \<and> 1 < length (py_strip p))
                          (py_split CHR ''.'' citation_text))"

text \<open>The start of the first match of the title pattern; Python tests it for truth, so a
  match at offset 0 counts as no match.\<close>

definition title_start_pos :: "string \<Rightarrow> nat option" where
  "title_start_pos citation_text =
     (case re_search rx_title_start citation_text of
        Some m \<Rightarrow> if m_start m \<noteq> 0 then Some (m_start m) else None
      | None \<Rightarrow> None)"

text \<open>The author loop (lines 636-714) walks \<open>author_parts\<close> by index; the model recurses on
  the parts from index \<open>i\<close> on. \<open>add_author\<close> is the repeated
  \<open>normalized = normalize_author_name(...); if normalized: authors.append(normalized)\<close>.\<close>

definition add_author :: "string \<Rightarrow> string list" where
  "add_author author_name =
     (let normalized = normalize_author_name (py_rstrip_chars ''*'' author_name)
      in if normalized \<noteq> [] then [normalized] else [])"

definition add_standalone :: "string \<Rightarrow> string list" where
  "add_standalone current = (if current \<noteq> [] \<and> 2 \<le> length current then add_author current else [])"

fun parse_author_parts :: "string list \<Rightarrow> string list" where
  "parse_author_parts [] = []"
| "parse_author_parts [current] = add_standalone current"
| "parse_author_parts (current # next_part # others) =
     (if endswith next_part ''.''
      then add_author (current @ '', '' @ next_part) @ parse_author_parts others
      else if CHR ''.'' \<in> set next_part \<and> length next_part \<le> 6
      then (case others of
              [] \<Rightarrow> add_author (current @ '', '' @ next_part @ ''.'') @ parse_author_parts others
            | third # others' \<Rightarrow>
                if py_strip third = []
                then add_author (current @ '', '' @ next_part @ ''.'') @ parse_author_parts others
                else if endswith third ''.''
                then add_author (current @ '', '' @ next_part @ '', '' @ third) @ parse_author_parts others'
                else add_standalone current @ parse_author_parts (next_part # others))
      else (case others of
              third # others' \<Rightarrow>
                if endswith third ''.''
                then add_author (current @ '', '' @ next_part @ '', '' @ third) @ parse_author_parts others'
                else add_standalone current @ parse_author_parts (next_part # others)
            | [] \<Rightarrow> add_standalone current @ parse_author_parts (next_part # others)))"

definition parse_authors :: "string \<Rightarrow> string list" where
  "parse_authors author_text =
     (let author_text' = py_replace '' & '' '', '' author_text;
          author_parts = map py_strip (filter (\<lambda>p. py_strip p \<noteq> []) (py_split CHR '','' author_text'))
      in parse_author_parts author_parts)"

text \<open>Title candidates (lines 777-795): \<open>(len(part), word_count, i, part)\<close> for the parts
  after the first that pass the filters, \<open>i\<close> counting from 1.\<close>

definition skip_part :: "string \<Rightarrow> bool" where
  "skip_part part =
     (length part < 10 \<or> startswith part ''('' \<or> contains ''doi:'' (py_lower part)
      \<or> (case part of [] \<Rightarrow> False | c # _ \<Rightarrow> py_isdigit c)
      \<or> re_match rx_initials (py_strip part) \<noteq> None)"

fun title_candidates :: "nat \<Rightarrow> string list \<Rightarrow> (nat \<times> nat \<times> nat \<times> string) list" where
  "title_candidates i [] = []"
| "title_candidates i (part # ps) =
     (if skip_part part then title_candidates (Suc i) ps
      else (let word_count = length (py_split_ws part)
            in if 3 < word_count
               then (length part, word_count, i, part) # title_candidates (Suc i) ps
               else title_candidates (Suc i) ps))"

text \<open>\<open>max(title_candidates, key=lambda x: (x[1], x[0]))\<close>: the first candidate whose
  \<open>(word_count, len)\<close> is largest.\<close>

definition key_less :: "nat \<times> nat \<times> nat \<times> string \<Rightarrow> nat \<times> nat \<times> nat \<times> string \<Rightarrow> bool" where
  "key_less a b = (fst (snd a) < fst (snd b) \<or> (fst (snd a) = fst (snd b) \<and> fst a < fst b))"

fun max_candidate :: "nat \<times> nat \<times> nat \<times> string \<Rightarrow> (nat \<times> nat \<times> nat \<times> string) list \<Rightarrow> nat \<times> nat \<times> nat \<times> string" where
  "max_candidate best [] = best"
| "max_candidate best (c # cs) = max_candidate (if key_less best c then c else best) cs"

text \<open>The title and its index among the parts (lines 772-810); \<open>None\<close> is the
  \<open>return None\<close> of the source.\<close>

definition select_title :: "string list \<Rightarrow> (string \<times> nat) option" where
  "select_title parts =
     (case title_candidates 1 (tl parts) of
        c # cs \<Rightarrow> (let best = max_candidate c cs in Some (snd (snd (snd best)), fst (snd (snd best))))
      | [] \<Rightarrow>
          (if 1 < length parts
           then (if 3 < length (py_split_ws (parts ! 1)) then Some (parts ! 1, 1) else None)
           else None))"

text \<open>The venue (lines 813-850).\<close>

definition venue_keywords :: "string list" where
  "venue_keywords = [''Journal'', ''Radiology'', ''Cancer'', ''Meeting'', ''Symposium'',
                     ''Conference'', ''Society'', ''Press'', ''Engineering'', ''Science'']"

fun first_index_containing :: "string \<Rightarrow> nat \<Rightarrow> string list \<Rightarrow> nat option" where
  "first_index_containing title i [] = None"
| "first_index_containing title i (part # ps) =
     (if title \<noteq> [] \<and> contains title part then Some i else first_index_containing title (Suc i) ps)"

definition venue_candidate :: "string list \<Rightarrow> string \<Rightarrow> nat \<Rightarrow> string option" where
  "venue_candidate parts title title_index =
     (if title_index + 1 < length parts then Some (parts ! (title_index + 1))
      else (case first_index_containing title 0 parts of
              Some found_title_index \<Rightarrow>
                if found_title_index + 1 < length parts then Some (parts ! (found_title_index + 1))
                else None
            | None \<Rightarrow> None))"

definition venue_from_candidate :: "string \<Rightarrow> string option" where
  "venue_from_candidate cand =
     (let venue_clean = py_strip (re_sub rx_number_token [] (re_sub rx_vol_token [] (re_sub rx_article_id [] cand)))
      in if venue_clean \<noteq> []
         then (if list_ex (\<lambda>kw. contains kw venue_clean) venue_keywords then Some venue_clean
               else if 2 \<le> length (py_split_ws venue_clean) \<and> length (py_split_ws venue_clean) \<le> 4
                       \<and> py_isupper (hd venue_clean) then Some venue_clean
               else if length (py_split_ws venue_clean) = 1 \<and> py_isupper (hd venue_clean)
                       \<and> 3 < length venue_clean then Some venue_clean
               else None)
         else None)"

definition find_venue :: "string option \<Rightarrow> string list \<Rightarrow> string \<Rightarrow> nat \<Rightarrow> string option" where
  "find_venue detected_venue_from_vol parts title title_index =
     (if \<not> truthy detected_venue_from_vol
      then (case venue_candidate parts title title_index of
              Some cand \<Rightarrow>
                (if cand \<noteq> []
                 then (case venue_from_candidate cand of Some v \<Rightarrow> Some v | None \<Rightarrow> detected_venue_from_vol)
                 else detected_venue_from_vol)
            | None \<Rightarrow> detected_venue_from_vol)
      else detected_venue_from_vol)"

definition extract_date :: "string \<Rightarrow> string option" where
  "extract_date citation_text =
     (case re_search rx_date citation_text of Some m \<Rightarrow> Some (group0 citation_text m) | None \<Rightarrow> None)"

definition extract_location :: "string \<Rightarrow> string option" where
  "extract_location citation_text =
     (case re_search rx_location citation_text of
        Some m \<Rightarrow> Some (group citation_text m 1 @ '', '' @ group citation_text m 2)
      | None \<Rightarrow> None)"

text \<open>First-author positions (lines 867-884).\<close>

fun marked_authors :: "string \<Rightarrow> nat \<Rightarrow> string list \<Rightarrow> nat list" where
  "marked_authors author_section i [] = []"
| "marked_authors author_section i (author # as) =
     (if CHR ''*'' \<in> set author_section \<and> contains author author_section
      then (i + 1) # marked_authors author_section (Suc i) as
      else marked_authors author_section (Suc i) as)"

definition fallback_first_authors :: "string \<Rightarrow> string list \<Rightarrow> string \<Rightarrow> string list \<Rightarrow> nat list" where
  "fallback_first_authors citation_text parts title authors =
     (let author_section = (if contains title citation_text
                            then take (nat (py_find citation_text title)) citation_text
                            else hd parts);
          first_author_indices = marked_authors author_section 0 authors
      in if first_author_indices \<noteq> [] then first_author_indices
         else if authors \<noteq> [] then [1] else [])"

text \<open>\<open>parse_citation_fallback\<close>. Lines 744-762 of the source compute \<open>author_end_pos\<close>,
  which nothing reads afterwards; they have no effect and are left out.\<close>

definition book_chapter_result :: "string \<Rightarrow> rmatch_result \<Rightarrow> string option \<Rightarrow> string list \<Rightarrow> fallback_parsed" where
  "book_chapter_result citation_text m doi authors =
     \<lparr> fb_title = py_strip (group citation_text m 1),
       fb_year = Some (py_int (group citation_text m 4)),
       fb_venue = Some (py_strip (group citation_text m 2)),
       fb_volume = None, fb_issue = None, fb_pages = None,
       fb_doi = doi, fb_date = None, fb_location = None,
       fb_authors = authors,
       fb_first_author_positions = (if authors \<noteq> [] then [1] else []) \<rparr>"

definition parse_citation_fallback :: "string \<Rightarrow> fallback_parsed option" where
  "parse_citation_fallback raw_text =
     (let citation_text = py_strip raw_text
      in if citation_text = [] \<or> length citation_text < 20 then None
         else
          (let year = extract_year citation_text;
               doi = extract_doi citation_text;
               p1 = volume_pattern1 citation_text year;
               detected_venue_from_vol = snd (snd (snd p1));
               p2 = volume_pattern2 citation_text (fst p1, fst (snd p1));
               volume = volume_pattern3 citation_text year (fst p2);
               issue = snd p2;
               pages = extract_pages citation_text (fst (snd (snd p1)));
               tsp = title_start_pos citation_text
           in if tsp = None \<and> length (period_parts citation_text) < 2 then None
              else
               (let author_text = (case tsp of
                                     Some p \<Rightarrow> py_strip (take p citation_text)
                                   | None \<Rightarrow> hd (period_parts citation_text));
                    authors = parse_authors author_text
                in case re_search rx_book_chapter citation_text of
                     Some m \<Rightarrow> Some (book_chapter_result citation_text m doi authors)
                   | None \<Rightarrow>
                       (let parts = period_parts citation_text
                        in if length parts < 2 then None
                           else (case select_title parts of
                                   None \<Rightarrow> None
                                 | Some (title, title_index) \<Rightarrow>
                                     if title = [] then None
                                     else Some \<lparr> fb_title = title,
                                                 fb_year = year,
                                                 fb_venue = find_venue detected_venue_from_vol parts title title_index,
                                                 fb_volume = volume,
                                                 fb_issue = issue,
                                                 fb_pages = pages,
                                                 fb_doi = doi,
                                                 fb_date = extract_date citation_text,
                                                 fb_location = extract_location citation_text,
                                                 fb_authors = authors,
                                                 fb_first_author_positions =
                                                   fallback_first_authors citation_text parts title authors \<rparr>)))))"

section \<open>External metadata providers\<close>

text \<open>
  The three providers are capabilities outside the program: a GROBID server, the Crossref
  registry and the OpenAlex search. The environment records whether each is available
  (the module-level flags of the source) and what it answers. What the source does with an
  answer before it reaches \<open>parse_citation\<close> is part of the answer: the records below are
  the dictionaries that \<open>parse_with_grobid\<close>, \<open>lookup_doi_metadata\<close> and \<open>lookup_openalex\<close>
  return, a key that a dictionary lacks being \<open>None\<close> wherever it is read with \<open>get\<close>.
\<close>

datatype py_error = AttributeError | TypeError | ValueError | KeyError | IndexError
  | OverflowError | Unmodelled

record grobid_md =
  g_title :: "string option"
  g_authors :: "string list"
  g_venue :: "string option"
  g_year :: "int option"
  g_volume :: "string option"
  g_issue :: "string option"
  g_pages :: "string option"
  g_doi :: "string option"

record crossref_md =
  c_title :: "string option"
  c_authors :: "string list"
  c_venue :: "string option"
  c_year :: "int option"
  c_volume :: "string option"
  c_issue :: "string option"
  c_pages :: "string option"
  c_doi :: "string option"
  c_abstract :: "string option"
  c_url :: "string option"
  c_keywords :: "string option"
  c_subject_area :: "string option"
  c_citation_count :: "int option"

record openalex_md =
  o_title :: "string option"
  o_authors :: "string list"
  o_venue :: "string option"
  o_year :: "int option"
  o_doi :: "string option"
  o_url :: "string option"
  o_citation_count :: "int option"
  o_abstract :: "string option"
  o_keywords :: "string option"

record env =
  GROBID_AVAILABLE :: bool
  HABANERO_AVAILABLE :: bool
  OPENALEX_AVAILABLE :: bool
  grobid_answer :: "string \<Rightarrow> grobid_md option"
  crossref_answer :: "string \<Rightarrow> crossref_md option"
  openalex_answer :: "string \<Rightarrow> string option \<Rightarrow> string list \<Rightarrow> int option \<Rightarrow> openalex_md option"

text \<open>\<open>parse_with_grobid\<close> returns a dictionary only when it has a title.\<close>

definition parse_with_grobid :: "env \<Rightarrow> string \<Rightarrow> grobid_md option" where
  "parse_with_grobid e citation_text =
     (if \<not> GROBID_AVAILABLE e then None
      else (case grobid_answer e citation_text of
              Some g \<Rightarrow> if truthy (g_title g) then Some g else None
            | None \<Rightarrow> None))"

text \<open>\<open>lookup_doi_metadata\<close> cleans the identifier and asks the registry.\<close>

definition lookup_doi_metadata :: "env \<Rightarrow> string \<Rightarrow> crossref_md option" where
  "lookup_doi_metadata e doi =
     (if \<not> HABANERO_AVAILABLE e then None else crossref_answer e (clean_doi doi))"

text \<open>\<open>lookup_openalex\<close> searches only for a title of more than ten characters. The search
  string is the title cut to 200 characters, and the title itself is the default of the
  answer's title, so the answer is a function of the title.\<close>

definition lookup_openalex :: "env \<Rightarrow> string \<Rightarrow> string option \<Rightarrow> string list \<Rightarrow> int option \<Rightarrow> openalex_md option" where
  "lookup_openalex e citation_text title authors year =
     (if \<not> OPENALEX_AVAILABLE e then None
      else if truthy title \<and> 10 < length (py_strip (the title))
      then openalex_answer e citation_text title authors year
      else None)"

section \<open>The fusion engine\<close>

record parsed =
  p_type :: string
  p_title :: "string option"
  p_year :: "int option"
  p_venue :: "string option"
  p_volume :: "string option"
  p_issue :: "string option"
  p_pages :: "string option"
  p_doi :: "string option"
  p_abstract :: "string option"
  p_url :: "string option"
  p_keywords :: "string option"
  p_subject_area :: "string option"
  p_citation_count :: "int option"
  p_authors :: "string list"
  p_first_author_positions :: "nat list"
  p_date :: "string option"
  p_location :: "string option"
  p_status :: "string option"
  p_abstract_number :: "string option"

text \<open>\<open>determine_entry_type\<close>, the nested function of \<open>parse_citation\<close> used on the first
  three paths.\<close>

definition meeting_keywords :: "string list" where
  "meeting_keywords = [''meeting'', ''symposium'', ''conference'', ''workshop'', ''retreat'', ''annual'']"

definition determine_entry_type :: "string \<Rightarrow> string \<Rightarrow> string" where
  "determine_entry_type default_type citation_lower =
     (if default_type \<in> set [''oral_presentation'', ''poster_abstract'']
      then (if default_type = ''oral_presentation''
               \<and> (contains ''poster'' citation_lower \<or> contains ''abstract'' citation_lower)
            then ''poster_abstract''
            else if default_type = ''poster_abstract''
               \<and> (contains ''oral'' citation_lower \<or> contains ''presentation'' citation_lower)
            then ''oral_presentation''
            else default_type)
      else if list_ex (\<lambda>kw. contains kw citation_lower) meeting_keywords
      then (if contains ''oral'' citation_lower \<or> contains ''presentation'' citation_lower
            then ''oral_presentation''
            else if contains ''poster'' citation_lower \<or> contains ''abstract'' citation_lower
            then ''poster_abstract''
            else ''oral_presentation'')
      else if contains ''patent'' citation_lower then ''patent''
      else if contains ''chapter'' citation_lower then ''book_chapter''
      else default_type)"

text \<open>The same decision as the fourth path writes it inline (lines 1131-1158).\<close>

definition fallback_entry_type :: "string \<Rightarrow> string \<Rightarrow> string" where
  "fallback_entry_type default_type citation_lower =
     (if default_type \<in> set [''oral_presentation'', ''poster_abstract'']
      then (if default_type = ''oral_presentation''
               \<and> (contains ''poster'' citation_lower \<or> contains ''abstract'' citation_lower)
            then ''poster_abstract''
            else if default_type = ''poster_abstract''
               \<and> (contains ''oral'' citation_lower \<or> contains ''presentation'' citation_lower)
            then ''oral_presentation''
            else default_type)
      else if list_ex (\<lambda>kw. contains kw citation_lower) meeting_keywords
      then (if contains ''oral'' citation_lower \<or> contains ''presentation'' citation_lower
            then ''oral_presentation''
            else if contains ''poster'' citation_lower \<or> contains ''abstract'' citation_lower
            then ''poster_abstract''
            else ''oral_presentation'')
      else if contains ''patent'' citation_lower then ''patent''
      else if contains ''chapter'' citation_lower \<or> contains ''book'' citation_lower then ''book_chapter''
      else default_type)"

text \<open>\<open>(pending|granted|issued)\<close>, searched in the lowered text of a patent.\<close>

definition rx_status :: rx where
  "rx_status = Grp 1 (alts (map lit [''pending'', ''granted'', ''issued'']))"

definition fallback_status :: "string \<Rightarrow> string \<Rightarrow> string option" where
  "fallback_status default_type citation_lower =
     (if default_type \<in> set [''oral_presentation'', ''poster_abstract''] then None
      else if list_ex (\<lambda>kw. contains kw citation_lower) meeting_keywords then None
      else if contains ''patent'' citation_lower
      then (case re_search rx_status citation_lower of
              Some m \<Rightarrow> Some (group citation_lower m 1)
            | None \<Rightarrow> None)
      else None)"

text \<open>\<open>extract_first_author_positions\<close>. With a title that is \<open>None\<close> the test
  \<open>title in citation_text\<close> raises \<open>TypeError\<close>.\<close>

fun marked_surnames :: "string \<Rightarrow> nat \<Rightarrow> string list \<Rightarrow> nat list" where
  "marked_surnames author_section i [] = []"
| "marked_surnames author_section i (author # as) =
     (if CHR ''*'' \<in> set author_section \<and> contains (hd (py_split CHR '','' author)) author_section
      then i # marked_surnames author_section (Suc i) as
      else marked_surnames author_section (Suc i) as)"

definition extract_first_author_positions :: "string list \<Rightarrow> string \<Rightarrow> string option \<Rightarrow> py_error + nat list" where
  "extract_first_author_positions authors citation_text title =
     (if authors \<noteq> []
      then (case title of
              None \<Rightarrow> Inl TypeError
            | Some t \<Rightarrow>
                (let author_section = (if contains t citation_text
                                       then take (nat (py_find citation_text t)) citation_text
                                       else []);
                     first_author_indices = marked_surnames author_section 1 authors
                 in Inr (if first_author_indices \<noteq> [] then first_author_indices else [1])))
      else Inr [])"

text \<open>The enrichment fields of the dictionary being built, and the two ways the source
  merges a provider's answer into them: the \<open>metadata.update({...})\<close> block used for a
  Crossref answer (lines 972-978, 1005-1011 and 1176-1180), and the four \<open>if not ...\<close>
  statements used for an OpenAlex answer (lines 1014-1021).\<close>

record enrichment =
  en_abstract :: "string option"
  en_url :: "string option"
  en_keywords :: "string option"
  en_subject_area :: "string option"
  en_citation_count :: "int option"

definition no_enrichment :: enrichment where
  "no_enrichment = \<lparr> en_abstract = None, en_url = None, en_keywords = None,
                      en_subject_area = None, en_citation_count = None \<rparr>"

definition crossref_merge :: "enrichment \<Rightarrow> crossref_md \<Rightarrow> enrichment" where
  "crossref_merge metadata crossref_metadata =
     \<lparr> en_abstract = py_or (c_abstract crossref_metadata) (en_abstract metadata),
       en_url = py_or (c_url crossref_metadata) (en_url metadata),
       en_keywords = py_or (c_keywords crossref_metadata) (en_keywords metadata),
       en_subject_area = py_or (c_subject_area crossref_metadata) (en_subject_area metadata),
       en_citation_count = py_or_int (c_citation_count crossref_metadata) (en_citation_count metadata) \<rparr>"

definition openalex_fill :: "enrichment \<Rightarrow> openalex_md \<Rightarrow> enrichment" where
  "openalex_fill metadata openalex_metadata =
     \<lparr> en_abstract = (if \<not> truthy (en_abstract metadata) \<and> truthy (o_abstract openalex_metadata)
                      then o_abstract openalex_metadata else en_abstract metadata),
       en_url = (if \<not> truthy (en_url metadata) \<and> truthy (o_url openalex_metadata)
                 then o_url openalex_metadata else en_url metadata),
       en_keywords = (if \<not> truthy (en_keywords metadata) \<and> truthy (o_keywords openalex_metadata)
                      then o_keywords openalex_metadata else en_keywords metadata),
       en_subject_area = en_subject_area metadata,
       en_citation_count = (if \<not> truthy_int (en_citation_count metadata)
                               \<and> truthy_int (o_citation_count openalex_metadata)
                            then o_citation_count openalex_metadata else en_citation_count metadata) \<rparr>"

text \<open>Path 1 after GROBID has answered. \<open>doi\<close> is the local variable of that name, fixed
  before the two stages; the pair is the \<open>'doi'\<close> entry of the dictionary and its
  enrichment fields. The Crossref stage is lines 966-983, the OpenAlex stage lines 986-1021.
  Within the OpenAlex stage, \<open>openalex_doi\<close> is the local variable of lines 994-997,
  \<open>grobid_registry_stage\<close> the registry lookup with the identifier that OpenAlex found
  (lines 1000-1011), and \<open>openalex_fill\<close> the merge of lines 1014-1021 that follows it.\<close>

definition grobid_crossref_stage :: "env \<Rightarrow> string option \<Rightarrow> string option \<times> enrichment \<Rightarrow> string option \<times> enrichment" where
  "grobid_crossref_stage e doi md =
     (if truthy doi \<and> HABANERO_AVAILABLE e
      then (let md_doi = (if \<not> truthy (fst md) then doi else fst md)
            in case lookup_doi_metadata e (the doi) of
                 Some crossref_metadata \<Rightarrow>
                   (let merged = crossref_merge (snd md) crossref_metadata
                    in if truthy (c_url crossref_metadata) \<and> \<not> truthy md_doi
                       then (case extract_doi_from_url (c_url crossref_metadata) of
                               Some url_doi \<Rightarrow> (if url_doi \<noteq> [] then Some url_doi else md_doi, merged)
                             | None \<Rightarrow> (md_doi, merged))
                       else (md_doi, merged))
               | None \<Rightarrow> (md_doi, snd md))
      else md)"

definition openalex_doi :: "openalex_md \<Rightarrow> string option" where
  "openalex_doi openalex_metadata =
     (if \<not> truthy (o_doi openalex_metadata) \<and> truthy (o_url openalex_metadata)
      then extract_doi_from_url (o_url openalex_metadata)
      else o_doi openalex_metadata)"

definition grobid_registry_stage :: "env \<Rightarrow> string option \<Rightarrow> openalex_md \<Rightarrow> string option \<times> enrichment \<Rightarrow> string option \<times> enrichment" where
  "grobid_registry_stage e doi openalex_metadata md =
     (if \<not> truthy doi \<and> truthy (openalex_doi openalex_metadata) \<and> HABANERO_AVAILABLE e
      then (case lookup_doi_metadata e (the (openalex_doi openalex_metadata)) of
              Some crossref_metadata \<Rightarrow>
                (openalex_doi openalex_metadata, crossref_merge (snd md) crossref_metadata)
            | None \<Rightarrow> (openalex_doi openalex_metadata, snd md))
      else md)"

definition grobid_openalex_stage :: "env \<Rightarrow> string \<Rightarrow> grobid_md \<Rightarrow> string option \<Rightarrow> string option \<times> enrichment \<Rightarrow> string option \<times> enrichment" where
  "grobid_openalex_stage e citation_text g doi md =
     (if OPENALEX_AVAILABLE e \<and> truthy (g_title g)
      then (case lookup_openalex e citation_text (g_title g) (g_authors g) (g_year g) of
              Some openalex_metadata \<Rightarrow>
                (let md' = grobid_registry_stage e doi openalex_metadata md
                 in (fst md', openalex_fill (snd md') openalex_metadata))
            | None \<Rightarrow> md)
      else md)"

definition grobid_path :: "env \<Rightarrow> string \<Rightarrow> string \<Rightarrow> grobid_md \<Rightarrow> py_error + parsed" where
  "grobid_path e default_type citation_text g =
     (let entry_type = determine_entry_type default_type (py_lower citation_text)
      in case extract_first_author_positions (g_authors g) citation_text (g_title g) of
           Inl err \<Rightarrow> Inl err
         | Inr first_author_indices \<Rightarrow>
             (let doi = py_or (g_doi g) (extract_doi citation_text);
                  md1 = grobid_crossref_stage e doi (g_doi g, no_enrichment);
                  md2 = grobid_openalex_stage e citation_text g doi md1
              in Inr \<lparr> p_type = entry_type, p_title = g_title g, p_year = g_year g,
                       p_venue = g_venue g, p_volume = g_volume g, p_issue = g_issue g,
                       p_pages = g_pages g, p_doi = fst md2,
                       p_abstract = en_abstract (snd md2), p_url = en_url (snd md2),
                       p_keywords = en_keywords (snd md2), p_subject_area = en_subject_area (snd md2),
                       p_citation_count = en_citation_count (snd md2),
                       p_authors = g_authors g, p_first_author_positions = first_author_indices,
                       p_date = None, p_location = None, p_status = None, p_abstract_number = None \<rparr>))"

text \<open>Path 2: the registry answers for the identifier found in the text.\<close>

definition crossref_path :: "string \<Rightarrow> string \<Rightarrow> string \<Rightarrow> crossref_md \<Rightarrow> py_error + parsed" where
  "crossref_path default_type citation_text doi metadata =
     (let entry_type = determine_entry_type default_type (py_lower citation_text)
      in case extract_first_author_positions (c_authors metadata) citation_text (c_title metadata) of
           Inl err \<Rightarrow> Inl err
         | Inr first_author_indices \<Rightarrow>
             Inr \<lparr> p_type = entry_type, p_title = c_title metadata, p_year = c_year metadata,
                   p_venue = c_venue metadata, p_volume = c_volume metadata, p_issue = c_issue metadata,
                   p_pages = c_pages metadata, p_doi = Some doi,
                   p_abstract = c_abstract metadata, p_url = c_url metadata,
                   p_keywords = c_keywords metadata, p_subject_area = c_subject_area metadata,
                   p_citation_count = c_citation_count metadata,
                   p_authors = c_authors metadata, p_first_author_positions = first_author_indices,
                   p_date = None, p_location = None, p_status = None, p_abstract_number = None \<rparr>)"

text \<open>Path 3: the regex skeleton enriched by an OpenAlex answer, then by Crossref
  (lines 1082-1125). \<open>search_path_doi\<close> is the identifier before the registry is asked
  (lines 1091-1096), \<open>search_path_crossref\<close> the registry's answer (lines 1099-1101).\<close>

definition search_path_doi :: "string \<Rightarrow> fallback_parsed \<Rightarrow> openalex_md \<Rightarrow> string option" where
  "search_path_doi citation_text fallback_parsed openalex_metadata =
     (let doi0 = py_or (o_doi openalex_metadata) (py_or (fb_doi fallback_parsed) (extract_doi citation_text))
      in if \<not> truthy doi0 \<and> truthy (o_url openalex_metadata)
         then extract_doi_from_url (o_url openalex_metadata) else doi0)"

definition search_path_crossref :: "env \<Rightarrow> string \<Rightarrow> fallback_parsed \<Rightarrow> openalex_md \<Rightarrow> crossref_md option" where
  "search_path_crossref e citation_text fallback_parsed openalex_metadata =
     (let doi1 = search_path_doi citation_text fallback_parsed openalex_metadata
      in if truthy doi1 \<and> HABANERO_AVAILABLE e then lookup_doi_metadata e (the doi1) else None)"

definition openalex_path :: "env \<Rightarrow> string \<Rightarrow> string \<Rightarrow> fallback_parsed \<Rightarrow> openalex_md \<Rightarrow> py_error + parsed" where
  "openalex_path e default_type citation_text fallback_parsed openalex_metadata =
     (let entry_type = determine_entry_type default_type (py_lower citation_text);
          authors = (if o_authors openalex_metadata \<noteq> [] then o_authors openalex_metadata
                     else fb_authors fallback_parsed)
      in case extract_first_author_positions authors citation_text (o_title openalex_metadata) of
           Inl err \<Rightarrow> Inl err
         | Inr first_author_indices \<Rightarrow>
             (let doi1 = search_path_doi citation_text fallback_parsed openalex_metadata;
                  crossref_metadata = search_path_crossref e citation_text fallback_parsed openalex_metadata;
                  doi = (case crossref_metadata of
                           Some cr \<Rightarrow>
                             (if truthy (c_url cr)
                              then (let url_doi = extract_doi_from_url (c_url cr)
                                    in if truthy url_doi \<and> url_doi \<noteq> doi1 then url_doi else doi1)
                              else doi1)
                         | None \<Rightarrow> doi1)
              in Inr \<lparr> p_type = entry_type,
                       p_title = o_title openalex_metadata,
                       p_year = py_or_int (o_year openalex_metadata) (fb_year fallback_parsed),
                       p_venue = py_or (o_venue openalex_metadata) (fb_venue fallback_parsed),
                       p_volume = fb_volume fallback_parsed,
                       p_issue = fb_issue fallback_parsed,
                       p_pages = py_or None (fb_pages fallback_parsed),
                       p_doi = doi,
                       p_abstract = py_or (case crossref_metadata of Some cr \<Rightarrow> c_abstract cr | None \<Rightarrow> None)
                                          (o_abstract openalex_metadata),
                       p_url = py_or (case crossref_metadata of Some cr \<Rightarrow> c_url cr | None \<Rightarrow> None)
                                     (o_url openalex_metadata),
                       p_keywords = py_or (case crossref_metadata of Some cr \<Rightarrow> c_keywords cr | None \<Rightarrow> None)
                                          (o_keywords openalex_metadata),
                       p_subject_area = (case crossref_metadata of Some cr \<Rightarrow> c_subject_area cr | None \<Rightarrow> None),
                       p_citation_count = py_or_int (case crossref_metadata of Some cr \<Rightarrow> c_citation_count cr
                                                     | None \<Rightarrow> None)
                                                    (o_citation_count openalex_metadata),
                       p_authors = authors, p_first_author_positions = first_author_indices,
                       p_date = None, p_location = None, p_status = None, p_abstract_number = None \<rparr>))"

text \<open>Path 4: the regex skeleton alone, enriched by Crossref when an identifier is known
  (lines 1128-1188).\<close>

definition fallback_path :: "env \<Rightarrow> string \<Rightarrow> string \<Rightarrow> fallback_parsed \<Rightarrow> parsed" where
  "fallback_path e default_type citation_text fb =
     (let citation_lower = py_lower citation_text;
          entry_type = fallback_entry_type default_type citation_lower;
          status = fallback_status default_type citation_lower;
          doi = py_or (fb_doi fb) (extract_doi citation_text);
          base = \<lparr> p_type = entry_type, p_title = Some (fb_title fb), p_year = fb_year fb,
                   p_venue = fb_venue fb, p_volume = fb_volume fb, p_issue = fb_issue fb,
                   p_pages = fb_pages fb, p_doi = fb_doi fb,
                   p_abstract = None, p_url = None, p_keywords = None, p_subject_area = None,
                   p_citation_count = None,
                   p_authors = fb_authors fb, p_first_author_positions = fb_first_author_positions fb,
                   p_date = fb_date fb, p_location = fb_location fb, p_status = status,
                   p_abstract_number = None \<rparr>
      in if truthy doi \<and> HABANERO_AVAILABLE e
         then (case lookup_doi_metadata e (the doi) of
                 Some crossref_metadata \<Rightarrow>
                   (let merged = crossref_merge no_enrichment crossref_metadata;
                        url_doi = (if truthy (c_url crossref_metadata)
                                   then extract_doi_from_url (c_url crossref_metadata) else None)
                    in base \<lparr> p_doi := (if truthy url_doi then url_doi else doi),
                              p_abstract := en_abstract merged, p_url := en_url merged,
                              p_keywords := en_keywords merged,
                              p_subject_area := en_subject_area merged,
                              p_citation_count := en_citation_count merged \<rparr>)
               | None \<Rightarrow> base)
         else base)"

definition parse_citation :: "env \<Rightarrow> string \<Rightarrow> string \<Rightarrow> py_error + parsed option" where
  "parse_citation e raw_text default_type =
     (let citation_text = py_strip raw_text
      in if citation_text = [] \<or> length citation_text < 20 then Inr None
         else
          (case (if GROBID_AVAILABLE e then parse_with_grobid e citation_text else None) of
             Some g \<Rightarrow> map_sum id Some (grobid_path e default_type citation_text g)
           | None \<Rightarrow>
              (let doi = extract_doi citation_text
               in case (if truthy doi \<and> HABANERO_AVAILABLE e
                        then (case lookup_doi_metadata e (the doi) of
                                Some metadata \<Rightarrow> if truthy (c_title metadata) then Some metadata else None
                              | None \<Rightarrow> None)
                        else None) of
                    Some metadata \<Rightarrow> map_sum id Some (crossref_path default_type citation_text (the doi) metadata)
                  | None \<Rightarrow>
                     (case (if OPENALEX_AVAILABLE e
                            then (case parse_citation_fallback citation_text of
                                    Some fb \<Rightarrow>
                                      (if fb_title fb \<noteq> []
                                       then map_option (Pair fb)
                                              (lookup_openalex e citation_text (Some (fb_title fb))
                                                 (fb_authors fb) (fb_year fb))
                                       else None)
                                  | None \<Rightarrow> None)
                            else None) of
                        Some (fb, openalex_metadata) \<Rightarrow>
                          map_sum id Some (openalex_path e default_type citation_text fb openalex_metadata)
                      | None \<Rightarrow>
                         (case parse_citation_fallback citation_text of
                            Some fb \<Rightarrow> Inr (Some (fallback_path e default_type citation_text fb))
                          | None \<Rightarrow> Inr None)))))"

section \<open>The store\<close>

text \<open>
  \<open>Entry\<close>, \<open>Author\<close> and \<open>EntryAuthor\<close> are the dataclasses of \<open>models.py\<close>, field by
  field (the two timestamps of \<open>Entry\<close> are left out: no operation below reads them). The
  store is the three tables of the SQLite database, each a list of rows in rowid order; a
  row of the table of entries is its id, the columns that an \<open>Entry\<close> has, and the column
  \<open>project_area\<close>.
\<close>

record entry =
  e_id :: "nat option"
  e_type :: string
  e_title :: "string option"
  e_year :: "int option"
  e_venue :: "string option"
  e_volume :: "string option"
  e_issue :: "string option"
  e_pages :: "string option"
  e_doi :: "string option"
  e_abstract_number :: "string option"
  e_date :: "string option"
  e_location :: "string option"
  e_status :: "string option"
  e_abstract :: "string option"
  e_url :: "string option"
  e_keywords :: "string option"
  e_subject_area :: "string option"
  e_citation_count :: "int option"
  e_anum_position :: "nat option"

record author =
  a_id :: "nat option"
  a_name :: string
  a_is_anum :: bool

record entry_author =
  ea_entry_id :: nat
  ea_author_id :: nat
  ea_position :: nat
  ea_is_first_author :: bool
  ea_is_corresponding :: bool

record entry_row =
  er_id :: nat
  er_entry :: entry
  er_project_area :: "string option"

record author_row =
  ar_id :: nat
  ar_name :: string
  ar_is_anum :: bool

record db =
  entries :: "entry_row list"
  authors :: "author_row list"
  entry_authors :: "entry_author list"

abbreviation er_title :: "entry_row \<Rightarrow> string option" where
  "er_title r \<equiv> e_title (er_entry r)"

abbreviation er_year :: "entry_row \<Rightarrow> int option" where
  "er_year r \<equiv> e_year (er_entry r)"

abbreviation er_doi :: "entry_row \<Rightarrow> string option" where
  "er_doi r \<equiv> e_doi (er_entry r)"

text \<open>SQLite's \<open>TRIM(X)\<close> removes spaces (code 32) from both ends and nothing else; its
  \<open>LOWER(X)\<close> changes the ASCII letters and nothing else. A \<open>NULL\<close> argument gives
  \<open>NULL\<close>, which equals nothing.\<close>

definition sql_trim :: "string \<Rightarrow> string" where
  "sql_trim s = rev (dropWhile (\<lambda>c. c = CHR '' '') (rev (dropWhile (\<lambda>c. c = CHR '' '') s)))"

definition sql_lower :: "string \<Rightarrow> string" where
  "sql_lower s = map (\<lambda>c. if ascii_upper c then char_of (code c + 32) else c) s"

text \<open>\<open>SELECT id FROM entries WHERE doi = ?\<close>\<close>

definition select_by_doi :: "db \<Rightarrow> string \<Rightarrow> entry_row list" where
  "select_by_doi d doi = filter (\<lambda>r. er_doi r = Some doi) (entries d)"

text \<open>\<open>SELECT id FROM entries WHERE LOWER(TRIM(title)) = ? AND year = ?\<close>\<close>

definition select_by_title_year :: "db \<Rightarrow> string \<Rightarrow> int \<Rightarrow> entry_row list" where
  "select_by_title_year d title_normalized year =
     filter (\<lambda>r. map_option (\<lambda>t. sql_lower (sql_trim t)) (er_title r) = Some title_normalized
                 \<and> er_year r = Some year) (entries d)"

text \<open>\<open>SELECT id FROM entries WHERE LOWER(TRIM(title)) = ?\<close>\<close>

definition select_by_title :: "db \<Rightarrow> string \<Rightarrow> entry_row list" where
  "select_by_title d title_normalized =
     filter (\<lambda>r. map_option (\<lambda>t. sql_lower (sql_trim t)) (er_title r) = Some title_normalized) (entries d)"

text \<open>An integer parameter of a statement must fit SQLite's 64-bit \<open>INTEGER\<close>; binding a
  larger one raises \<open>OverflowError\<close>. In \<open>check_duplicate\<close> the only integer bound is the
  year of test (b).\<close>

definition sqlite_int :: "int \<Rightarrow> bool" where
  "sqlite_int n = (- (2 ^ 63) \<le> n \<and> n < 2 ^ 63)"

definition check_duplicate :: "db \<Rightarrow> entry \<Rightarrow> py_error + nat option" where
  "check_duplicate d entry =
     (case (if truthy (e_doi entry) then select_by_doi d (the (e_doi entry)) else []) of
        row # _ \<Rightarrow> Inr (Some (er_id row))
      | [] \<Rightarrow>
          (if truthy (e_title entry) \<and> truthy_int (e_year entry) \<and> \<not> sqlite_int (the (e_year entry))
           then Inl OverflowError
           else
            (case (if truthy (e_title entry) \<and> truthy_int (e_year entry)
                   then select_by_title_year d (py_strip (py_lower (the (e_title entry)))) (the (e_year entry))
                   else []) of
               row # _ \<Rightarrow> Inr (Some (er_id row))
             | [] \<Rightarrow>
                 (case (if truthy (e_title entry)
                        then select_by_title d (py_strip (py_lower (the (e_title entry))))
                        else []) of
                    row # _ \<Rightarrow> Inr (Some (er_id row))
                  | [] \<Rightarrow> Inr None))))"

text \<open>
  \<open>create_entry\<close> and \<open>update_entry\<close> build the parameter tuple of their SQL statement
  from the fields of the entry, \<open>entry.project_area\<close> among them. The class \<open>Entry\<close>
  declares no such field and no statement of the program assigns one, so reading it raises
  \<open>AttributeError\<close> before the statement is executed: \<open>create_entry\<close> raises whenever no
  duplicate is found, \<open>update_entry\<close> whenever the entry has an id.
\<close>

definition entry_project_area :: "entry \<Rightarrow> py_error + string option" where
  "entry_project_area entry = Inl AttributeError"

text \<open>\<open>cursor.lastrowid\<close> after an \<open>INSERT\<close>: the tables' declarations (\<open>schema.sql\<close>) are
  not among the sources; the id of a new row is taken one above the largest id of the
  table, as SQLite numbers the rows of an integer primary key.\<close>

definition fresh_id :: "nat list \<Rightarrow> nat" where
  "fresh_id ids = Suc (fold max ids 0)"

definition create_entry :: "db \<Rightarrow> entry \<Rightarrow> py_error + ((nat \<times> bool) \<times> db)" where
  "create_entry d entry =
     (case check_duplicate d entry of
        Inl err \<Rightarrow> Inl err
      | Inr (Some existing_id) \<Rightarrow>
          if existing_id \<noteq> 0 then Inr ((existing_id, False), d)
          else (case entry_project_area entry of
                  Inl err \<Rightarrow> Inl err
                | Inr project_area \<Rightarrow>
                    (let new_id = fresh_id (map er_id (entries d))
                     in Inr ((new_id, True),
                             d\<lparr>entries := entries d @ [\<lparr>er_id = new_id, er_entry = entry\<lparr>e_id := Some new_id\<rparr>,
                                                      er_project_area = project_area\<rparr>]\<rparr>)))
      | Inr None \<Rightarrow>
          (case entry_project_area entry of
             Inl err \<Rightarrow> Inl err
           | Inr project_area \<Rightarrow>
               (let new_id = fresh_id (map er_id (entries d))
                in Inr ((new_id, True),
                        d\<lparr>entries := entries d @ [\<lparr>er_id = new_id, er_entry = entry\<lparr>e_id := Some new_id\<rparr>,
                                                      er_project_area = project_area\<rparr>]\<rparr>))))"

text \<open>\<open>update_entry\<close>: \<open>False\<close> for an entry without id; otherwise the tuple is built.\<close>

definition update_entry :: "db \<Rightarrow> entry \<Rightarrow> py_error + (bool \<times> db)" where
  "update_entry d entry =
     (case e_id entry of
        None \<Rightarrow> Inr (False, d)
      | Some i \<Rightarrow>
          (case entry_project_area entry of
             Inl err \<Rightarrow> Inl err
           | Inr project_area \<Rightarrow>
               Inr (list_ex (\<lambda>r. er_id r = i) (entries d),
                    d\<lparr>entries := map (\<lambda>r. if er_id r = i
                                            then \<lparr>er_id = i, er_entry = entry, er_project_area = project_area\<rparr>
                                            else r) (entries d)\<rparr>)))"

text \<open>\<open>create_author\<close>: \<open>SELECT id FROM authors WHERE name = ?\<close>, then the \<open>INSERT\<close> when
  no row came back.\<close>

definition create_author :: "db \<Rightarrow> author \<Rightarrow> nat \<times> db" where
  "create_author d author =
     (case filter (\<lambda>r. ar_name r = a_name author) (authors d) of
        row # _ \<Rightarrow> (ar_id row, d)
      | [] \<Rightarrow>
          (let new_id = fresh_id (map ar_id (authors d))
           in (new_id, d\<lparr>authors := authors d @ [\<lparr>ar_id = new_id, ar_name = a_name author,
                                                    ar_is_anum = a_is_anum author\<rparr>]\<rparr>)))"

text \<open>\<open>add_entry_author\<close> is an \<open>INSERT OR REPLACE\<close>: the rows that clash with the new one
  on a uniqueness constraint of the table are deleted, then the new row is added. The
  table's declaration (\<open>schema.sql\<close>) is not among the sources, so the clash relation is
  the parameter \<open>clash\<close>.\<close>

definition add_entry_author :: "(entry_author \<Rightarrow> entry_author \<Rightarrow> bool) \<Rightarrow> db \<Rightarrow> entry_author \<Rightarrow> db" where
  "add_entry_author clash d entry_author =
     d\<lparr>entry_authors := filter (\<lambda>l. \<not> clash l entry_author) (entry_authors d) @ [entry_author]\<rparr>"

section \<open>Creating entries from citations\<close>

definition entry_of_parsed :: "parsed \<Rightarrow> entry" where
  "entry_of_parsed parsed =
     \<lparr> e_id = None, e_type = p_type parsed, e_title = p_title parsed, e_year = p_year parsed,
       e_venue = p_venue parsed, e_volume = p_volume parsed, e_issue = p_issue parsed,
       e_pages = p_pages parsed, e_doi = p_doi parsed,
       e_abstract_number = p_abstract_number parsed, e_date = p_date parsed,
       e_location = p_location parsed, e_status = p_status parsed,
       e_abstract = p_abstract parsed, e_url = p_url parsed, e_keywords = p_keywords parsed,
       e_subject_area = p_subject_area parsed, e_citation_count = p_citation_count parsed,
       e_anum_position = None \<rparr>"

text \<open>The author loop of \<open>create_entry_from_citation\<close> (lines 1240-1256): the state is the
  store and \<open>anum_position\<close>.\<close>

fun link_citation_authors :: "(entry_author \<Rightarrow> entry_author \<Rightarrow> bool) \<Rightarrow> nat \<Rightarrow> nat list \<Rightarrow> nat \<Rightarrow> string list
      \<Rightarrow> db \<times> nat option \<Rightarrow> db \<times> nat option" where
  "link_citation_authors clash entry_id first_positions pos [] st = st"
| "link_citation_authors clash entry_id first_positions pos (author_name # names) (d, anum_position) =
     (if author_name = [] \<or> length author_name < 3
      then link_citation_authors clash entry_id first_positions (Suc pos) names (d, anum_position)
      else (let is_anum = is_anum_author author_name;
                anum_position' = (if is_anum \<and> anum_position = None then Some pos else anum_position);
                (author_id, d1) = create_author d \<lparr>a_id = None, a_name = author_name, a_is_anum = is_anum\<rparr>;
                d2 = add_entry_author clash d1
                       \<lparr>ea_entry_id = entry_id, ea_author_id = author_id, ea_position = pos,
                        ea_is_first_author = (pos \<in> set first_positions), ea_is_corresponding = False\<rparr>
            in link_citation_authors clash entry_id first_positions (Suc pos) names (d2, anum_position')))"

text \<open>The result is what the call returns or raises, together with the store it leaves.\<close>

definition create_entry_from_citation ::
    "env \<Rightarrow> (entry_author \<Rightarrow> entry_author \<Rightarrow> bool) \<Rightarrow> db \<Rightarrow> string \<Rightarrow> string
       \<Rightarrow> (py_error + (nat option \<times> bool)) \<times> db" where
  "create_entry_from_citation e clash d citation_text entry_type =
     (case parse_citation e citation_text entry_type of
        Inl err \<Rightarrow> (Inl err, d)
      | Inr None \<Rightarrow> (Inr (None, False), d)
      | Inr (Some parsed) \<Rightarrow>
          (let entry = entry_of_parsed parsed
           in case create_entry d entry of
                Inl err \<Rightarrow> (Inl err, d)
              | Inr ((entry_id, is_new), d1) \<Rightarrow>
                  if \<not> is_new then (Inr (Some entry_id, False), d1)
                  else (let (d2, anum_position) =
                              link_citation_authors clash entry_id (p_first_author_positions parsed) 1
                                (p_authors parsed) (d1, None)
                        in if anum_position \<noteq> None \<and> anum_position \<noteq> Some 0
                           then (case update_entry d2 (entry\<lparr>e_anum_position := anum_position\<rparr>) of
                                   Inl err \<Rightarrow> (Inl err, d2)
                                 | Inr (_, d3) \<Rightarrow> (Inr (Some entry_id, True), d3))
                           else (Inr (Some entry_id, True), d2))))"

section \<open>The CSL-JSON adapter\<close>

text \<open>
  A CSL item is a Python value made of \<open>None\<close>, booleans, integers, strings, lists and
  dictionaries with string keys (floating-point numbers are outside the model). The adapter
  is dynamically typed: where Python raises on a value of the wrong shape the model returns
  that error, and where Python would carry on with a value that the records of this theory
  cannot hold (a list as venue, the \<open>repr\<close> of a list inside a string) it returns
  \<open>Unmodelled\<close>.
\<close>

datatype json = JNull | JBool bool | JInt int | JStr string | JList "json list" | JObj "(string \<times> json) list"

fun json_truthy :: "json \<Rightarrow> bool" where
  "json_truthy JNull = False"
| "json_truthy (JBool b) = b"
| "json_truthy (JInt n) = (n \<noteq> 0)"
| "json_truthy (JStr s) = (s \<noteq> [])"
| "json_truthy (JList xs) = (xs \<noteq> [])"
| "json_truthy (JObj kv) = (kv \<noteq> [])"

text \<open>\<open>item.get(key, '')\<close>\<close>

definition jget :: "(string \<times> json) list \<Rightarrow> string \<Rightarrow> json" where
  "jget item key = (case map_of item key of Some v \<Rightarrow> v | None \<Rightarrow> JStr [])"

definition err_bind :: "py_error + 'a \<Rightarrow> ('a \<Rightarrow> py_error + 'b) \<Rightarrow> py_error + 'b" where
  "err_bind m f = (case m of Inl err \<Rightarrow> Inl err | Inr x \<Rightarrow> f x)"

text \<open>\<open>str(x)\<close>, \<open>len(x)\<close>, \<open>x[0]\<close>, \<open>x[1]\<close> and \<open>int(x)\<close>.\<close>

fun py_str :: "json \<Rightarrow> py_error + string" where
  "py_str (JStr s) = Inr s"
| "py_str (JInt n) = Inr (py_str_int n)"
| "py_str (JBool b) = Inr (if b then ''True'' else ''False'')"
| "py_str JNull = Inr ''None''"
| "py_str (JList xs) = Inl Unmodelled"
| "py_str (JObj kv) = Inl Unmodelled"

fun py_len :: "json \<Rightarrow> py_error + nat" where
  "py_len (JStr s) = Inr (length s)"
| "py_len (JList xs) = Inr (length xs)"
| "py_len (JObj kv) = Inr (length kv)"
| "py_len x = Inl TypeError"

fun py_item :: "json \<Rightarrow> nat \<Rightarrow> py_error + json" where
  "py_item (JStr s) i = (if i < length s then Inr (JStr [s ! i]) else Inl IndexError)"
| "py_item (JList xs) i = (if i < length xs then Inr (xs ! i) else Inl IndexError)"
| "py_item (JObj kv) i = Inl KeyError"
| "py_item x i = Inl TypeError"

text \<open>\<open>int(s)\<close> for a string: surrounding whitespace and one sign are allowed. In a string
  of ASCII characters the whitespace that \<open>int\<close> strips is the space and the codes 9 to 13
  only, so the separators 28 to 31, which \<open>str.strip\<close> removes, make \<open>int\<close> raise. Digit
  strings with underscores or characters beyond ASCII are outside the model.\<close>

definition int_space :: "char \<Rightarrow> bool" where
  "int_space c = (c = CHR '' '' \<or> (9 \<le> code c \<and> code c \<le> 13))"

definition py_int_str :: "string \<Rightarrow> py_error + int" where
  "py_int_str s =
     (let t = rev (dropWhile int_space (rev (dropWhile int_space s)));
          neg = startswith t ''-'';
          body = (if startswith t ''-'' \<or> startswith t ''+'' then tl t else t)
      in if list_ex (\<lambda>c. c = CHR ''_'' \<or> 127 < code c) t then Inl Unmodelled
         else if body \<noteq> [] \<and> list_all ascii_digit body
         then Inr (if neg then - py_int body else py_int body)
         else Inl ValueError)"

fun py_int_json :: "json \<Rightarrow> py_error + int" where
  "py_int_json (JInt n) = Inr n"
| "py_int_json (JBool b) = Inr (if b then 1 else 0)"
| "py_int_json (JStr s) = py_int_str s"
| "py_int_json x = Inl TypeError"

text \<open>\<open>try: int(x) except (ValueError, TypeError): pass\<close>\<close>

definition try_int :: "json \<Rightarrow> py_error + int option" where
  "try_int x = (case py_int_json x of
                  Inr n \<Rightarrow> Inr (Some n)
                | Inl ValueError \<Rightarrow> Inr None
                | Inl TypeError \<Rightarrow> Inr None
                | Inl err \<Rightarrow> Inl err)"

text \<open>A value stored in a field that holds an optional string.\<close>

fun as_text :: "json \<Rightarrow> py_error + string option" where
  "as_text JNull = Inr None"
| "as_text (JStr s) = Inr (Some s)"
| "as_text x = Inl Unmodelled"

text \<open>The authors (lines 1285-1295).\<close>

definition csl_author :: "json \<Rightarrow> py_error + string list" where
  "csl_author author =
     (case author of
        JObj a \<Rightarrow>
          (let family = jget a ''family''; given = jget a ''given''
           in if json_truthy family
              then (if json_truthy given
                    then err_bind (py_str family) (\<lambda>f. err_bind (py_str given) (\<lambda>g. Inr [f @ '', '' @ g]))
                    else (case family of JStr f \<Rightarrow> Inr [f] | _ \<Rightarrow> Inl Unmodelled))
              else Inr [])
      | _ \<Rightarrow> Inr [])"

fun csl_author_list :: "json list \<Rightarrow> py_error + string list" where
  "csl_author_list [] = Inr []"
| "csl_author_list (author # others) =
     err_bind (csl_author author) (\<lambda>xs. err_bind (csl_author_list others) (\<lambda>ys. Inr (xs @ ys)))"

definition csl_authors :: "(string \<times> json) list \<Rightarrow> py_error + string list" where
  "csl_authors item =
     (case map_of item ''author'' of
        None \<Rightarrow> Inr []
      | Some (JList xs) \<Rightarrow> csl_author_list xs
      | Some (JStr s) \<Rightarrow> Inr []
      | Some (JObj kv) \<Rightarrow> Inr []
      | Some _ \<Rightarrow> Inl TypeError)"

text \<open>The entry type (lines 1298-1309).\<close>

definition entry_type_map :: "(string \<times> string) list" where
  "entry_type_map = [(''article'', ''publication''), (''article-journal'', ''publication''),
                     (''paper-conference'', ''oral_presentation''), (''poster'', ''poster_abstract''),
                     (''presentation'', ''oral_presentation''), (''chapter'', ''book_chapter''),
                     (''patent'', ''patent''), (''book'', ''publication'')]"

definition csl_entry_type :: "(string \<times> json) list \<Rightarrow> py_error + string" where
  "csl_entry_type item =
     (case map_of item ''type'' of
        None \<Rightarrow> Inr (case map_of entry_type_map ''article'' of Some t \<Rightarrow> t | None \<Rightarrow> ''publication'')
      | Some (JStr s) \<Rightarrow> Inr (case map_of entry_type_map (py_lower s) of Some t \<Rightarrow> t | None \<Rightarrow> ''publication'')
      | Some _ \<Rightarrow> Inl AttributeError)"

text \<open>\<open>x.get('date-parts', [])\<close> on the value of \<open>issued\<close> or \<open>event-date\<close>.\<close>

definition get_date_parts :: "json \<Rightarrow> py_error + json" where
  "get_date_parts x =
     (case x of
        JObj kv \<Rightarrow> Inr (case map_of kv ''date-parts'' of Some v \<Rightarrow> v | None \<Rightarrow> JList [])
      | _ \<Rightarrow> Inl AttributeError)"

text \<open>The year (lines 1312-1321).\<close>

definition csl_year :: "(string \<times> json) list \<Rightarrow> py_error + int option" where
  "csl_year item =
     (if map_of item ''issued'' \<noteq> None \<and> json_truthy (the (map_of item ''issued''))
      then err_bind (get_date_parts (the (map_of item ''issued''))) (\<lambda>date_parts.
             if \<not> json_truthy date_parts then Inr None
             else err_bind (py_len date_parts) (\<lambda>n.
               if \<not> 0 < n then Inr None
               else err_bind (py_item date_parts 0) (\<lambda>first.
                 err_bind (py_len first) (\<lambda>k.
                   if \<not> 0 < k then Inr None
                   else err_bind (py_item first 0) (\<lambda>y.
                     err_bind (py_int_json y) (\<lambda>year. Inr (Some year)))))))
      else if map_of item ''year'' \<noteq> None then try_int (the (map_of item ''year''))
      else Inr None)"

text \<open>The venue (lines 1324-1334).\<close>

definition csl_venue :: "(string \<times> json) list \<Rightarrow> py_error + string option" where
  "csl_venue item =
     (case map_of item ''container-title'' of
        Some container \<Rightarrow>
          (case container of
             JList (v # _) \<Rightarrow> as_text v
           | JStr s \<Rightarrow> Inr (Some s)
           | _ \<Rightarrow> Inr None)
      | None \<Rightarrow>
          (case map_of item ''journal'' of
             Some v \<Rightarrow> as_text v
           | None \<Rightarrow> (case map_of item ''event'' of Some v \<Rightarrow> as_text v | None \<Rightarrow> Inr None)))"

text \<open>\<open>str(item.get(key, '')) if item.get(key) else None\<close>\<close>

definition csl_str_field :: "(string \<times> json) list \<Rightarrow> string \<Rightarrow> py_error + string option" where
  "csl_str_field item key =
     (if json_truthy (jget item key) then err_bind (py_str (jget item key)) (\<lambda>s. Inr (Some s)) else Inr None)"

text \<open>\<open>item.get(k1, '') or item.get(k2, '') or None\<close> and \<open>item.get(k, '') or None\<close>\<close>

definition csl_or2 :: "(string \<times> json) list \<Rightarrow> string \<Rightarrow> string \<Rightarrow> py_error + string option" where
  "csl_or2 item k1 k2 =
     (if json_truthy (jget item k1) then as_text (jget item k1)
      else if json_truthy (jget item k2) then as_text (jget item k2)
      else Inr None)"

definition csl_or1 :: "(string \<times> json) list \<Rightarrow> string \<Rightarrow> py_error + string option" where
  "csl_or1 item k = (if json_truthy (jget item k) then as_text (jget item k) else Inr None)"

text \<open>The identifier (lines 1342-1352).\<close>

definition csl_doi :: "(string \<times> json) list \<Rightarrow> py_error + string option" where
  "csl_doi item =
     (let doi = (case map_of item ''DOI'' of
                   Some v \<Rightarrow> v
                 | None \<Rightarrow> (case map_of item ''doi'' of Some v \<Rightarrow> v | None \<Rightarrow> JNull))
      in if json_truthy doi
         then (case doi of
                 JStr s \<Rightarrow>
                   (let cleaned = py_strip (py_replace ''doi:'' [] (py_replace ''http://dx.doi.org/'' []
                                              (py_replace ''https://doi.org/'' [] s)))
                    in Inr (if cleaned = [] then None else Some cleaned))
               | _ \<Rightarrow> Inl AttributeError)
         else as_text doi)"

text \<open>The keywords (lines 1361-1367): \<open>', '.join(kw for kw in kw_list if kw)\<close>.\<close>

fun join_truthy :: "json list \<Rightarrow> py_error + string list" where
  "join_truthy [] = Inr []"
| "join_truthy (kw # others) =
     (if json_truthy kw
      then (case kw of
              JStr s \<Rightarrow> err_bind (join_truthy others) (\<lambda>rest. Inr (s # rest))
            | _ \<Rightarrow> Inl TypeError)
      else join_truthy others)"

fun py_join :: "string \<Rightarrow> string list \<Rightarrow> string" where
  "py_join sep [] = []"
| "py_join sep [x] = x"
| "py_join sep (x # xs) = x @ sep @ py_join sep xs"

definition csl_keywords :: "(string \<times> json) list \<Rightarrow> py_error + string option" where
  "csl_keywords item =
     (case map_of item ''keyword'' of
        Some (JList kw_list) \<Rightarrow> err_bind (join_truthy kw_list) (\<lambda>kws. Inr (Some (py_join '', '' kws)))
      | Some (JStr s) \<Rightarrow> Inr (Some s)
      | _ \<Rightarrow> Inr None)"

definition csl_subject_area :: "(string \<times> json) list \<Rightarrow> py_error + string option" where
  "csl_subject_area item =
     (case map_of item ''subject'' of
        Some (JList (v # _)) \<Rightarrow> as_text v
      | Some (JStr s) \<Rightarrow> Inr (Some s)
      | _ \<Rightarrow> Inr None)"

definition csl_citation_count :: "(string \<times> json) list \<Rightarrow> py_error + int option" where
  "csl_citation_count item =
     (case map_of item ''citation-count'' of Some v \<Rightarrow> try_int v | None \<Rightarrow> Inr None)"

text \<open>The presentation date (lines 1389-1401).\<close>

definition month_names :: "string list" where
  "month_names = [''January'', ''February'', ''March'', ''April'', ''May'', ''June'',
                  ''July'', ''August'', ''September'', ''October'', ''November'', ''December'']"

definition month_number :: "json \<Rightarrow> py_error + nat option" where
  "month_number month =
     (if \<not> json_truthy month then Inr None
      else (case month of
              JInt n \<Rightarrow> Inr (if 1 \<le> n \<and> n \<le> 12 then Some (nat n) else None)
            | JBool b \<Rightarrow> Inr (Some 1)
            | _ \<Rightarrow> Inl TypeError))"

definition csl_date :: "(string \<times> json) list \<Rightarrow> py_error + string option" where
  "csl_date item =
     (if map_of item ''event-date'' \<noteq> None \<and> json_truthy (the (map_of item ''event-date''))
      then err_bind (get_date_parts (the (map_of item ''event-date''))) (\<lambda>date_parts.
             if \<not> json_truthy date_parts then Inr None
             else err_bind (py_len date_parts) (\<lambda>n.
               if \<not> 0 < n then Inr None
               else err_bind (py_item date_parts 0) (\<lambda>first.
                 err_bind (py_len first) (\<lambda>k.
                   if \<not> 2 \<le> k then Inr None
                   else err_bind (py_item first 1) (\<lambda>month.
                     err_bind (py_item first 0) (\<lambda>year_part.
                       err_bind (month_number month) (\<lambda>m.
                         err_bind (py_str year_part) (\<lambda>y.
                           case m of
                             Some i \<Rightarrow> Inr (Some (month_names ! (i - 1) @ '' '' @ y))
                           | None \<Rightarrow> Inr (Some y)))))))))
      else Inr None)"

definition csl_location :: "(string \<times> json) list \<Rightarrow> py_error + string option" where
  "csl_location item =
     (case map_of item ''event-place'' of
        Some v \<Rightarrow> as_text v
      | None \<Rightarrow> (case map_of item ''publisher-place'' of Some v \<Rightarrow> as_text v | None \<Rightarrow> Inr None))"

definition csl_status :: "(string \<times> json) list \<Rightarrow> string \<Rightarrow> py_error + string option" where
  "csl_status item entry_type =
     (if entry_type = ''patent'' \<and> map_of item ''status'' \<noteq> None
      then as_text (the (map_of item ''status'')) else Inr None)"

text \<open>\<open>(?:abstract|poster)[\s#:]*(\d+)\<close>, case-insensitive, and the abstract number
  (lines 1414-1425).\<close>

definition rx_abstract_number :: rx where
  "rx_abstract_number =
     seqs [Alt (liti ''abstract'') (liti ''poster''),
           star (Chr (\<lambda>x. py_isspace x \<or> x = CHR ''#'' \<or> x = CHR '':'')),
           Grp 1 (plus rx_digit)]"

definition csl_abstract_number :: "(string \<times> json) list \<Rightarrow> string \<Rightarrow> py_error + string option" where
  "csl_abstract_number item entry_type =
     (if entry_type \<in> set [''poster_abstract'', ''oral_presentation'']
      then (case map_of item ''number'' of
              Some v \<Rightarrow> err_bind (py_str v) (\<lambda>s. Inr (Some s))
            | None \<Rightarrow>
                (case map_of item ''note'' of
                   Some (JStr note) \<Rightarrow>
                     (case re_search rx_abstract_number note of
                        Some m \<Rightarrow> Inr (Some (group note m 1))
                      | None \<Rightarrow> Inr None)
                 | _ \<Rightarrow> Inr None))
      else Inr None)"

definition parse_csl_json_item :: "json \<Rightarrow> py_error + parsed option" where
  "parse_csl_json_item x =
     (case x of
        JObj item \<Rightarrow>
          (if item = [] then Inr None
           else if \<not> json_truthy (jget item ''title'') then Inr None
           else
             err_bind (csl_authors item) (\<lambda>authors.
             err_bind (csl_entry_type item) (\<lambda>entry_type.
             err_bind (csl_year item) (\<lambda>year.
             err_bind (csl_venue item) (\<lambda>venue.
             err_bind (csl_str_field item ''volume'') (\<lambda>volume.
             err_bind (csl_str_field item ''issue'') (\<lambda>issue.
             err_bind (csl_or2 item ''page'' ''pages'') (\<lambda>pages.
             err_bind (csl_doi item) (\<lambda>doi.
             err_bind (csl_or1 item ''abstract'') (\<lambda>abstract.
             err_bind (csl_or2 item ''URL'' ''url'') (\<lambda>url.
             err_bind (csl_keywords item) (\<lambda>keywords.
             err_bind (csl_subject_area item) (\<lambda>subject_area.
             err_bind (csl_citation_count item) (\<lambda>citation_count.
             err_bind (csl_date item) (\<lambda>date.
             err_bind (csl_location item) (\<lambda>location.
             err_bind (csl_status item entry_type) (\<lambda>status.
             err_bind (csl_abstract_number item entry_type) (\<lambda>abstract_number.
             err_bind (as_text (jget item ''title'')) (\<lambda>title.
               Inr (Some \<lparr> p_type = entry_type, p_title = title, p_year = year, p_venue = venue,
                           p_volume = volume, p_issue = issue, p_pages = pages, p_doi = doi,
                           p_abstract = abstract, p_url = url, p_keywords = keywords,
                           p_subject_area = subject_area, p_citation_count = citation_count,
                           p_authors = authors, p_first_author_positions = [],
                           p_date = date, p_location = location, p_status = status,
                           p_abstract_number = abstract_number \<rparr>))))))))))))))))))))
      | _ \<Rightarrow> Inr None)"

text \<open>The author loop of \<open>create_entry_from_csl_json\<close> (lines 1530-1546).\<close>

fun link_csl_authors :: "(entry_author \<Rightarrow> entry_author \<Rightarrow> bool) \<Rightarrow> nat \<Rightarrow> nat \<Rightarrow> string list
      \<Rightarrow> db \<times> nat option \<Rightarrow> db \<times> nat option" where
  "link_csl_authors clash entry_id pos [] st = st"
| "link_csl_authors clash entry_id pos (author_name # names) (d, anum_position) =
     (if author_name = [] \<or> length author_name < 3
      then link_csl_authors clash entry_id (Suc pos) names (d, anum_position)
      else (let is_anum = is_anum_author author_name;
                anum_position' = (if is_anum \<and> anum_position = None then Some pos else anum_position);
                (author_id, d1) = create_author d \<lparr>a_id = None, a_name = normalize_author_name author_name,
                                                   a_is_anum = is_anum\<rparr>;
                d2 = add_entry_author clash d1
                       \<lparr>ea_entry_id = entry_id, ea_author_id = author_id, ea_position = pos,
                        ea_is_first_author = False, ea_is_corresponding = False\<rparr>
            in link_csl_authors clash entry_id (Suc pos) names (d2, anum_position')))"

definition create_entry_from_csl_json ::
    "(entry_author \<Rightarrow> entry_author \<Rightarrow> bool) \<Rightarrow> db \<Rightarrow> json \<Rightarrow> (py_error + (nat option \<times> bool)) \<times> db" where
  "create_entry_from_csl_json clash d csl_item =
     (case parse_csl_json_item csl_item of
        Inl err \<Rightarrow> (Inl err, d)
      | Inr None \<Rightarrow> (Inr (None, False), d)
      | Inr (Some parsed) \<Rightarrow>
          (let entry = entry_of_parsed parsed
           in case create_entry d entry of
                Inl err \<Rightarrow> (Inl err, d)
              | Inr ((entry_id, is_new), d1) \<Rightarrow>
                  if \<not> is_new then (Inr (Some entry_id, False), d1)
                  else (let (d2, anum_position) =
                              link_csl_authors clash entry_id 1 (p_authors parsed) (d1, None)
                        in if anum_position \<noteq> None \<and> anum_position \<noteq> Some 0
                           then (case update_entry d2 (entry\<lparr>e_id := Some entry_id,
                                                               e_anum_position := anum_position\<rparr>) of
                                   Inl err \<Rightarrow> (Inl err, d2)
                                 | Inr (_, d3) \<Rightarrow> (Inr (Some entry_id, True), d3))
                           else (Inr (Some entry_id, True), d2))))"

section \<open>Refreshing an entry from Crossref\<close>

text \<open>\<open>enrich_entry_from_crossref\<close> (\<open>app.py\<close>): \<open>refreshed_entry\<close> is the \<open>Entry(...)\<close>
  that the function builds from the stored entry and the registry's answer (lines 118-138);
  the function then hands it to \<open>update_entry\<close>, and any exception becomes the result
  \<open>False\<close>.\<close>

definition refreshed_entry :: "entry \<Rightarrow> crossref_md \<Rightarrow> entry" where
  "refreshed_entry entry metadata =
     \<lparr> e_id = e_id entry,
       e_type = e_type entry,
       e_title = py_or (e_title entry) (py_or (c_title metadata) (e_title entry)),
       e_year = py_or_int (e_year entry) (c_year metadata),
       e_venue = py_or (e_venue entry) (c_venue metadata),
       e_volume = py_or (e_volume entry) (c_volume metadata),
       e_issue = py_or (e_issue entry) (c_issue metadata),
       e_pages = py_or (e_pages entry) (c_pages metadata),
       e_doi = e_doi entry,
       e_abstract_number = e_abstract_number entry,
       e_date = e_date entry,
       e_location = e_location entry,
       e_status = e_status entry,
       e_abstract = py_or (e_abstract entry) (c_abstract metadata),
       e_url = py_or (e_url entry) (c_url metadata),
       e_keywords = py_or (e_keywords entry) (c_keywords metadata),
       e_subject_area = py_or (e_subject_area entry) (c_subject_area metadata),
       e_citation_count = c_citation_count metadata,
       e_anum_position = e_anum_position entry \<rparr>"

definition enrich_entry_from_crossref :: "env \<Rightarrow> db \<Rightarrow> entry \<Rightarrow> bool \<times> db" where
  "enrich_entry_from_crossref e d entry =
     (if \<not> truthy (e_doi entry) then (False, d)
      else if \<not> HABANERO_AVAILABLE e then (False, d)
      else (case lookup_doi_metadata e (the (e_doi entry)) of
              None \<Rightarrow> (False, d)
            | Some metadata \<Rightarrow>
                (case update_entry d (refreshed_entry entry metadata) of
                   Inl err \<Rightarrow> (False, d)
                 | Inr (updated, d') \<Rightarrow> (updated, d'))))"

section \<open>Scenarios\<close>

text \<open>No provider available: the pure regex path.\<close>

definition no_providers :: env where
  "no_providers = \<lparr> GROBID_AVAILABLE = False, HABANERO_AVAILABLE = False, OPENALEX_AVAILABLE = False,
                     grobid_answer = (\<lambda>_. None), crossref_answer = (\<lambda>_. None),
                     openalex_answer = (\<lambda>_ _ _ _. None) \<rparr>"

definition empty_db :: db where
  "empty_db = \<lparr> entries = [], authors = [], entry_authors = [] \<rparr>"

text \<open>The citation of the first end-to-end scenario, and the same work cited with a longer title
  and without identifier.\<close>

definition scenario1 :: string where
  "scenario1 = ''Smith, J. A novel method. Journal of Testing 12, 345 (2021). doi:10.1/abc''"

definition scenario2 :: string where
  "scenario2 = ''Smith, J. A novel method for testing things. Journal of Testing 12, 345 (2021).''"

text \<open>A text in which only one part between full stops has more than one character, and
  which has the shape of a book chapter; and a text without any full stop.\<close>

definition chapter_text :: string where
  "chapter_text = ''A.      x     . In Some Book Title Here (Pub, 2020)''"

definition no_period_text :: string where
  "no_period_text = ''a citation without any full stop''"

text \<open>OpenAlex answers every search with an abstract and the identifier \<open>10.9/z\<close>; Crossref
  knows that identifier only, and has another abstract for it.\<close>

definition openalex_work :: openalex_md where
  "openalex_work = \<lparr> o_title = Some ''A novel method'', o_authors = [], o_venue = None,
                      o_year = Some 2021, o_doi = Some ''10.9/z'',
                      o_url = Some ''https://oa.example.org/paper.pdf'',
                      o_citation_count = Some 3, o_abstract = Some ''abstract from OpenAlex'',
                      o_keywords = Some ''keywords from OpenAlex'' \<rparr>"

definition crossref_work :: crossref_md where
  "crossref_work = \<lparr> c_title = Some ''A novel method'', c_authors = [], c_venue = None,
                      c_year = Some 2021, c_volume = None, c_issue = None, c_pages = None,
                      c_doi = Some ''10.9/z'', c_abstract = Some ''abstract from Crossref'',
                      c_url = Some ''https://doi.org/10.9/z'',
                      c_keywords = Some ''keywords from Crossref'',
                      c_subject_area = Some ''Testing'', c_citation_count = Some 5 \<rparr>"

definition search_env :: env where
  "search_env = \<lparr> GROBID_AVAILABLE = False, HABANERO_AVAILABLE = True, OPENALEX_AVAILABLE = True,
                   grobid_answer = (\<lambda>_. None),
                   crossref_answer = (\<lambda>doi. if doi = ''10.9/z'' then Some crossref_work else None),
                   openalex_answer = (\<lambda>_ _ _ _. Some openalex_work) \<rparr>"

text \<open>The category rule in the words of the specification: a meeting keyword gives
  \<open>oral_presentation\<close> unless a poster or abstract keyword is present; then \<open>patent\<close>,
  \<open>book_chapter\<close>, and the caller's default.\<close>

definition claimed_category :: "string \<Rightarrow> string \<Rightarrow> string" where
  "claimed_category default_type citation_lower =
     (if list_ex (\<lambda>kw. contains kw citation_lower) meeting_keywords
      then (if contains ''poster'' citation_lower \<or> contains ''abstract'' citation_lower
            then ''poster_abstract'' else ''oral_presentation'')
      else if contains ''patent'' citation_lower then ''patent''
      else if contains ''chapter'' citation_lower then ''book_chapter''
      else default_type)"

text \<open>A title that begins with a capital letter outside ASCII (code 201, E with acute
  accent), a probe record with that title and the year 2021, and a store whose only work,
  id 1, is that very record.\<close>

definition etude_title :: string where
  "etude_title = CHR 0xC9 # ''tude comparative des methodes''"

definition etude_probe :: entry where
  "etude_probe = \<lparr> e_id = None, e_type = ''publication'', e_title = Some etude_title,
                    e_year = Some 2021, e_venue = None, e_volume = None, e_issue = None,
                    e_pages = None, e_doi = None, e_abstract_number = None, e_date = None,
                    e_location = None, e_status = None, e_abstract = None, e_url = None,
                    e_keywords = None, e_subject_area = None, e_citation_count = None,
                    e_anum_position = None \<rparr>"

definition etude_db :: db where
  "etude_db = \<lparr> entries = [\<lparr>er_id = 1, er_entry = etude_probe\<lparr>e_id := Some 1\<rparr>,
                              er_project_area = None\<rparr>],
                 authors = [], entry_authors = [] \<rparr>"

text \<open>The CSL item of the second end-to-end scenario.\<close>

definition poster_item :: json where
  "poster_item = JObj [(''title'', JStr ''X''),
                       (''author'', JList [JObj [(''family'', JStr ''Doe''), (''given'', JStr ''A'')]]),
                       (''type'', JStr ''poster''), (''number'', JStr ''42'')]"

text \<open>A store with one author, the owner under one of her names, whose owner flag is unset.\<close>

definition owner_db :: db where
  "owner_db = \<lparr> entries = [], authors = [\<lparr>ar_id = 1, ar_name = ''Syed, A. K.'', ar_is_anum = False\<rparr>],
                 entry_authors = [] \<rparr>"

text \<open>The three keyword tests of the category decision.\<close>

abbreviation has_meeting :: "string \<Rightarrow> bool" where
  "has_meeting t \<equiv> list_ex (\<lambda>kw. contains kw t) meeting_keywords"

abbreviation has_oral :: "string \<Rightarrow> bool" where
  "has_oral t \<equiv> contains ''oral'' t \<or> contains ''presentation'' t"

abbreviation has_poster :: "string \<Rightarrow> bool" where
  "has_poster t \<equiv> contains ''poster'' t \<or> contains ''abstract'' t"

text \<open>A GROBID answer with an identifier, and a stored entry that already has an abstract
  and a citation count.\<close>

definition grobid_work :: grobid_md where
  "grobid_work = \<lparr> g_title = Some ''A novel method for testing'', g_authors = [''Smith, J.''],
                    g_venue = Some ''Journal of Testing'', g_year = Some 2021, g_volume = Some ''12'',
                    g_issue = None, g_pages = Some ''345'', g_doi = Some ''10.9/z'' \<rparr>"

definition stored_entry :: entry where
  "stored_entry = \<lparr> e_id = Some 1, e_type = ''publication'', e_title = Some ''A novel method'',
                     e_year = Some 2021, e_venue = None, e_volume = None, e_issue = None,
                     e_pages = None, e_doi = Some ''10.9/z'', e_abstract_number = None, e_date = None,
                     e_location = None, e_status = None, e_abstract = Some ''stored abstract'',
                     e_url = Some ''https://example.org/paper'', e_keywords = Some ''testing'',
                     e_subject_area = Some ''Methods'', e_citation_count = Some 1,
                     e_anum_position = None \<rparr>"

text \<open>The skeleton that the regex parser gives for the first scenario, and the environment
  of \<open>search_env\<close> without the registry.\<close>

definition skeleton1 :: fallback_parsed where
  "skeleton1 = \<lparr> fb_title = ''Journal of Testing 12, 345 (2021)'', fb_year = Some 2021,
                  fb_venue = Some ''Testing'', fb_volume = Some ''12'', fb_issue = Some ''345'',
                  fb_pages = None, fb_doi = Some ''10.1/abc'', fb_date = None, fb_location = None,
                  fb_authors = [''Smith'', ''J. A novel method''], fb_first_author_positions = [1] \<rparr>"

definition search_only_env :: env where
  "search_only_env = \<lparr> GROBID_AVAILABLE = False, HABANERO_AVAILABLE = False, OPENALEX_AVAILABLE = True,
                        grobid_answer = (\<lambda>_. None), crossref_answer = (\<lambda>_. None),
                        openalex_answer = (\<lambda>_ _ _ _. Some openalex_work) \<rparr>"

text \<open>A GROBID answer without identifier, and a registry whose record for \<open>10.9/z\<close> has
  neither abstract nor url, keywords or subject area.\<close>

definition grobid_work_no_doi :: grobid_md where
  "grobid_work_no_doi = \<lparr> g_title = Some ''A novel method for testing things'',
                           g_authors = [''Smith, J.''], g_venue = Some ''Journal of Testing'',
                           g_year = Some 2021, g_volume = Some ''12'', g_issue = None,
                           g_pages = Some ''345'', g_doi = None \<rparr>"

definition crossref_bare :: crossref_md where
  "crossref_bare = \<lparr> c_title = Some ''A novel method'', c_authors = [], c_venue = None,
                      c_year = Some 2021, c_volume = None, c_issue = None, c_pages = None,
                      c_doi = Some ''10.9/z'', c_abstract = None, c_url = None, c_keywords = None,
                      c_subject_area = None, c_citation_count = None \<rparr>"

definition bare_registry_env :: env where
  "bare_registry_env = \<lparr> GROBID_AVAILABLE = False, HABANERO_AVAILABLE = True, OPENALEX_AVAILABLE = True,
                          grobid_answer = (\<lambda>_. None),
                          crossref_answer = (\<lambda>doi. if doi = ''10.9/z'' then Some crossref_bare else None),
                          openalex_answer = (\<lambda>_ _ _ _. Some openalex_work) \<rparr>"

section \<open>Evaluation of the scenarios\<close>

lemma strip_scenario1: "py_strip scenario1 = scenario1"
  by code_simp

lemma length_scenario1: "length scenario1 = 73"
  by code_simp

lemma nonempty_scenario1: "scenario1 \<noteq> []"
  using length_scenario1 by auto

lemma doi_scenario1: "extract_doi scenario1 = Some ''10.1/abc''"
  by code_simp

lemma fallback_scenario1:
  "parse_citation_fallback scenario1 =
     Some \<lparr> fb_title = ''Journal of Testing 12, 345 (2021)'', fb_year = Some 2021,
            fb_venue = Some ''Testing'', fb_volume = Some ''12'', fb_issue = Some ''345'',
            fb_pages = None, fb_doi = Some ''10.1/abc'', fb_date = None, fb_location = None,
            fb_authors = [''Smith'', ''J. A novel method''], fb_first_author_positions = [1] \<rparr>"
  by code_simp

lemma types_scenario1:
  "determine_entry_type ''publication'' (py_lower scenario1) = ''publication''"
  "fallback_entry_type ''publication'' (py_lower scenario1) = ''publication''"
  "fallback_status ''publication'' (py_lower scenario1) = None"
  by code_simp+

lemma parse_scenario1:
  "parse_citation no_providers scenario1 ''publication'' =
     Inr (Some \<lparr> p_type = ''publication'', p_title = Some ''Journal of Testing 12, 345 (2021)'',
                 p_year = Some 2021, p_venue = Some ''Testing'', p_volume = Some ''12'',
                 p_issue = Some ''345'', p_pages = None, p_doi = Some ''10.1/abc'',
                 p_abstract = None, p_url = None, p_keywords = None, p_subject_area = None,
                 p_citation_count = None, p_authors = [''Smith'', ''J. A novel method''],
                 p_first_author_positions = [1], p_date = None, p_location = None,
                 p_status = None, p_abstract_number = None \<rparr>)"
  by (simp add: parse_citation_def Let_def strip_scenario1 length_scenario1 nonempty_scenario1 doi_scenario1
        fallback_scenario1 types_scenario1 no_providers_def fallback_path_def py_or_def truthy_def)

lemma skeleton_scenario1: "parse_citation_fallback scenario1 = Some skeleton1"
  by (simp add: fallback_scenario1 skeleton1_def)

lemma search_env_flags:
  "GROBID_AVAILABLE search_env = False" "HABANERO_AVAILABLE search_env = True"
  "OPENALEX_AVAILABLE search_env = True"
  by (simp_all add: search_env_def)

lemma search_env_registry: "lookup_doi_metadata search_env ''10.1/abc'' = None"
  by code_simp

lemma search_env_search:
  "lookup_openalex search_env scenario1 (Some (fb_title skeleton1)) (fb_authors skeleton1) (fb_year skeleton1)
     = Some openalex_work"
  by code_simp

lemma search_path_scenario1:
  "openalex_path search_env ''publication'' scenario1 skeleton1 openalex_work =
     Inr \<lparr> p_type = ''publication'', p_title = Some ''A novel method'', p_year = Some 2021,
           p_venue = Some ''Testing'', p_volume = Some ''12'', p_issue = Some ''345'', p_pages = None,
           p_doi = Some ''10.9/z'', p_abstract = Some ''abstract from Crossref'',
           p_url = Some ''https://doi.org/10.9/z'', p_keywords = Some ''keywords from Crossref'',
           p_subject_area = Some ''Testing'', p_citation_count = Some 5,
           p_authors = [''Smith'', ''J. A novel method''], p_first_author_positions = [1],
           p_date = None, p_location = None, p_status = None, p_abstract_number = None \<rparr>"
  by code_simp

lemma search_only_path_scenario1:
  "openalex_path search_only_env ''publication'' scenario1 skeleton1 openalex_work =
     Inr \<lparr> p_type = ''publication'', p_title = Some ''A novel method'', p_year = Some 2021,
           p_venue = Some ''Testing'', p_volume = Some ''12'', p_issue = Some ''345'', p_pages = None,
           p_doi = Some ''10.9/z'', p_abstract = Some ''abstract from OpenAlex'',
           p_url = Some ''https://oa.example.org/paper.pdf'', p_keywords = Some ''keywords from OpenAlex'',
           p_subject_area = None, p_citation_count = Some 3,
           p_authors = [''Smith'', ''J. A novel method''], p_first_author_positions = [1],
           p_date = None, p_location = None, p_status = None, p_abstract_number = None \<rparr>"
  by code_simp

lemma bare_registry_path_scenario1:
  "openalex_path bare_registry_env ''publication'' scenario1 skeleton1 openalex_work =
     Inr \<lparr> p_type = ''publication'', p_title = Some ''A novel method'', p_year = Some 2021,
           p_venue = Some ''Testing'', p_volume = Some ''12'', p_issue = Some ''345'', p_pages = None,
           p_doi = Some ''10.9/z'', p_abstract = Some ''abstract from OpenAlex'',
           p_url = Some ''https://oa.example.org/paper.pdf'', p_keywords = Some ''keywords from OpenAlex'',
           p_subject_area = None, p_citation_count = Some 3,
           p_authors = [''Smith'', ''J. A novel method''], p_first_author_positions = [1],
           p_date = None, p_location = None, p_status = None, p_abstract_number = None \<rparr>"
  by code_simp

lemma parse_scenario2:
  "parse_citation no_providers scenario2 ''publication'' =
     Inr (Some \<lparr> p_type = ''publication'', p_title = Some ''A novel method for testing things'',
                 p_year = Some 2021, p_venue = Some ''Testing'', p_volume = Some ''12'',
                 p_issue = Some ''345'', p_pages = None, p_doi = None, p_abstract = None,
                 p_url = None, p_keywords = None, p_subject_area = None, p_citation_count = None,
                 p_authors = [''Smith''], p_first_author_positions = [1], p_date = None,
                 p_location = None, p_status = None, p_abstract_number = None \<rparr>)"
  by code_simp

section \<open>Identifier extraction and clean-up\<close>

lemma clean_doi_no_prefix:
  assumes "\<not> startswith (py_strip d) ''doi:''" "\<not> startswith (py_strip d) ''https://doi.org/''"
    "\<not> startswith (py_strip d) ''http://dx.doi.org/''"
  shows "clean_doi d = py_strip d"
  using assms unfolding clean_doi_def Let_def by simp

text \<open>
  Claim C7. \<open>extract_doi\<close> returns \<open>10.1/X\<close> for both \<open>doi:10.1/X\<close> and
  \<open>https://doi.org/10.1/X\<close>, and the cleaning step of \<open>lookup_doi_metadata\<close> returns an
  identifier that is already clean unchanged. An identifier is already clean when it has
  none of the three prefixes the step removes and no surrounding whitespace; for an
  identifier that only lacks the prefixes the step returns it stripped of whitespace.
\<close>

theorem C7_identifier_cleanup:
  "extract_doi ''doi:10.1/X'' = Some ''10.1/X''
   \<and> extract_doi ''https://doi.org/10.1/X'' = Some ''10.1/X''
   \<and> (\<not> startswith (py_strip d) ''doi:'' \<and> \<not> startswith (py_strip d) ''https://doi.org/''
        \<and> \<not> startswith (py_strip d) ''http://dx.doi.org/'' \<longrightarrow> clean_doi d = py_strip d)
   \<and> (py_strip d = d \<and> \<not> startswith d ''doi:'' \<and> \<not> startswith d ''https://doi.org/''
        \<and> \<not> startswith d ''http://dx.doi.org/'' \<longrightarrow> clean_doi d = d)"
proof -
  have a: "extract_doi ''doi:10.1/X'' = Some ''10.1/X''" by code_simp
  have b: "extract_doi ''https://doi.org/10.1/X'' = Some ''10.1/X''" by code_simp
  have c: "\<not> startswith (py_strip d) ''doi:'' \<and> \<not> startswith (py_strip d) ''https://doi.org/''
        \<and> \<not> startswith (py_strip d) ''http://dx.doi.org/'' \<longrightarrow> clean_doi d = py_strip d"
    using clean_doi_no_prefix by blast
  have e: "py_strip d = d \<and> \<not> startswith d ''doi:'' \<and> \<not> startswith d ''https://doi.org/''
        \<and> \<not> startswith d ''http://dx.doi.org/'' \<longrightarrow> clean_doi d = d"
    using clean_doi_no_prefix [of d] by auto
  show ?thesis using a b c e by blast
qed

theorem C7_identifier_cleanup_witness:
  "py_strip ''10.1/X'' = ''10.1/X'' \<and> \<not> startswith ''10.1/X'' ''doi:''
   \<and> \<not> startswith ''10.1/X'' ''https://doi.org/'' \<and> \<not> startswith ''10.1/X'' ''http://dx.doi.org/''
   \<and> clean_doi ''10.1/X'' = ''10.1/X''"
proof -
  have h: "py_strip ''10.1/X'' = ''10.1/X'' \<and> \<not> startswith ''10.1/X'' ''doi:''
   \<and> \<not> startswith ''10.1/X'' ''https://doi.org/'' \<and> \<not> startswith ''10.1/X'' ''http://dx.doi.org/''"
    by code_simp
  show ?thesis using h C7_identifier_cleanup [of "''10.1/X''"] by metis
qed

section \<open>Authors in the store\<close>

lemma find_filter: "find P xs = Some x \<Longrightarrow> \<exists>ys. filter P xs = x # ys"
  by (induction xs) (auto split: if_splits)

lemma find_None_filter: "find P xs = None \<Longrightarrow> filter P xs = []"
  by (induction xs) (auto split: if_splits)

lemma fold_max_ge: "m \<le> fold max xs (m::nat)"
  by (induction xs arbitrary: m) (auto intro: order_trans [OF max.cobounded2])

lemma fold_max_mem: "x \<in> set xs \<Longrightarrow> x \<le> fold max xs (m::nat)"
proof (induction xs arbitrary: m)
  case Nil
  then show ?case by simp
next
  case (Cons a xs)
  show ?case
  proof (cases "x = a")
    case True
    have "a \<le> max a m" by simp
    also have "\<dots> \<le> fold max xs (max a m)" by (rule fold_max_ge)
    finally show ?thesis using True by simp
  next
    case False
    with Cons.prems have "x \<in> set xs" by simp
    from Cons.IH [OF this] show ?thesis by simp
  qed
qed

lemma fresh_id_new: "fresh_id ids \<notin> set ids"
proof
  assume "fresh_id ids \<in> set ids"
  from fold_max_mem [OF this, of 0] show False by (simp add: fresh_id_def)
qed

text \<open>
  Claim C10. \<open>create_author\<close> with a name that a stored author has exactly returns the id
  of the first such row and leaves the store as it was, whatever the \<open>is_anum\<close> flag of the
  argument; with a name that no stored author has it appends one row with a fresh id, the
  name and the flag; and the store changes only when no stored author has the name.
\<close>

theorem C10_author_reuse:
  "(find (\<lambda>r. ar_name r = a_name a) (authors d) = Some row \<longrightarrow> create_author d a = (ar_id row, d))
   \<and> (find (\<lambda>r. ar_name r = a_name a) (authors d) = None \<longrightarrow>
        create_author d a =
          (fresh_id (map ar_id (authors d)),
           d\<lparr>authors := authors d @ [\<lparr>ar_id = fresh_id (map ar_id (authors d)), ar_name = a_name a,
                                       ar_is_anum = a_is_anum a\<rparr>]\<rparr>)
        \<and> fresh_id (map ar_id (authors d)) \<notin> set (map ar_id (authors d)))
   \<and> (snd (create_author d a) \<noteq> d \<longrightarrow> (\<forall>r \<in> set (authors d). ar_name r \<noteq> a_name a))"
proof (intro conjI impI)
  assume "find (\<lambda>r. ar_name r = a_name a) (authors d) = Some row"
  then obtain ys where "filter (\<lambda>r. ar_name r = a_name a) (authors d) = row # ys"
    using find_filter by fastforce
  then show "create_author d a = (ar_id row, d)" by (simp add: create_author_def)
next
  assume "find (\<lambda>r. ar_name r = a_name a) (authors d) = None"
  then have "filter (\<lambda>r. ar_name r = a_name a) (authors d) = []" by (rule find_None_filter)
  then show "create_author d a =
          (fresh_id (map ar_id (authors d)),
           d\<lparr>authors := authors d @ [\<lparr>ar_id = fresh_id (map ar_id (authors d)), ar_name = a_name a,
                                       ar_is_anum = a_is_anum a\<rparr>]\<rparr>)"
    by (simp add: create_author_def Let_def)
next
  show "fresh_id (map ar_id (authors d)) \<notin> set (map ar_id (authors d))" by (rule fresh_id_new)
next
  assume changed: "snd (create_author d a) \<noteq> d"
  show "\<forall>r \<in> set (authors d). ar_name r \<noteq> a_name a"
  proof (cases "filter (\<lambda>r. ar_name r = a_name a) (authors d)")
    case Nil
    then show ?thesis by (auto simp: filter_empty_conv)
  next
    case (Cons r rs)
    with changed show ?thesis by (simp add: create_author_def)
  qed
qed

text \<open>The witness: the store holds \<open>Syed, A. K.\<close> with the owner flag unset; a call with the
  flag set returns the stored id and changes nothing, and a call with a new name adds the
  row with id 2.\<close>

theorem C10_author_reuse_witness:
  "find (\<lambda>r. ar_name r = ''Syed, A. K.'') (authors owner_db)
     = Some \<lparr>ar_id = 1, ar_name = ''Syed, A. K.'', ar_is_anum = False\<rparr>
   \<and> create_author owner_db \<lparr>a_id = None, a_name = ''Syed, A. K.'', a_is_anum = True\<rparr> = (1, owner_db)
   \<and> find (\<lambda>r. ar_name r = ''Doe, A'') (authors owner_db) = None
   \<and> authors (snd (create_author owner_db \<lparr>a_id = None, a_name = ''Doe, A'', a_is_anum = False\<rparr>))
       = authors owner_db @ [\<lparr>ar_id = 2, ar_name = ''Doe, A'', ar_is_anum = False\<rparr>]
   \<and> snd (create_author owner_db \<lparr>a_id = None, a_name = ''Doe, A'', a_is_anum = False\<rparr>) \<noteq> owner_db"
proof -
  have f1: "find (\<lambda>r. ar_name r = ''Syed, A. K.'') (authors owner_db)
     = Some \<lparr>ar_id = 1, ar_name = ''Syed, A. K.'', ar_is_anum = False\<rparr>"
    by (simp add: owner_db_def)
  have f2: "find (\<lambda>r. ar_name r = ''Doe, A'') (authors owner_db) = None"
    by (simp add: owner_db_def)
  have f3: "fresh_id (map ar_id (authors owner_db)) = 2"
    by (simp add: owner_db_def fresh_id_def)
  have r1: "create_author owner_db \<lparr>a_id = None, a_name = ''Syed, A. K.'', a_is_anum = True\<rparr> = (1, owner_db)"
    using C10_author_reuse [of "\<lparr>a_id = None, a_name = ''Syed, A. K.'', a_is_anum = True\<rparr>" owner_db
            "\<lparr>ar_id = 1, ar_name = ''Syed, A. K.'', ar_is_anum = False\<rparr>"] f1
    by simp
  have r2: "create_author owner_db \<lparr>a_id = None, a_name = ''Doe, A'', a_is_anum = False\<rparr>
              = (2, owner_db\<lparr>authors := authors owner_db @ [\<lparr>ar_id = 2, ar_name = ''Doe, A'', ar_is_anum = False\<rparr>]\<rparr>)"
    using C10_author_reuse [of "\<lparr>a_id = None, a_name = ''Doe, A'', a_is_anum = False\<rparr>" owner_db] f2 f3
    by simp
  have r3: "snd (create_author owner_db \<lparr>a_id = None, a_name = ''Doe, A'', a_is_anum = False\<rparr>) \<noteq> owner_db"
    unfolding r2 by (simp add: owner_db_def)
  show ?thesis using f1 f2 r1 r2 r3 by simp
qed

section \<open>Author links of the CSL-JSON import\<close>

lemma create_author_links: "entry_authors (snd (create_author d a)) = entry_authors d"
  by (simp add: create_author_def Let_def split: list.splits)

lemma add_entry_author_links:
  "set (entry_authors (add_entry_author clash d l)) \<subseteq> insert l (set (entry_authors d))"
  by (auto simp: add_entry_author_def)

lemma link_csl_authors_flags:
  "l \<in> set (entry_authors (fst (link_csl_authors clash entry_id pos names (d, ap))))
   \<Longrightarrow> l \<in> set (entry_authors d) \<or> \<not> ea_is_first_author l"
proof (induction names arbitrary: d ap pos)
  case Nil
  then show ?case by simp
next
  case (Cons author_name names)
  show ?case
  proof (cases "author_name = [] \<or> length author_name < 3")
    case True
    with Cons.prems have "l \<in> set (entry_authors (fst (link_csl_authors clash entry_id (Suc pos) names (d, ap))))"
      by simp
    from Cons.IH [OF this] show ?thesis .
  next
    case False
    define a where "a = \<lparr>a_id = None, a_name = normalize_author_name author_name,
                         a_is_anum = is_anum_author author_name\<rparr>"
    define new where "new = \<lparr>ea_entry_id = entry_id, ea_author_id = fst (create_author d a),
                             ea_position = pos, ea_is_first_author = False, ea_is_corresponding = False\<rparr>"
    define d2 where "d2 = add_entry_author clash (snd (create_author d a)) new"
    define ap' where "ap' = (if is_anum_author author_name \<and> ap = None then Some pos else ap)"
    from False have step: "link_csl_authors clash entry_id pos (author_name # names) (d, ap)
                           = link_csl_authors clash entry_id (Suc pos) names (d2, ap')"
      by (simp add: Let_def case_prod_beta a_def new_def d2_def ap'_def)
    with Cons.prems have "l \<in> set (entry_authors (fst (link_csl_authors clash entry_id (Suc pos) names (d2, ap'))))"
      by simp
    from Cons.IH [OF this] have "l \<in> set (entry_authors d2) \<or> \<not> ea_is_first_author l" .
    moreover have "set (entry_authors d2) \<subseteq> insert new (set (entry_authors d))"
      unfolding d2_def using add_entry_author_links [of clash "snd (create_author d a)" new]
      by (simp add: create_author_links)
    moreover have "\<not> ea_is_first_author new" by (simp add: new_def)
    ultimately show ?thesis by auto
  qed
qed

text \<open>\<open>create_entry\<close> never reports a new entry: it returns a duplicate's id or raises.\<close>

lemma create_entry_store: "create_entry d entry = Inr (r, d') \<Longrightarrow> d' = d \<and> \<not> snd r"
  by (auto simp: create_entry_def entry_project_area_def split: option.splits sum.splits if_splits)

lemma csl_store_unchanged: "snd (create_entry_from_csl_json clash d item) = d"
proof (cases "parse_csl_json_item item")
  case (Inl err)
  then show ?thesis by (simp add: create_entry_from_csl_json_def)
next
  case (Inr po)
  show ?thesis
  proof (cases po)
    case None
    with Inr show ?thesis by (simp add: create_entry_from_csl_json_def)
  next
    case (Some parsed)
    show ?thesis
    proof (cases "create_entry d (entry_of_parsed parsed)")
      case (Inl err)
      with Inr Some show ?thesis by (simp add: create_entry_from_csl_json_def)
    next
      case (Inr res)
      obtain r d' where res: "res = (r, d')" by (cases res)
      with Inr create_entry_store have "d' = d" "\<not> snd r" by blast+
      with Inr res \<open>parse_csl_json_item item = Inr po\<close> Some show ?thesis
        by (cases r) (simp add: create_entry_from_csl_json_def)
    qed
  qed
qed

text \<open>
  Claim C9. Every author link that the CSL-JSON import creates has \<open>is_first_author\<close> false,
  whatever the item holds: a link that is in the store after the author loop of
  \<open>create_entry_from_csl_json\<close> (lines 1530-1546) and was not there before is not marked
  first author, and the same holds of the store that \<open>create_entry_from_csl_json\<close> leaves.
\<close>

theorem C9_csl_links_never_first_author:
  "(\<forall>l \<in> set (entry_authors (fst (link_csl_authors clash entry_id pos names (d, ap)))).
       l \<in> set (entry_authors d) \<or> \<not> ea_is_first_author l)
   \<and> (\<forall>l \<in> set (entry_authors (snd (create_entry_from_csl_json clash d item))).
       l \<in> set (entry_authors d) \<or> \<not> ea_is_first_author l)"
  using link_csl_authors_flags [of _ clash entry_id pos names d ap] csl_store_unchanged [of clash d item]
  by auto

text \<open>The witness: the loop run for entry 7 and the author \<open>Doe, A\<close> on the empty store
  creates one link, which was not there before and is not marked first author.\<close>

theorem C9_csl_links_never_first_author_witness:
  "\<lparr>ea_entry_id = 7, ea_author_id = 1, ea_position = 1, ea_is_first_author = False,
     ea_is_corresponding = False\<rparr>
     \<in> set (entry_authors (fst (link_csl_authors (\<lambda>a b. False) 7 1 [''Doe, A''] (empty_db, None))))
   \<and> \<lparr>ea_entry_id = 7, ea_author_id = 1, ea_position = 1, ea_is_first_author = False,
       ea_is_corresponding = False\<rparr> \<notin> set (entry_authors empty_db)
   \<and> \<not> ea_is_first_author (hd (entry_authors (fst (link_csl_authors (\<lambda>a b. False) 7 1 [''Doe, A'']
                                                     (empty_db, None)))))"
proof -
  have ev: "entry_authors (fst (link_csl_authors (\<lambda>a b. False) 7 1 [''Doe, A''] (empty_db, None)))
            = [\<lparr>ea_entry_id = 7, ea_author_id = 1, ea_position = 1, ea_is_first_author = False,
                ea_is_corresponding = False\<rparr>]"
    by code_simp
  have none: "entry_authors empty_db = []" by (simp add: empty_db_def)
  show ?thesis
    using C9_csl_links_never_first_author [of "\<lambda>a b. False" 7 1 "[''Doe, A'']" empty_db None JNull]
    unfolding ev none by simp
qed

section \<open>The CSL-JSON adapter\<close>

text \<open>
  Claim C8. \<open>parse_csl_json_item\<close> on the item with title \<open>X\<close>, the one author with family
  name \<open>Doe\<close> and given name \<open>A\<close>, type \<open>poster\<close> and number \<open>42\<close> gives the category
  \<open>poster_abstract\<close>, the authors \<open>["Doe, A"]\<close>, the title \<open>X\<close> and the abstract number \<open>42\<close>.
  The authors are formatted as family, comma, given and are not normalised: an asterisk and
  repeated spaces, which \<open>normalize_author_name\<close> would remove, stay in the name.
\<close>

theorem C8_csl_poster_item:
  "parse_csl_json_item poster_item =
     Inr (Some \<lparr> p_type = ''poster_abstract'', p_title = Some ''X'', p_year = None, p_venue = None,
                 p_volume = None, p_issue = None, p_pages = None, p_doi = None, p_abstract = None,
                 p_url = None, p_keywords = None, p_subject_area = None, p_citation_count = None,
                 p_authors = [''Doe, A''], p_first_author_positions = [], p_date = None,
                 p_location = None, p_status = None, p_abstract_number = Some ''42'' \<rparr>)
   \<and> csl_authors [(''author'', JList [JObj [(''family'', JStr ''Doe*''), (''given'', JStr ''A  B'')],
                                       JObj [(''family'', JStr ''Roe'')]])]
       = Inr [''Doe*, A  B'', ''Roe'']
   \<and> normalize_author_name ''Doe*, A  B'' = ''Doe, A B''"
  by code_simp

section \<open>Duplicate detection\<close>

text \<open>The order of the three tests of \<open>check_duplicate\<close>, with the comparisons as the code
  makes them: the first row with the probe's identifier; else, for a probe with title and
  non-zero year, \<open>OverflowError\<close> when the year does not fit 64 bits and otherwise the first
  row of that year whose title, trimmed of spaces and lowered by
  SQLite, equals the probe's title lowered and stripped by Python; else the first row whose
  title matches in that way; else nothing.\<close>

lemma first_row_find:
  "(case (if c then filter P xs else []) of [] \<Rightarrow> X | row # _ \<Rightarrow> Inr (Some (er_id row)))
   = (case find (\<lambda>r. c \<and> P r) xs of Some row \<Rightarrow> Inr (Some (er_id row)) | None \<Rightarrow> X)"
proof (cases c)
  case True
  then show ?thesis by (induction xs) auto
next
  case False
  then show ?thesis by (induction xs) auto
qed

lemma check_duplicate_order:
  "check_duplicate d entry =
     (case find (\<lambda>r. truthy (e_doi entry) \<and> er_doi r = Some (the (e_doi entry))) (entries d) of
        Some row \<Rightarrow> Inr (Some (er_id row))
      | None \<Rightarrow>
          (if truthy (e_title entry) \<and> truthy_int (e_year entry) \<and> \<not> sqlite_int (the (e_year entry))
           then Inl OverflowError
           else
            (case find (\<lambda>r. (truthy (e_title entry) \<and> truthy_int (e_year entry))
                             \<and> map_option (\<lambda>t. sql_lower (sql_trim t)) (er_title r)
                                 = Some (py_strip (py_lower (the (e_title entry))))
                             \<and> er_year r = Some (the (e_year entry))) (entries d) of
               Some row \<Rightarrow> Inr (Some (er_id row))
             | None \<Rightarrow>
                 (case find (\<lambda>r. truthy (e_title entry)
                                 \<and> map_option (\<lambda>t. sql_lower (sql_trim t)) (er_title r)
                                     = Some (py_strip (py_lower (the (e_title entry))))) (entries d) of
                    Some row \<Rightarrow> Inr (Some (er_id row))
                  | None \<Rightarrow> Inr None))))"
  unfolding check_duplicate_def select_by_doi_def select_by_title_year_def select_by_title_def
  by (simp only: first_row_find)

text \<open>With ASCII letters and spaces the comparison is insensitive to case and to
  surrounding spaces, as intended.\<close>

lemma check_duplicate_ascii_title:
  "check_duplicate \<lparr> entries = [\<lparr>er_id = 1, er_entry = etude_probe\<lparr>e_title := Some ''A Novel Method ''\<rparr>,
                                    er_project_area = None\<rparr>], authors = [], entry_authors = [] \<rparr>
     (etude_probe\<lparr>e_title := Some '' a novel METHOD''\<rparr>) = Inr (Some 1)"
  by code_simp

text \<open>
  Claim C5. The second test is meant to return the first stored work whose title matches
  the probe's without regard to case and surrounding whitespace, with equal year. The store
  \<open>etude_db\<close> holds one work, id 1, year 2021, whose title begins with a capital E with acute
  accent; the probe is that very record, with no identifier. Python lowers the
  probe's capital, SQLite's \<open>LOWER\<close> leaves the stored one, the two sides differ, and
  \<open>check_duplicate\<close> finds nothing although the titles are equal.
\<close>

theorem C5_equal_title_not_found:
  "check_duplicate etude_db etude_probe = Inr None
   \<and> map er_id (entries etude_db) = [1]
   \<and> map er_title (entries etude_db) = [e_title etude_probe]
   \<and> map er_year (entries etude_db) = [e_year etude_probe]
   \<and> truthy (e_title etude_probe) \<and> truthy_int (e_year etude_probe)"
  by code_simp

section \<open>The first end-to-end scenario\<close>

text \<open>
  Claim C3, amended. With no provider available, \<open>parse_citation\<close> on
  \<open>Smith, J. A novel method. Journal of Testing 12, 345 (2021). doi:10.1/abc\<close> gives the category
  \<open>publication\<close>, the year 2021 and the identifier \<open>10.1/abc\<close>, as claimed, and the volume 12
  and issue 345. The title \<open>A novel method\<close> is not recognised: the title boundary needs
  more than twenty characters after the capital and a title candidate more than three
  words, so the part with most words, \<open>Journal of Testing 12, 345 (2021)\<close>, becomes the title,
  the venue is the capitalised word before the volume, \<open>Testing\<close>, and the author block runs up
  to the boundary, which gives the authors \<open>Smith\<close> and \<open>J. A novel method\<close>.
\<close>

theorem C3_regex_scenario:
  "parse_citation no_providers scenario1 ''publication'' =
     Inr (Some \<lparr> p_type = ''publication'', p_title = Some ''Journal of Testing 12, 345 (2021)'',
                 p_year = Some 2021, p_venue = Some ''Testing'', p_volume = Some ''12'',
                 p_issue = Some ''345'', p_pages = None, p_doi = Some ''10.1/abc'',
                 p_abstract = None, p_url = None, p_keywords = None, p_subject_area = None,
                 p_citation_count = None, p_authors = [''Smith'', ''J. A novel method''],
                 p_first_author_positions = [1], p_date = None, p_location = None,
                 p_status = None, p_abstract_number = None \<rparr>)"
  by (rule parse_scenario1)

text \<open>The claim as stated fails: title, venue and authors are not the claimed ones.\<close>

theorem C3_regex_scenario_counterexample:
  "map_sum id (map_option p_title) (parse_citation no_providers scenario1 ''publication'')
     \<noteq> Inr (Some (Some ''A novel method''))
   \<and> map_sum id (map_option p_venue) (parse_citation no_providers scenario1 ''publication'')
     \<noteq> Inr (Some (Some ''Journal of Testing''))
   \<and> map_sum id (map_option p_authors) (parse_citation no_providers scenario1 ''publication'')
     \<noteq> Inr (Some [''Smith, J.''])"
  by (simp add: parse_scenario1)

section \<open>Rejection by the regex fallback parser\<close>

lemma length_py_strip: "length (py_strip s) \<le> length s"
proof -
  have "length (py_strip s) \<le> length (py_lstrip s)"
    by (simp add: py_strip_def py_rstrip_def) (metis length_dropWhile_le length_rev)
  also have "\<dots> \<le> length s"
    by (simp add: py_lstrip_def length_dropWhile_le)
  finally show ?thesis .
qed

text \<open>Stripping the input of surrounding whitespace does not change its parts: whitespace
  is no full stop, so only the first and the last piece change, and each piece is stripped
  anyway.\<close>

lemma space_not_period: "py_isspace c \<Longrightarrow> c \<noteq> CHR ''.''"
proof
  assume "py_isspace c" and "c = CHR ''.''"
  then have "py_isspace CHR ''.''" by simp
  moreover have "\<not> py_isspace CHR ''.''" by code_simp
  ultimately show False by simp
qed

lemma py_split_nonempty: "py_split sep s \<noteq> []"
  by (induction s) (auto split: list.splits)

lemma py_split_Cons_other:
  "c \<noteq> sep \<Longrightarrow> py_split sep (c # cs) = (c # hd (py_split sep cs)) # tl (py_split sep cs)"
  using py_split_nonempty [of sep cs] by (cases "py_split sep cs") auto

lemma py_strip_leading: "py_isspace c \<Longrightarrow> py_strip (c # p) = py_strip p"
  by (simp add: py_strip_def py_lstrip_def)

lemma pieces_leading:
  assumes "py_isspace c"
  shows "map py_strip (py_split CHR ''.'' (c # cs)) = map py_strip (py_split CHR ''.'' cs)"
proof -
  have "c \<noteq> CHR ''.''" using assms by (rule space_not_period)
  then have "py_split CHR ''.'' (c # cs)
             = (c # hd (py_split CHR ''.'' cs)) # tl (py_split CHR ''.'' cs)"
    by (rule py_split_Cons_other)
  then show ?thesis
    using py_split_nonempty [of "CHR ''.''" cs] py_strip_leading [OF assms]
    by (cases "py_split CHR ''.'' cs") auto
qed

lemma pieces_lstrip: "map py_strip (py_split CHR ''.'' (py_lstrip s)) = map py_strip (py_split CHR ''.'' s)"
  unfolding py_lstrip_def
proof (induction s)
  case Nil
  then show ?case by simp
next
  case (Cons c cs)
  show ?case
  proof (cases "py_isspace c")
    case True
    then show ?thesis using Cons pieces_leading [OF True, of cs] by simp
  next
    case False
    then show ?thesis by simp
  qed
qed

lemma py_split_snoc:
  "c \<noteq> sep \<Longrightarrow> py_split sep (s @ [c]) = butlast (py_split sep s) @ [last (py_split sep s) @ [c]]"
proof (induction s)
  case Nil
  then show ?case by simp
next
  case (Cons a s)
  obtain p ps where ps: "py_split sep s = p # ps"
    using py_split_nonempty [of sep s] by (cases "py_split sep s") auto
  from Cons have IH: "py_split sep (s @ [c]) = butlast (p # ps) @ [last (p # ps) @ [c]]"
    using ps by simp
  show ?case
  proof (cases ps)
    case Nil
    with IH ps show ?thesis by simp
  next
    case (Cons q qs)
    with IH ps show ?thesis by simp
  qed
qed

lemma py_strip_trailing:
  assumes "py_isspace c"
  shows "py_strip (q @ [c]) = py_strip q"
proof (cases "\<forall>x \<in> set q. py_isspace x")
  case True
  then have all: "\<forall>x \<in> set (q @ [c]). py_isspace x" using assms by simp
  have a: "dropWhile py_isspace (q @ [c]) = []" using all by (simp only: dropWhile_eq_Nil_conv)
  have b: "dropWhile py_isspace q = []" using True by (simp only: dropWhile_eq_Nil_conv)
  have e: "dropWhile py_isspace (q @ [c]) = dropWhile py_isspace q" by (simp only: a b)
  show ?thesis unfolding py_strip_def py_lstrip_def e ..
next
  case False
  then have e: "dropWhile py_isspace (q @ [c]) = dropWhile py_isspace q @ [c]"
    by (auto simp: dropWhile_append)
  show ?thesis unfolding py_strip_def py_lstrip_def py_rstrip_def e using assms by simp
qed

lemma pieces_trailing:
  assumes "py_isspace c"
  shows "map py_strip (py_split CHR ''.'' (s @ [c])) = map py_strip (py_split CHR ''.'' s)"
proof -
  have ne: "py_split CHR ''.'' s \<noteq> []" by (rule py_split_nonempty)
  have "py_split CHR ''.'' (s @ [c])
          = butlast (py_split CHR ''.'' s) @ [last (py_split CHR ''.'' s) @ [c]]"
    using space_not_period [OF assms] by (rule py_split_snoc)
  then have "map py_strip (py_split CHR ''.'' (s @ [c]))
          = map py_strip (butlast (py_split CHR ''.'' s)) @ [py_strip (last (py_split CHR ''.'' s))]"
    using py_strip_trailing [OF assms] by simp
  also have "\<dots> = map py_strip (butlast (py_split CHR ''.'' s) @ [last (py_split CHR ''.'' s)])"
    by simp
  also have "\<dots> = map py_strip (py_split CHR ''.'' s)"
    using ne by simp
  finally show ?thesis .
qed

lemma pieces_rstrip_rev:
  "map py_strip (py_split CHR ''.'' (rev (dropWhile py_isspace r))) = map py_strip (py_split CHR ''.'' (rev r))"
proof (induction r)
  case Nil
  then show ?case by simp
next
  case (Cons c r)
  show ?case
  proof (cases "py_isspace c")
    case True
    then show ?thesis using Cons pieces_trailing [OF True, of "rev r"] by simp
  next
    case False
    then show ?thesis by simp
  qed
qed

lemma pieces_strip: "map py_strip (py_split CHR ''.'' (py_strip s)) = map py_strip (py_split CHR ''.'' s)"
proof -
  have e: "py_strip s = rev (dropWhile py_isspace (rev (py_lstrip s)))"
    by (simp add: py_strip_def py_rstrip_def)
  have "map py_strip (py_split CHR ''.'' (py_strip s))
          = map py_strip (py_split CHR ''.'' (rev (dropWhile py_isspace (rev (py_lstrip s)))))"
    using arg_cong [OF e, of "\<lambda>t. map py_strip (py_split CHR ''.'' t)"] by simp
  also have "\<dots> = map py_strip (py_split CHR ''.'' (py_lstrip s))"
    using pieces_rstrip_rev [of "rev (py_lstrip s)"] by simp
  finally show ?thesis by (simp add: pieces_lstrip)
qed

lemma period_parts_pieces:
  "period_parts t = filter (\<lambda>q. q \<noteq> [] \<and> 1 < length q) (map py_strip (py_split CHR ''.'' t))"
  by (simp add: period_parts_def filter_map comp_def)

lemma period_parts_strip: "period_parts (py_strip s) = period_parts s"
  by (simp add: period_parts_pieces pieces_strip)

lemma fallback_short: "length raw < 20 \<Longrightarrow> parse_citation_fallback raw = None"
  using length_py_strip [of raw] unfolding parse_citation_fallback_def Let_def by auto

lemma fallback_few_parts:
  "length (period_parts raw) < 2 \<Longrightarrow> re_search rx_book_chapter (py_strip raw) = None
   \<Longrightarrow> parse_citation_fallback raw = None"
  unfolding parse_citation_fallback_def Let_def by (simp add: period_parts_strip)

lemma fallback_title:
  "re_search rx_book_chapter (py_strip raw) = None \<Longrightarrow> parse_citation_fallback raw = Some r
   \<Longrightarrow> fb_title r \<noteq> []"
  unfolding parse_citation_fallback_def Let_def
  by (auto split: if_splits option.splits prod.splits)

text \<open>
  Claim C6, amended. \<open>parse_citation_fallback\<close> returns \<open>None\<close> for every input shorter than
  20 characters, and for every input whose split at full stops has fewer than two parts of
  more than one character, provided the text (stripped of surrounding whitespace, as the
  code strips it first) does not match the book-chapter pattern; and where that pattern does
  not match, a result that is returned has a non-empty title. The function has
  no exception path: it is total and its result is a record or \<open>None\<close>.
\<close>

theorem C6_fallback_rejects:
  "(length raw < 20 \<longrightarrow> parse_citation_fallback raw = None)
   \<and> (length (period_parts raw) < 2 \<and> re_search rx_book_chapter (py_strip raw) = None
        \<longrightarrow> parse_citation_fallback raw = None)
   \<and> (re_search rx_book_chapter (py_strip raw) = None \<and> parse_citation_fallback raw = Some r
        \<longrightarrow> fb_title r \<noteq> [])"
  using fallback_short fallback_few_parts fallback_title by blast

text \<open>The witness: a text of nine characters; a text of 32 characters without full stop;
  and the first scenario, which is parsed.\<close>

theorem C6_fallback_rejects_witness:
  "length ''too short'' < 20 \<and> parse_citation_fallback ''too short'' = None
   \<and> length (period_parts no_period_text) < 2
   \<and> re_search rx_book_chapter (py_strip no_period_text) = None
   \<and> length no_period_text = 32
   \<and> parse_citation_fallback no_period_text = None
   \<and> re_search rx_book_chapter (py_strip scenario1) = None
   \<and> map_option fb_title (parse_citation_fallback scenario1) = Some ''Journal of Testing 12, 345 (2021)''
   \<and> map_option (\<lambda>r. fb_title r = []) (parse_citation_fallback scenario1) = Some False"
proof -
  have a: "length ''too short'' < 20" by simp
  have b: "length (period_parts no_period_text) < 2
           \<and> re_search rx_book_chapter (py_strip no_period_text) = None"
    by code_simp
  have b': "length no_period_text = 32" by code_simp
  have c: "re_search rx_book_chapter (py_strip scenario1) = None" by code_simp
  note thm1 = C6_fallback_rejects [of "''too short''"]
  note thm2 = C6_fallback_rejects [of no_period_text]
  have r1: "parse_citation_fallback ''too short'' = None" using thm1 a by blast
  have r2: "parse_citation_fallback no_period_text = None" using thm2 b by blast
  have r3: "map_option (\<lambda>r. fb_title r = []) (parse_citation_fallback scenario1) = Some False"
    using C6_fallback_rejects [of scenario1 "the (parse_citation_fallback scenario1)"] c
    by (simp add: fallback_scenario1)
  show ?thesis using a b b' c r1 r2 r3 by (simp add: fallback_scenario1)
qed

text \<open>The claim as stated fails on \<open>chapter_text\<close>: only one part between its full stops has
  more than one character, yet the book-chapter branch returns a record.\<close>

theorem C6_fallback_rejects_counterexample:
  "period_parts chapter_text = [''In Some Book Title Here (Pub, 2020)'']
   \<and> parse_citation_fallback chapter_text =
       Some \<lparr> fb_title = ''x'', fb_year = Some 2020, fb_venue = Some ''Some Book Title Here'',
              fb_volume = None, fb_issue = None, fb_pages = None, fb_doi = None, fb_date = None,
              fb_location = None, fb_authors = [''A. x''], fb_first_author_positions = [1] \<rparr>"
  by code_simp

section \<open>Category determination\<close>

lemma map_sum_Some: "map_sum id Some x = Inr (Some r) \<longleftrightarrow> x = Inr r"
  by (cases x) auto

lemma grobid_path_type:
  "grobid_path e default_type citation_text g = Inr r
   \<Longrightarrow> p_type r = determine_entry_type default_type (py_lower citation_text)"
  by (auto simp: grobid_path_def Let_def split: sum.splits)

lemma crossref_path_type:
  "crossref_path default_type citation_text doi metadata = Inr r
   \<Longrightarrow> p_type r = determine_entry_type default_type (py_lower citation_text)"
  by (auto simp: crossref_path_def Let_def split: sum.splits)

lemma openalex_path_type:
  "openalex_path e default_type citation_text fb oa = Inr r
   \<Longrightarrow> p_type r = determine_entry_type default_type (py_lower citation_text)"
  by (auto simp: openalex_path_def Let_def split: sum.splits)

lemma fallback_path_type:
  "p_type (fallback_path e default_type citation_text fb) = fallback_entry_type default_type (py_lower citation_text)"
  by (simp add: fallback_path_def Let_def split: option.splits)

lemma parse_citation_type:
  assumes "parse_citation e raw default_type = Inr (Some r)"
  shows "p_type r = determine_entry_type default_type (py_lower (py_strip raw))
         \<or> p_type r = fallback_entry_type default_type (py_lower (py_strip raw))"
  using assms unfolding parse_citation_def Let_def
  by (auto simp: map_sum_Some fallback_path_type
           dest: grobid_path_type crossref_path_type openalex_path_type
           split: if_splits option.splits prod.splits)

text \<open>
  Claim C4, amended. For a default category that is neither \<open>oral_presentation\<close> nor
  \<open>poster_abstract\<close>: when the lowered text has a meeting keyword, the category is
  \<open>poster_abstract\<close> if a poster or abstract keyword is present and no oral or presentation
  keyword is, and \<open>oral_presentation\<close> otherwise; without meeting keyword it is \<open>patent\<close>
  when \<open>patent\<close> appears, else \<open>book_chapter\<close> when \<open>chapter\<close> appears, else the caller's
  default provided \<open>book\<close> does not appear. Under these conditions the rule of the first three
  paths (\<open>determine_entry_type\<close>) and the rule of the fourth (\<open>fallback_entry_type\<close>) agree, and
  the category of every record that \<open>parse_citation\<close> returns is given by one of the two.
\<close>

theorem C4_category_rule:
  assumes "default_type \<notin> set [''oral_presentation'', ''poster_abstract'']"
  shows "(has_meeting t \<longrightarrow>
            determine_entry_type default_type t
              = (if has_poster t \<and> \<not> has_oral t then ''poster_abstract'' else ''oral_presentation'')
            \<and> fallback_entry_type default_type t = determine_entry_type default_type t)
         \<and> (\<not> has_meeting t \<and> contains ''patent'' t \<longrightarrow>
              determine_entry_type default_type t = ''patent''
              \<and> fallback_entry_type default_type t = ''patent'')
         \<and> (\<not> has_meeting t \<and> \<not> contains ''patent'' t \<and> contains ''chapter'' t \<longrightarrow>
              determine_entry_type default_type t = ''book_chapter''
              \<and> fallback_entry_type default_type t = ''book_chapter'')
         \<and> (\<not> has_meeting t \<and> \<not> contains ''patent'' t \<and> \<not> contains ''chapter'' t
              \<and> \<not> contains ''book'' t \<longrightarrow>
              determine_entry_type default_type t = default_type
              \<and> fallback_entry_type default_type t = default_type)
         \<and> (parse_citation e raw default_type = Inr (Some r) \<longrightarrow>
              p_type r = determine_entry_type default_type (py_lower (py_strip raw))
              \<or> p_type r = fallback_entry_type default_type (py_lower (py_strip raw)))"
proof -
  have d: "default_type \<noteq> ''oral_presentation''" "default_type \<noteq> ''poster_abstract''"
    using assms by auto
  have 1: "has_meeting t \<longrightarrow>
            determine_entry_type default_type t
              = (if has_poster t \<and> \<not> has_oral t then ''poster_abstract'' else ''oral_presentation'')
            \<and> fallback_entry_type default_type t = determine_entry_type default_type t"
    using d by (simp add: determine_entry_type_def fallback_entry_type_def)
  have 2: "\<not> has_meeting t \<and> contains ''patent'' t \<longrightarrow>
              determine_entry_type default_type t = ''patent''
              \<and> fallback_entry_type default_type t = ''patent''"
    using d by (simp add: determine_entry_type_def fallback_entry_type_def)
  have 3: "\<not> has_meeting t \<and> \<not> contains ''patent'' t \<and> contains ''chapter'' t \<longrightarrow>
              determine_entry_type default_type t = ''book_chapter''
              \<and> fallback_entry_type default_type t = ''book_chapter''"
    using d by (simp add: determine_entry_type_def fallback_entry_type_def)
  have 4: "\<not> has_meeting t \<and> \<not> contains ''patent'' t \<and> \<not> contains ''chapter'' t
              \<and> \<not> contains ''book'' t \<longrightarrow>
              determine_entry_type default_type t = default_type
              \<and> fallback_entry_type default_type t = default_type"
    using d by (simp add: determine_entry_type_def fallback_entry_type_def)
  have 5: "parse_citation e raw default_type = Inr (Some r) \<longrightarrow>
              p_type r = determine_entry_type default_type (py_lower (py_strip raw))
              \<or> p_type r = fallback_entry_type default_type (py_lower (py_strip raw))"
    using parse_citation_type by blast
  show ?thesis using 1 2 3 4 5 by blast
qed

text \<open>The witness: a poster at a meeting, a patent, a chapter, and the first scenario, whose
  text has none of the keywords and whose category is the default.\<close>

theorem C4_category_rule_witness:
  "''publication'' \<notin> set [''oral_presentation'', ''poster_abstract'']
   \<and> has_meeting ''poster at the annual meeting''
   \<and> determine_entry_type ''publication'' ''poster at the annual meeting'' = ''poster_abstract''
   \<and> fallback_entry_type ''publication'' ''poster at the annual meeting'' = ''poster_abstract''
   \<and> \<not> has_meeting ''us patent 123'' \<and> contains ''patent'' ''us patent 123''
   \<and> determine_entry_type ''publication'' ''us patent 123'' = ''patent''
   \<and> fallback_entry_type ''publication'' ''us patent 123'' = ''patent''
   \<and> \<not> has_meeting ''chapter 3 of a handbook'' \<and> \<not> contains ''patent'' ''chapter 3 of a handbook''
   \<and> contains ''chapter'' ''chapter 3 of a handbook''
   \<and> determine_entry_type ''publication'' ''chapter 3 of a handbook'' = ''book_chapter''
   \<and> fallback_entry_type ''publication'' ''chapter 3 of a handbook'' = ''book_chapter''
   \<and> \<not> has_meeting (py_lower scenario1) \<and> \<not> contains ''patent'' (py_lower scenario1)
   \<and> \<not> contains ''chapter'' (py_lower scenario1) \<and> \<not> contains ''book'' (py_lower scenario1)
   \<and> fallback_entry_type ''publication'' (py_lower scenario1) = ''publication''
   \<and> map_sum id (map_option p_type) (parse_citation no_providers scenario1 ''publication'')
       = Inr (Some ''publication'')"
proof -
  have d: "''publication'' \<notin> set [''oral_presentation'', ''poster_abstract'']" by simp
  have h1: "has_meeting ''poster at the annual meeting''
            \<and> has_poster ''poster at the annual meeting'' \<and> \<not> has_oral ''poster at the annual meeting''"
    by code_simp
  have h2: "\<not> has_meeting ''us patent 123'' \<and> contains ''patent'' ''us patent 123''" by code_simp
  have h3: "\<not> has_meeting ''chapter 3 of a handbook'' \<and> \<not> contains ''patent'' ''chapter 3 of a handbook''
            \<and> contains ''chapter'' ''chapter 3 of a handbook''" by code_simp
  have h4: "\<not> has_meeting (py_lower scenario1) \<and> \<not> contains ''patent'' (py_lower scenario1)
            \<and> \<not> contains ''chapter'' (py_lower scenario1) \<and> \<not> contains ''book'' (py_lower scenario1)"
    by code_simp
  have r1: "determine_entry_type ''publication'' ''poster at the annual meeting'' = ''poster_abstract''
            \<and> fallback_entry_type ''publication'' ''poster at the annual meeting'' = ''poster_abstract''"
    using C4_category_rule [OF d, of "''poster at the annual meeting''"] h1 by presburger
  have r2: "determine_entry_type ''publication'' ''us patent 123'' = ''patent''
            \<and> fallback_entry_type ''publication'' ''us patent 123'' = ''patent''"
    using C4_category_rule [OF d, of "''us patent 123''"] h2 by presburger
  have r3: "determine_entry_type ''publication'' ''chapter 3 of a handbook'' = ''book_chapter''
            \<and> fallback_entry_type ''publication'' ''chapter 3 of a handbook'' = ''book_chapter''"
    using C4_category_rule [OF d, of "''chapter 3 of a handbook''"] h3 by presburger
  have r4: "determine_entry_type ''publication'' (py_lower scenario1) = ''publication''
            \<and> fallback_entry_type ''publication'' (py_lower scenario1) = ''publication''"
    using C4_category_rule [OF d, of "py_lower scenario1"] h4 by presburger
  have r5: "map_sum id (map_option p_type) (parse_citation no_providers scenario1 ''publication'')
              = Inr (Some ''publication'')"
    by (simp add: parse_scenario1)
  show ?thesis using d h1 h2 h3 h4 r1 r2 r3 r4 r5 by presburger
qed

text \<open>The claim as stated fails twice. A text with a meeting keyword, \<open>oral\<close> and \<open>poster\<close> is an
  oral presentation for the code and a poster for the claim; and a text with \<open>book\<close> but
  without \<open>chapter\<close> is a book chapter on the fourth path and the default on the others.\<close>

theorem C4_category_rule_counterexample:
  "determine_entry_type ''publication'' ''oral poster session, annual meeting'' = ''oral_presentation''
   \<and> fallback_entry_type ''publication'' ''oral poster session, annual meeting'' = ''oral_presentation''
   \<and> claimed_category ''publication'' ''oral poster session, annual meeting'' = ''poster_abstract''
   \<and> fallback_entry_type ''publication'' ''a book about testing'' = ''book_chapter''
   \<and> determine_entry_type ''publication'' ''a book about testing'' = ''publication''"
  by code_simp

section \<open>Precedence of the enrichment fields\<close>

lemma openalex_fill_keeps:
  "truthy (en_abstract md) \<Longrightarrow> en_abstract (openalex_fill md oa) = en_abstract md"
  "truthy (en_url md) \<Longrightarrow> en_url (openalex_fill md oa) = en_url md"
  "truthy (en_keywords md) \<Longrightarrow> en_keywords (openalex_fill md oa) = en_keywords md"
  "en_subject_area (openalex_fill md oa) = en_subject_area md"
  by (simp_all add: openalex_fill_def)

lemma openalex_fill_missing:
  "\<not> truthy (en_abstract md) \<Longrightarrow> truthy (o_abstract oa)
     \<Longrightarrow> en_abstract (openalex_fill md oa) = o_abstract oa"
  "\<not> truthy (en_url md) \<Longrightarrow> truthy (o_url oa) \<Longrightarrow> en_url (openalex_fill md oa) = o_url oa"
  "\<not> truthy (en_keywords md) \<Longrightarrow> truthy (o_keywords oa)
     \<Longrightarrow> en_keywords (openalex_fill md oa) = o_keywords oa"
  by (simp_all add: openalex_fill_def)

text \<open>On path 1 the registry is asked at most once: by the Crossref stage when the
  identifier is known, by the OpenAlex stage, with the identifier that OpenAlex found, when
  it is not.\<close>

lemma crossref_stage_no_doi: "\<not> truthy doi \<Longrightarrow> grobid_crossref_stage e doi md = md"
  by (simp add: grobid_crossref_stage_def)

lemma registry_stage_known_doi: "truthy doi \<Longrightarrow> grobid_registry_stage e doi oa md = md"
  by (simp add: grobid_registry_stage_def)

lemma crossref_stage_populated:
  assumes "truthy (en_abstract (snd md1)) \<or> truthy (en_url (snd md1))
           \<or> truthy (en_keywords (snd md1)) \<or> truthy (en_subject_area (snd md1))"
    and "md1 = grobid_crossref_stage e doi (gd, no_enrichment)"
  shows "truthy doi"
proof (rule ccontr)
  assume "\<not> truthy doi"
  then have "md1 = (gd, no_enrichment)" using assms(2) by (simp add: crossref_stage_no_doi)
  with assms(1) show False by (simp add: no_enrichment_def truthy_def)
qed

lemma registry_stage_keeps:
  assumes "md1 = grobid_crossref_stage e doi (gd, no_enrichment)"
    and "mdr = grobid_registry_stage e doi oa md1"
  shows "truthy (en_abstract (snd md1)) \<longrightarrow> en_abstract (snd mdr) = en_abstract (snd md1)"
    and "truthy (en_url (snd md1)) \<longrightarrow> en_url (snd mdr) = en_url (snd md1)"
    and "truthy (en_keywords (snd md1)) \<longrightarrow> en_keywords (snd mdr) = en_keywords (snd md1)"
    and "truthy (en_subject_area (snd md1)) \<longrightarrow> en_subject_area (snd mdr) = en_subject_area (snd md1)"
  using crossref_stage_populated [OF _ assms(1)] registry_stage_known_doi [of doi e oa md1] assms(2)
  by auto

lemma openalex_stage_answer:
  assumes "OPENALEX_AVAILABLE e" and "truthy (g_title g)"
    and "lookup_openalex e citation_text (g_title g) (g_authors g) (g_year g) = Some oa"
  shows "grobid_openalex_stage e citation_text g doi md
         = (fst (grobid_registry_stage e doi oa md), openalex_fill (snd (grobid_registry_stage e doi oa md)) oa)"
  using assms by (simp add: grobid_openalex_stage_def Let_def)

lemma openalex_stage_cases:
  "grobid_openalex_stage e citation_text g doi md = md
   \<or> (\<exists>oa. OPENALEX_AVAILABLE e \<and> truthy (g_title g)
            \<and> lookup_openalex e citation_text (g_title g) (g_authors g) (g_year g) = Some oa)"
  by (auto simp: grobid_openalex_stage_def split: option.splits)

lemma fill_after_registry_keeps:
  assumes "OPENALEX_AVAILABLE e" and "truthy (g_title g)"
    and "lookup_openalex e citation_text (g_title g) (g_authors g) (g_year g) = Some oa"
    and "mdr = grobid_registry_stage e doi oa md1"
    and "md2 = grobid_openalex_stage e citation_text g doi md1"
  shows "truthy (en_abstract (snd mdr)) \<longrightarrow> en_abstract (snd md2) = en_abstract (snd mdr)"
    and "truthy (en_url (snd mdr)) \<longrightarrow> en_url (snd md2) = en_url (snd mdr)"
    and "truthy (en_keywords (snd mdr)) \<longrightarrow> en_keywords (snd md2) = en_keywords (snd mdr)"
    and "truthy (en_subject_area (snd mdr)) \<longrightarrow> en_subject_area (snd md2) = en_subject_area (snd mdr)"
proof -
  have md2: "snd md2 = openalex_fill (snd mdr) oa"
    using openalex_stage_answer [OF assms(1,2,3), of doi md1] assms(4,5) by simp
  show "truthy (en_abstract (snd mdr)) \<longrightarrow> en_abstract (snd md2) = en_abstract (snd mdr)"
    using md2 openalex_fill_keeps(1) by simp
  show "truthy (en_url (snd mdr)) \<longrightarrow> en_url (snd md2) = en_url (snd mdr)"
    using md2 openalex_fill_keeps(2) by simp
  show "truthy (en_keywords (snd mdr)) \<longrightarrow> en_keywords (snd md2) = en_keywords (snd mdr)"
    using md2 openalex_fill_keeps(3) by simp
  show "truthy (en_subject_area (snd mdr)) \<longrightarrow> en_subject_area (snd md2) = en_subject_area (snd mdr)"
    using md2 openalex_fill_keeps(4) by simp
qed

lemma grobid_stages_keep:
  assumes "md1 = grobid_crossref_stage e doi (gd, no_enrichment)"
    and "md2 = grobid_openalex_stage e citation_text g doi md1"
  shows "truthy (en_abstract (snd md1)) \<longrightarrow> en_abstract (snd md2) = en_abstract (snd md1)"
    and "truthy (en_url (snd md1)) \<longrightarrow> en_url (snd md2) = en_url (snd md1)"
    and "truthy (en_keywords (snd md1)) \<longrightarrow> en_keywords (snd md2) = en_keywords (snd md1)"
    and "truthy (en_subject_area (snd md1)) \<longrightarrow> en_subject_area (snd md2) = en_subject_area (snd md1)"
proof -
  from openalex_stage_cases [of e citation_text g doi md1]
  consider (same) "md2 = md1"
    | (answer) oa where "OPENALEX_AVAILABLE e" "truthy (g_title g)"
        "lookup_openalex e citation_text (g_title g) (g_authors g) (g_year g) = Some oa"
    using assms(2) by auto
  then have "(truthy (en_abstract (snd md1)) \<longrightarrow> en_abstract (snd md2) = en_abstract (snd md1))
      \<and> (truthy (en_url (snd md1)) \<longrightarrow> en_url (snd md2) = en_url (snd md1))
      \<and> (truthy (en_keywords (snd md1)) \<longrightarrow> en_keywords (snd md2) = en_keywords (snd md1))
      \<and> (truthy (en_subject_area (snd md1)) \<longrightarrow> en_subject_area (snd md2) = en_subject_area (snd md1))"
  proof cases
    case same
    then show ?thesis by simp
  next
    case answer
    define mdr where "mdr = grobid_registry_stage e doi oa md1"
    note r = registry_stage_keeps [OF assms(1) mdr_def]
    note f = fill_after_registry_keeps [OF answer mdr_def assms(2)]
    show ?thesis using r f by auto
  qed
  then show "truthy (en_abstract (snd md1)) \<longrightarrow> en_abstract (snd md2) = en_abstract (snd md1)"
    and "truthy (en_url (snd md1)) \<longrightarrow> en_url (snd md2) = en_url (snd md1)"
    and "truthy (en_keywords (snd md1)) \<longrightarrow> en_keywords (snd md2) = en_keywords (snd md1)"
    and "truthy (en_subject_area (snd md1)) \<longrightarrow> en_subject_area (snd md2) = en_subject_area (snd md1)"
    by blast+
qed

text \<open>The registry's record for the identifier that OpenAlex found, merged inside the
  OpenAlex stage, comes before OpenAlex's own values.\<close>

lemma registry_over_search:
  assumes "\<not> truthy doi" and "HABANERO_AVAILABLE e" and "OPENALEX_AVAILABLE e" and "truthy (g_title g)"
    and "lookup_openalex e citation_text (g_title g) (g_authors g) (g_year g) = Some oa"
    and "truthy (openalex_doi oa)"
    and "lookup_doi_metadata e (the (openalex_doi oa)) = Some cr"
    and "md1 = grobid_crossref_stage e doi (gd, no_enrichment)"
    and "md2 = grobid_openalex_stage e citation_text g doi md1"
  shows "truthy (c_abstract cr) \<longrightarrow> en_abstract (snd md2) = c_abstract cr"
    and "truthy (c_url cr) \<longrightarrow> en_url (snd md2) = c_url cr"
    and "truthy (c_keywords cr) \<longrightarrow> en_keywords (snd md2) = c_keywords cr"
    and "truthy (c_subject_area cr) \<longrightarrow> en_subject_area (snd md2) = c_subject_area cr"
    and "\<not> truthy (c_abstract cr) \<and> truthy (o_abstract oa) \<longrightarrow> en_abstract (snd md2) = o_abstract oa"
    and "\<not> truthy (c_url cr) \<and> truthy (o_url oa) \<longrightarrow> en_url (snd md2) = o_url oa"
    and "\<not> truthy (c_keywords cr) \<and> truthy (o_keywords oa) \<longrightarrow> en_keywords (snd md2) = o_keywords oa"
proof -
  have md1: "md1 = (gd, no_enrichment)" using assms(1,8) by (simp add: crossref_stage_no_doi)
  have mdr: "snd (grobid_registry_stage e doi oa md1) = crossref_merge no_enrichment cr"
    using assms(1,2,6,7) md1 by (simp add: grobid_registry_stage_def)
  have md2: "snd md2 = openalex_fill (crossref_merge no_enrichment cr) oa"
    using openalex_stage_answer [OF assms(3,4,5), of doi md1] assms(9) mdr by simp
  show "truthy (c_abstract cr) \<longrightarrow> en_abstract (snd md2) = c_abstract cr"
    unfolding md2 by (simp add: openalex_fill_def crossref_merge_def py_or_def)
  show "truthy (c_url cr) \<longrightarrow> en_url (snd md2) = c_url cr"
    unfolding md2 by (simp add: openalex_fill_def crossref_merge_def py_or_def)
  show "truthy (c_keywords cr) \<longrightarrow> en_keywords (snd md2) = c_keywords cr"
    unfolding md2 by (simp add: openalex_fill_def crossref_merge_def py_or_def)
  show "truthy (c_subject_area cr) \<longrightarrow> en_subject_area (snd md2) = c_subject_area cr"
    unfolding md2 by (simp add: openalex_fill_def crossref_merge_def py_or_def)
  show "\<not> truthy (c_abstract cr) \<and> truthy (o_abstract oa) \<longrightarrow> en_abstract (snd md2) = o_abstract oa"
    unfolding md2 by (simp add: openalex_fill_def crossref_merge_def py_or_def no_enrichment_def truthy_def)
  show "\<not> truthy (c_url cr) \<and> truthy (o_url oa) \<longrightarrow> en_url (snd md2) = o_url oa"
    unfolding md2 by (simp add: openalex_fill_def crossref_merge_def py_or_def no_enrichment_def truthy_def)
  show "\<not> truthy (c_keywords cr) \<and> truthy (o_keywords oa) \<longrightarrow> en_keywords (snd md2) = o_keywords oa"
    unfolding md2 by (simp add: openalex_fill_def crossref_merge_def py_or_def no_enrichment_def truthy_def)
qed

lemma search_path_registry_first:
  assumes "openalex_path e default_type citation_text fb oa = Inr r"
    and "search_path_crossref e citation_text fb oa = Some cr"
  shows "truthy (c_abstract cr) \<longrightarrow> p_abstract r = c_abstract cr"
    and "truthy (c_url cr) \<longrightarrow> p_url r = c_url cr"
    and "truthy (c_keywords cr) \<longrightarrow> p_keywords r = c_keywords cr"
    and "p_subject_area r = c_subject_area cr"
  using assms by (auto simp: openalex_path_def Let_def py_or_def split: sum.splits)

lemma search_path_registry_empty:
  assumes "openalex_path e default_type citation_text fb oa = Inr r"
    and "search_path_crossref e citation_text fb oa = Some cr"
  shows "\<not> truthy (c_abstract cr) \<longrightarrow> p_abstract r = o_abstract oa"
    and "\<not> truthy (c_url cr) \<longrightarrow> p_url r = o_url oa"
    and "\<not> truthy (c_keywords cr) \<longrightarrow> p_keywords r = o_keywords oa"
  using assms by (auto simp: openalex_path_def Let_def py_or_def split: sum.splits)

lemma search_path_no_registry:
  assumes "openalex_path e default_type citation_text fb oa = Inr r"
    and "search_path_crossref e citation_text fb oa = None"
  shows "p_abstract r = o_abstract oa" and "p_url r = o_url oa" and "p_keywords r = o_keywords oa"
    and "p_subject_area r = None"
  using assms by (auto simp: openalex_path_def Let_def py_or_def truthy_def split: sum.splits)

lemma refreshed_entry_keeps:
  "truthy (e_abstract entry) \<longrightarrow> e_abstract (refreshed_entry entry metadata) = e_abstract entry"
  "truthy (e_url entry) \<longrightarrow> e_url (refreshed_entry entry metadata) = e_url entry"
  "truthy (e_keywords entry) \<longrightarrow> e_keywords (refreshed_entry entry metadata) = e_keywords entry"
  "truthy (e_subject_area entry) \<longrightarrow> e_subject_area (refreshed_entry entry metadata) = e_subject_area entry"
  "e_citation_count (refreshed_entry entry metadata) = c_citation_count metadata"
  by (simp_all add: refreshed_entry_def py_or_def)

text \<open>What \<open>enrich_entry_from_crossref\<close> does with the entry it has built: \<open>update_entry\<close>
  returns \<open>False\<close> for an entry without id and raises on \<open>entry.project_area\<close> otherwise, so
  the refresh reports failure and the store stays as it was.\<close>

lemma enrich_never_stores: "enrich_entry_from_crossref e d entry = (False, d)"
  by (simp add: enrich_entry_from_crossref_def update_entry_def entry_project_area_def
        split: option.splits)

text \<open>
  Claim C1, amended. On the GROBID path no merge replaces a populated enrichment field
  (abstract, url, keywords, subject area): a field populated after the Crossref stage has
  the same value after the OpenAlex stage; within the OpenAlex stage, a field populated
  after the registry lookup made with the identifier that OpenAlex found has the same value
  after the OpenAlex merge that follows it, so that when the path had no identifier and the
  registry answers for OpenAlex's, a non-empty field of the registry's record is the result,
  and OpenAlex's value only fills a field that the registry left empty. On the
  search-assisted path the order is the other way round: OpenAlex answers first, and a
  non-empty abstract, url or keyword list in the later Crossref answer takes the place of
  the OpenAlex value; the result has OpenAlex's value when the registry gives no answer or
  an answer in which the field is empty; the subject area is Crossref's. The entry that
  \<open>enrich_entry_from_crossref\<close> builds keeps each of the four fields when it is populated
  and always takes the citation count of the provider.
\<close>

theorem C1_enrichment_precedence:
  "(md1 = grobid_crossref_stage e doi (gd, no_enrichment)
      \<and> md2 = grobid_openalex_stage e citation_text g doi md1 \<longrightarrow>
        (truthy (en_abstract (snd md1)) \<longrightarrow> en_abstract (snd md2) = en_abstract (snd md1))
      \<and> (truthy (en_url (snd md1)) \<longrightarrow> en_url (snd md2) = en_url (snd md1))
      \<and> (truthy (en_keywords (snd md1)) \<longrightarrow> en_keywords (snd md2) = en_keywords (snd md1))
      \<and> (truthy (en_subject_area (snd md1)) \<longrightarrow> en_subject_area (snd md2) = en_subject_area (snd md1))
      \<and> (OPENALEX_AVAILABLE e \<and> truthy (g_title g)
          \<and> lookup_openalex e citation_text (g_title g) (g_authors g) (g_year g) = Some oa1
          \<and> mdr = grobid_registry_stage e doi oa1 md1 \<longrightarrow>
            (truthy (en_abstract (snd md1)) \<longrightarrow> en_abstract (snd mdr) = en_abstract (snd md1))
          \<and> (truthy (en_url (snd md1)) \<longrightarrow> en_url (snd mdr) = en_url (snd md1))
          \<and> (truthy (en_keywords (snd md1)) \<longrightarrow> en_keywords (snd mdr) = en_keywords (snd md1))
          \<and> (truthy (en_subject_area (snd md1)) \<longrightarrow>
               en_subject_area (snd mdr) = en_subject_area (snd md1))
          \<and> (truthy (en_abstract (snd mdr)) \<longrightarrow> en_abstract (snd md2) = en_abstract (snd mdr))
          \<and> (truthy (en_url (snd mdr)) \<longrightarrow> en_url (snd md2) = en_url (snd mdr))
          \<and> (truthy (en_keywords (snd mdr)) \<longrightarrow> en_keywords (snd md2) = en_keywords (snd mdr))
          \<and> (truthy (en_subject_area (snd mdr)) \<longrightarrow>
               en_subject_area (snd md2) = en_subject_area (snd mdr))
          \<and> (\<not> truthy doi \<and> HABANERO_AVAILABLE e \<and> truthy (openalex_doi oa1)
              \<and> lookup_doi_metadata e (the (openalex_doi oa1)) = Some cr1 \<longrightarrow>
                (truthy (c_abstract cr1) \<longrightarrow> en_abstract (snd md2) = c_abstract cr1)
              \<and> (truthy (c_url cr1) \<longrightarrow> en_url (snd md2) = c_url cr1)
              \<and> (truthy (c_keywords cr1) \<longrightarrow> en_keywords (snd md2) = c_keywords cr1)
              \<and> (truthy (c_subject_area cr1) \<longrightarrow> en_subject_area (snd md2) = c_subject_area cr1)
              \<and> (\<not> truthy (c_abstract cr1) \<and> truthy (o_abstract oa1) \<longrightarrow>
                   en_abstract (snd md2) = o_abstract oa1)
              \<and> (\<not> truthy (c_url cr1) \<and> truthy (o_url oa1) \<longrightarrow> en_url (snd md2) = o_url oa1)
              \<and> (\<not> truthy (c_keywords cr1) \<and> truthy (o_keywords oa1) \<longrightarrow>
                   en_keywords (snd md2) = o_keywords oa1))))
   \<and> (openalex_path e default_type citation_text fb oa = Inr r
        \<and> search_path_crossref e citation_text fb oa = Some cr \<longrightarrow>
          (truthy (c_abstract cr) \<longrightarrow> p_abstract r = c_abstract cr)
        \<and> (truthy (c_url cr) \<longrightarrow> p_url r = c_url cr)
        \<and> (truthy (c_keywords cr) \<longrightarrow> p_keywords r = c_keywords cr)
        \<and> (\<not> truthy (c_abstract cr) \<longrightarrow> p_abstract r = o_abstract oa)
        \<and> (\<not> truthy (c_url cr) \<longrightarrow> p_url r = o_url oa)
        \<and> (\<not> truthy (c_keywords cr) \<longrightarrow> p_keywords r = o_keywords oa)
        \<and> p_subject_area r = c_subject_area cr)
   \<and> (openalex_path e default_type citation_text fb oa = Inr r
        \<and> search_path_crossref e citation_text fb oa = None \<longrightarrow>
          p_abstract r = o_abstract oa \<and> p_url r = o_url oa \<and> p_keywords r = o_keywords oa
        \<and> p_subject_area r = None)
   \<and> (truthy (e_abstract entry) \<longrightarrow> e_abstract (refreshed_entry entry metadata) = e_abstract entry)
   \<and> (truthy (e_url entry) \<longrightarrow> e_url (refreshed_entry entry metadata) = e_url entry)
   \<and> (truthy (e_keywords entry) \<longrightarrow> e_keywords (refreshed_entry entry metadata) = e_keywords entry)
   \<and> (truthy (e_subject_area entry) \<longrightarrow>
        e_subject_area (refreshed_entry entry metadata) = e_subject_area entry)
   \<and> e_citation_count (refreshed_entry entry metadata) = c_citation_count metadata"
proof -
  have path1: "md1 = grobid_crossref_stage e doi (gd, no_enrichment)
      \<and> md2 = grobid_openalex_stage e citation_text g doi md1 \<longrightarrow>
        (truthy (en_abstract (snd md1)) \<longrightarrow> en_abstract (snd md2) = en_abstract (snd md1))
      \<and> (truthy (en_url (snd md1)) \<longrightarrow> en_url (snd md2) = en_url (snd md1))
      \<and> (truthy (en_keywords (snd md1)) \<longrightarrow> en_keywords (snd md2) = en_keywords (snd md1))
      \<and> (truthy (en_subject_area (snd md1)) \<longrightarrow> en_subject_area (snd md2) = en_subject_area (snd md1))
      \<and> (OPENALEX_AVAILABLE e \<and> truthy (g_title g)
          \<and> lookup_openalex e citation_text (g_title g) (g_authors g) (g_year g) = Some oa1
          \<and> mdr = grobid_registry_stage e doi oa1 md1 \<longrightarrow>
            (truthy (en_abstract (snd md1)) \<longrightarrow> en_abstract (snd mdr) = en_abstract (snd md1))
          \<and> (truthy (en_url (snd md1)) \<longrightarrow> en_url (snd mdr) = en_url (snd md1))
          \<and> (truthy (en_keywords (snd md1)) \<longrightarrow> en_keywords (snd mdr) = en_keywords (snd md1))
          \<and> (truthy (en_subject_area (snd md1)) \<longrightarrow>
               en_subject_area (snd mdr) = en_subject_area (snd md1))
          \<and> (truthy (en_abstract (snd mdr)) \<longrightarrow> en_abstract (snd md2) = en_abstract (snd mdr))
          \<and> (truthy (en_url (snd mdr)) \<longrightarrow> en_url (snd md2) = en_url (snd mdr))
          \<and> (truthy (en_keywords (snd mdr)) \<longrightarrow> en_keywords (snd md2) = en_keywords (snd mdr))
          \<and> (truthy (en_subject_area (snd mdr)) \<longrightarrow>
               en_subject_area (snd md2) = en_subject_area (snd mdr))
          \<and> (\<not> truthy doi \<and> HABANERO_AVAILABLE e \<and> truthy (openalex_doi oa1)
              \<and> lookup_doi_metadata e (the (openalex_doi oa1)) = Some cr1 \<longrightarrow>
                (truthy (c_abstract cr1) \<longrightarrow> en_abstract (snd md2) = c_abstract cr1)
              \<and> (truthy (c_url cr1) \<longrightarrow> en_url (snd md2) = c_url cr1)
              \<and> (truthy (c_keywords cr1) \<longrightarrow> en_keywords (snd md2) = c_keywords cr1)
              \<and> (truthy (c_subject_area cr1) \<longrightarrow> en_subject_area (snd md2) = c_subject_area cr1)
              \<and> (\<not> truthy (c_abstract cr1) \<and> truthy (o_abstract oa1) \<longrightarrow>
                   en_abstract (snd md2) = o_abstract oa1)
              \<and> (\<not> truthy (c_url cr1) \<and> truthy (o_url oa1) \<longrightarrow> en_url (snd md2) = o_url oa1)
              \<and> (\<not> truthy (c_keywords cr1) \<and> truthy (o_keywords oa1) \<longrightarrow>
                   en_keywords (snd md2) = o_keywords oa1)))"
  proof (intro impI, elim conjE)
    assume m1: "md1 = grobid_crossref_stage e doi (gd, no_enrichment)"
      and m2: "md2 = grobid_openalex_stage e citation_text g doi md1"
    note k = grobid_stages_keep [OF m1 m2]
    have inner: "OPENALEX_AVAILABLE e \<and> truthy (g_title g)
          \<and> lookup_openalex e citation_text (g_title g) (g_authors g) (g_year g) = Some oa1
          \<and> mdr = grobid_registry_stage e doi oa1 md1 \<longrightarrow>
            (truthy (en_abstract (snd md1)) \<longrightarrow> en_abstract (snd mdr) = en_abstract (snd md1))
          \<and> (truthy (en_url (snd md1)) \<longrightarrow> en_url (snd mdr) = en_url (snd md1))
          \<and> (truthy (en_keywords (snd md1)) \<longrightarrow> en_keywords (snd mdr) = en_keywords (snd md1))
          \<and> (truthy (en_subject_area (snd md1)) \<longrightarrow>
               en_subject_area (snd mdr) = en_subject_area (snd md1))
          \<and> (truthy (en_abstract (snd mdr)) \<longrightarrow> en_abstract (snd md2) = en_abstract (snd mdr))
          \<and> (truthy (en_url (snd mdr)) \<longrightarrow> en_url (snd md2) = en_url (snd mdr))
          \<and> (truthy (en_keywords (snd mdr)) \<longrightarrow> en_keywords (snd md2) = en_keywords (snd mdr))
          \<and> (truthy (en_subject_area (snd mdr)) \<longrightarrow>
               en_subject_area (snd md2) = en_subject_area (snd mdr))
          \<and> (\<not> truthy doi \<and> HABANERO_AVAILABLE e \<and> truthy (openalex_doi oa1)
              \<and> lookup_doi_metadata e (the (openalex_doi oa1)) = Some cr1 \<longrightarrow>
                (truthy (c_abstract cr1) \<longrightarrow> en_abstract (snd md2) = c_abstract cr1)
              \<and> (truthy (c_url cr1) \<longrightarrow> en_url (snd md2) = c_url cr1)
              \<and> (truthy (c_keywords cr1) \<longrightarrow> en_keywords (snd md2) = c_keywords cr1)
              \<and> (truthy (c_subject_area cr1) \<longrightarrow> en_subject_area (snd md2) = c_subject_area cr1)
              \<and> (\<not> truthy (c_abstract cr1) \<and> truthy (o_abstract oa1) \<longrightarrow>
                   en_abstract (snd md2) = o_abstract oa1)
              \<and> (\<not> truthy (c_url cr1) \<and> truthy (o_url oa1) \<longrightarrow> en_url (snd md2) = o_url oa1)
              \<and> (\<not> truthy (c_keywords cr1) \<and> truthy (o_keywords oa1) \<longrightarrow>
                   en_keywords (snd md2) = o_keywords oa1))"
    proof (intro impI, elim conjE)
      assume av: "OPENALEX_AVAILABLE e" and ti: "truthy (g_title g)"
        and lo: "lookup_openalex e citation_text (g_title g) (g_authors g) (g_year g) = Some oa1"
        and mr: "mdr = grobid_registry_stage e doi oa1 md1"
      note r = registry_stage_keeps [OF m1 mr]
      note f = fill_after_registry_keeps [OF av ti lo mr m2]
      have deep: "\<not> truthy doi \<and> HABANERO_AVAILABLE e \<and> truthy (openalex_doi oa1)
              \<and> lookup_doi_metadata e (the (openalex_doi oa1)) = Some cr1 \<longrightarrow>
                (truthy (c_abstract cr1) \<longrightarrow> en_abstract (snd md2) = c_abstract cr1)
              \<and> (truthy (c_url cr1) \<longrightarrow> en_url (snd md2) = c_url cr1)
              \<and> (truthy (c_keywords cr1) \<longrightarrow> en_keywords (snd md2) = c_keywords cr1)
              \<and> (truthy (c_subject_area cr1) \<longrightarrow> en_subject_area (snd md2) = c_subject_area cr1)
              \<and> (\<not> truthy (c_abstract cr1) \<and> truthy (o_abstract oa1) \<longrightarrow>
                   en_abstract (snd md2) = o_abstract oa1)
              \<and> (\<not> truthy (c_url cr1) \<and> truthy (o_url oa1) \<longrightarrow> en_url (snd md2) = o_url oa1)
              \<and> (\<not> truthy (c_keywords cr1) \<and> truthy (o_keywords oa1) \<longrightarrow>
                   en_keywords (snd md2) = o_keywords oa1)"
      proof (intro impI, elim conjE)
        assume nd: "\<not> truthy doi" and ha: "HABANERO_AVAILABLE e" and od: "truthy (openalex_doi oa1)"
          and cr: "lookup_doi_metadata e (the (openalex_doi oa1)) = Some cr1"
        note s = registry_over_search [OF nd ha av ti lo od cr m1 m2]
        show "(truthy (c_abstract cr1) \<longrightarrow> en_abstract (snd md2) = c_abstract cr1)
              \<and> (truthy (c_url cr1) \<longrightarrow> en_url (snd md2) = c_url cr1)
              \<and> (truthy (c_keywords cr1) \<longrightarrow> en_keywords (snd md2) = c_keywords cr1)
              \<and> (truthy (c_subject_area cr1) \<longrightarrow> en_subject_area (snd md2) = c_subject_area cr1)
              \<and> (\<not> truthy (c_abstract cr1) \<and> truthy (o_abstract oa1) \<longrightarrow>
                   en_abstract (snd md2) = o_abstract oa1)
              \<and> (\<not> truthy (c_url cr1) \<and> truthy (o_url oa1) \<longrightarrow> en_url (snd md2) = o_url oa1)
              \<and> (\<not> truthy (c_keywords cr1) \<and> truthy (o_keywords oa1) \<longrightarrow>
                   en_keywords (snd md2) = o_keywords oa1)"
          using s by (intro conjI) assumption+
      qed
      show "(truthy (en_abstract (snd md1)) \<longrightarrow> en_abstract (snd mdr) = en_abstract (snd md1))
          \<and> (truthy (en_url (snd md1)) \<longrightarrow> en_url (snd mdr) = en_url (snd md1))
          \<and> (truthy (en_keywords (snd md1)) \<longrightarrow> en_keywords (snd mdr) = en_keywords (snd md1))
          \<and> (truthy (en_subject_area (snd md1)) \<longrightarrow>
               en_subject_area (snd mdr) = en_subject_area (snd md1))
          \<and> (truthy (en_abstract (snd mdr)) \<longrightarrow> en_abstract (snd md2) = en_abstract (snd mdr))
          \<and> (truthy (en_url (snd mdr)) \<longrightarrow> en_url (snd md2) = en_url (snd mdr))
          \<and> (truthy (en_keywords (snd mdr)) \<longrightarrow> en_keywords (snd md2) = en_keywords (snd mdr))
          \<and> (truthy (en_subject_area (snd mdr)) \<longrightarrow>
               en_subject_area (snd md2) = en_subject_area (snd mdr))
          \<and> (\<not> truthy doi \<and> HABANERO_AVAILABLE e \<and> truthy (openalex_doi oa1)
              \<and> lookup_doi_metadata e (the (openalex_doi oa1)) = Some cr1 \<longrightarrow>
                (truthy (c_abstract cr1) \<longrightarrow> en_abstract (snd md2) = c_abstract cr1)
              \<and> (truthy (c_url cr1) \<longrightarrow> en_url (snd md2) = c_url cr1)
              \<and> (truthy (c_keywords cr1) \<longrightarrow> en_keywords (snd md2) = c_keywords cr1)
              \<and> (truthy (c_subject_area cr1) \<longrightarrow> en_subject_area (snd md2) = c_subject_area cr1)
              \<and> (\<not> truthy (c_abstract cr1) \<and> truthy (o_abstract oa1) \<longrightarrow>
                   en_abstract (snd md2) = o_abstract oa1)
              \<and> (\<not> truthy (c_url cr1) \<and> truthy (o_url oa1) \<longrightarrow> en_url (snd md2) = o_url oa1)
              \<and> (\<not> truthy (c_keywords cr1) \<and> truthy (o_keywords oa1) \<longrightarrow>
                   en_keywords (snd md2) = o_keywords oa1))"
        using r f deep by (intro conjI) assumption+
    qed
    show "(truthy (en_abstract (snd md1)) \<longrightarrow> en_abstract (snd md2) = en_abstract (snd md1))
      \<and> (truthy (en_url (snd md1)) \<longrightarrow> en_url (snd md2) = en_url (snd md1))
      \<and> (truthy (en_keywords (snd md1)) \<longrightarrow> en_keywords (snd md2) = en_keywords (snd md1))
      \<and> (truthy (en_subject_area (snd md1)) \<longrightarrow> en_subject_area (snd md2) = en_subject_area (snd md1))
      \<and> (OPENALEX_AVAILABLE e \<and> truthy (g_title g)
          \<and> lookup_openalex e citation_text (g_title g) (g_authors g) (g_year g) = Some oa1
          \<and> mdr = grobid_registry_stage e doi oa1 md1 \<longrightarrow>
            (truthy (en_abstract (snd md1)) \<longrightarrow> en_abstract (snd mdr) = en_abstract (snd md1))
          \<and> (truthy (en_url (snd md1)) \<longrightarrow> en_url (snd mdr) = en_url (snd md1))
          \<and> (truthy (en_keywords (snd md1)) \<longrightarrow> en_keywords (snd mdr) = en_keywords (snd md1))
          \<and> (truthy (en_subject_area (snd md1)) \<longrightarrow>
               en_subject_area (snd mdr) = en_subject_area (snd md1))
          \<and> (truthy (en_abstract (snd mdr)) \<longrightarrow> en_abstract (snd md2) = en_abstract (snd mdr))
          \<and> (truthy (en_url (snd mdr)) \<longrightarrow> en_url (snd md2) = en_url (snd mdr))
          \<and> (truthy (en_keywords (snd mdr)) \<longrightarrow> en_keywords (snd md2) = en_keywords (snd mdr))
          \<and> (truthy (en_subject_area (snd mdr)) \<longrightarrow>
               en_subject_area (snd md2) = en_subject_area (snd mdr))
          \<and> (\<not> truthy doi \<and> HABANERO_AVAILABLE e \<and> truthy (openalex_doi oa1)
              \<and> lookup_doi_metadata e (the (openalex_doi oa1)) = Some cr1 \<longrightarrow>
                (truthy (c_abstract cr1) \<longrightarrow> en_abstract (snd md2) = c_abstract cr1)
              \<and> (truthy (c_url cr1) \<longrightarrow> en_url (snd md2) = c_url cr1)
              \<and> (truthy (c_keywords cr1) \<longrightarrow> en_keywords (snd md2) = c_keywords cr1)
              \<and> (truthy (c_subject_area cr1) \<longrightarrow> en_subject_area (snd md2) = c_subject_area cr1)
              \<and> (\<not> truthy (c_abstract cr1) \<and> truthy (o_abstract oa1) \<longrightarrow>
                   en_abstract (snd md2) = o_abstract oa1)
              \<and> (\<not> truthy (c_url cr1) \<and> truthy (o_url oa1) \<longrightarrow> en_url (snd md2) = o_url oa1)
              \<and> (\<not> truthy (c_keywords cr1) \<and> truthy (o_keywords oa1) \<longrightarrow>
                   en_keywords (snd md2) = o_keywords oa1)))"
      using k inner by (intro conjI) assumption+
  qed
  have b: "openalex_path e default_type citation_text fb oa = Inr r
        \<and> search_path_crossref e citation_text fb oa = Some cr \<longrightarrow>
          (truthy (c_abstract cr) \<longrightarrow> p_abstract r = c_abstract cr)
        \<and> (truthy (c_url cr) \<longrightarrow> p_url r = c_url cr)
        \<and> (truthy (c_keywords cr) \<longrightarrow> p_keywords r = c_keywords cr)
        \<and> (\<not> truthy (c_abstract cr) \<longrightarrow> p_abstract r = o_abstract oa)
        \<and> (\<not> truthy (c_url cr) \<longrightarrow> p_url r = o_url oa)
        \<and> (\<not> truthy (c_keywords cr) \<longrightarrow> p_keywords r = o_keywords oa)
        \<and> p_subject_area r = c_subject_area cr"
    using search_path_registry_first [of e default_type citation_text fb oa r cr]
      search_path_registry_empty [of e default_type citation_text fb oa r cr] by blast
  have c: "openalex_path e default_type citation_text fb oa = Inr r
        \<and> search_path_crossref e citation_text fb oa = None \<longrightarrow>
          p_abstract r = o_abstract oa \<and> p_url r = o_url oa \<and> p_keywords r = o_keywords oa
        \<and> p_subject_area r = None"
    using search_path_no_registry [of e default_type citation_text fb oa r] by blast
  have d: "(truthy (e_abstract entry) \<longrightarrow> e_abstract (refreshed_entry entry metadata) = e_abstract entry)
   \<and> (truthy (e_url entry) \<longrightarrow> e_url (refreshed_entry entry metadata) = e_url entry)
   \<and> (truthy (e_keywords entry) \<longrightarrow> e_keywords (refreshed_entry entry metadata) = e_keywords entry)
   \<and> (truthy (e_subject_area entry) \<longrightarrow>
        e_subject_area (refreshed_entry entry metadata) = e_subject_area entry)
   \<and> e_citation_count (refreshed_entry entry metadata) = c_citation_count metadata"
    using refreshed_entry_keeps [of entry metadata] by blast
  show ?thesis
    by (rule conjI [OF path1 conjI [OF b conjI [OF c d]]])
qed

text \<open>The witness. With \<open>search_env\<close> and a known identifier the Crossref stage of the GROBID
  path populates the four fields and the OpenAlex stage, whose answer has an abstract, a url
  and keywords of its own, leaves them. For the second scenario and a GROBID answer without
  identifier, the path has none; OpenAlex supplies \<open>10.9/z\<close>, the registry is asked inside
  the OpenAlex stage, and its values are the result; with \<open>bare_registry_env\<close>, whose
  registry record has no such field, OpenAlex's values fill them. On the search-assisted
  path the registry's values are in the result, and OpenAlex's when the registry is not
  available or its record is bare. The refreshed entry keeps its four fields and takes the
  citation count 5 of the provider in place of the stored 1.\<close>

theorem C1_enrichment_precedence_witness:
  "snd (grobid_crossref_stage search_env (Some ''10.9/z'') (Some ''10.9/z'', no_enrichment))
     = \<lparr> en_abstract = Some ''abstract from Crossref'', en_url = Some ''https://doi.org/10.9/z'',
         en_keywords = Some ''keywords from Crossref'', en_subject_area = Some ''Testing'',
         en_citation_count = Some 5 \<rparr>
   \<and> snd (grobid_openalex_stage search_env scenario1 grobid_work (Some ''10.9/z'')
           (grobid_crossref_stage search_env (Some ''10.9/z'') (Some ''10.9/z'', no_enrichment)))
     = \<lparr> en_abstract = Some ''abstract from Crossref'', en_url = Some ''https://doi.org/10.9/z'',
         en_keywords = Some ''keywords from Crossref'', en_subject_area = Some ''Testing'',
         en_citation_count = Some 5 \<rparr>
   \<and> py_or (g_doi grobid_work_no_doi) (extract_doi scenario2) = None
   \<and> snd (grobid_crossref_stage search_env None (None, no_enrichment)) = no_enrichment
   \<and> lookup_openalex search_env scenario2 (g_title grobid_work_no_doi) (g_authors grobid_work_no_doi)
        (g_year grobid_work_no_doi) = Some openalex_work
   \<and> o_abstract openalex_work = Some ''abstract from OpenAlex''
   \<and> o_url openalex_work = Some ''https://oa.example.org/paper.pdf''
   \<and> o_keywords openalex_work = Some ''keywords from OpenAlex''
   \<and> openalex_doi openalex_work = Some ''10.9/z''
   \<and> lookup_doi_metadata search_env ''10.9/z'' = Some crossref_work
   \<and> snd (grobid_registry_stage search_env None openalex_work
            (grobid_crossref_stage search_env None (None, no_enrichment)))
     = \<lparr> en_abstract = Some ''abstract from Crossref'', en_url = Some ''https://doi.org/10.9/z'',
         en_keywords = Some ''keywords from Crossref'', en_subject_area = Some ''Testing'',
         en_citation_count = Some 5 \<rparr>
   \<and> snd (grobid_openalex_stage search_env scenario2 grobid_work_no_doi None
            (grobid_crossref_stage search_env None (None, no_enrichment)))
     = \<lparr> en_abstract = Some ''abstract from Crossref'', en_url = Some ''https://doi.org/10.9/z'',
         en_keywords = Some ''keywords from Crossref'', en_subject_area = Some ''Testing'',
         en_citation_count = Some 5 \<rparr>
   \<and> lookup_doi_metadata bare_registry_env ''10.9/z'' = Some crossref_bare
   \<and> snd (grobid_openalex_stage bare_registry_env scenario2 grobid_work_no_doi None
            (grobid_crossref_stage bare_registry_env None (None, no_enrichment)))
     = \<lparr> en_abstract = Some ''abstract from OpenAlex'', en_url = Some ''https://oa.example.org/paper.pdf'',
         en_keywords = Some ''keywords from OpenAlex'', en_subject_area = None,
         en_citation_count = Some 3 \<rparr>
   \<and> search_path_crossref search_env scenario1 skeleton1 openalex_work = Some crossref_work
   \<and> map_sum id p_abstract (openalex_path search_env ''publication'' scenario1 skeleton1 openalex_work)
       = Inr (c_abstract crossref_work)
   \<and> map_sum id p_url (openalex_path search_env ''publication'' scenario1 skeleton1 openalex_work)
       = Inr (c_url crossref_work)
   \<and> map_sum id p_keywords (openalex_path search_env ''publication'' scenario1 skeleton1 openalex_work)
       = Inr (c_keywords crossref_work)
   \<and> search_path_crossref search_only_env scenario1 skeleton1 openalex_work = None
   \<and> map_sum id p_abstract (openalex_path search_only_env ''publication'' scenario1 skeleton1 openalex_work)
       = Inr (o_abstract openalex_work)
   \<and> search_path_crossref bare_registry_env scenario1 skeleton1 openalex_work = Some crossref_bare
   \<and> map_sum id p_abstract (openalex_path bare_registry_env ''publication'' scenario1 skeleton1 openalex_work)
       = Inr (o_abstract openalex_work)
   \<and> map_sum id p_url (openalex_path bare_registry_env ''publication'' scenario1 skeleton1 openalex_work)
       = Inr (o_url openalex_work)
   \<and> map_sum id p_keywords (openalex_path bare_registry_env ''publication'' scenario1 skeleton1 openalex_work)
       = Inr (o_keywords openalex_work)
   \<and> e_abstract (refreshed_entry stored_entry crossref_work) = Some ''stored abstract''
   \<and> e_url (refreshed_entry stored_entry crossref_work) = Some ''https://example.org/paper''
   \<and> e_keywords (refreshed_entry stored_entry crossref_work) = Some ''testing''
   \<and> e_subject_area (refreshed_entry stored_entry crossref_work) = Some ''Methods''
   \<and> e_citation_count stored_entry = Some 1
   \<and> e_citation_count (refreshed_entry stored_entry crossref_work) = Some 5"
proof -
  define md1 where "md1 = grobid_crossref_stage search_env (Some ''10.9/z'') (Some ''10.9/z'', no_enrichment)"
  define md2 where "md2 = grobid_openalex_stage search_env scenario1 grobid_work (Some ''10.9/z'') md1"
  define mn1 where "mn1 = grobid_crossref_stage search_env None (None, no_enrichment)"
  define mnr where "mnr = grobid_registry_stage search_env None openalex_work mn1"
  define mn2 where "mn2 = grobid_openalex_stage search_env scenario2 grobid_work_no_doi None mn1"
  define mb1 where "mb1 = grobid_crossref_stage bare_registry_env None (None, no_enrichment)"
  define mbr where "mbr = grobid_registry_stage bare_registry_env None openalex_work mb1"
  define mb2 where "mb2 = grobid_openalex_stage bare_registry_env scenario2 grobid_work_no_doi None mb1"
  define r1 where "r1 = projr (openalex_path search_env ''publication'' scenario1 skeleton1 openalex_work)"
  define r2 where "r2 = projr (openalex_path search_only_env ''publication'' scenario1 skeleton1 openalex_work)"
  define r3 where "r3 = projr (openalex_path bare_registry_env ''publication'' scenario1 skeleton1 openalex_work)"
  have s1: "snd md1 = \<lparr> en_abstract = Some ''abstract from Crossref'', en_url = Some ''https://doi.org/10.9/z'',
         en_keywords = Some ''keywords from Crossref'', en_subject_area = Some ''Testing'',
         en_citation_count = Some 5 \<rparr>"
    unfolding md1_def by code_simp
  have count: "en_citation_count (snd md2) = Some 5"
    unfolding md2_def md1_def by code_simp
  have nodoi: "py_or (g_doi grobid_work_no_doi) (extract_doi scenario2) = None"
    by code_simp
  have sn1: "snd mn1 = no_enrichment"
    unfolding mn1_def by (simp add: crossref_stage_no_doi truthy_def)
  have sb1: "snd mb1 = no_enrichment"
    unfolding mb1_def by (simp add: crossref_stage_no_doi truthy_def)
  have lo: "lookup_openalex search_env scenario2 (g_title grobid_work_no_doi) (g_authors grobid_work_no_doi)
        (g_year grobid_work_no_doi) = Some openalex_work"
    by code_simp
  have lob: "lookup_openalex bare_registry_env scenario2 (g_title grobid_work_no_doi)
        (g_authors grobid_work_no_doi) (g_year grobid_work_no_doi) = Some openalex_work"
    by code_simp
  have od: "openalex_doi openalex_work = Some ''10.9/z''"
    by (simp add: openalex_doi_def openalex_work_def truthy_def)
  have reg: "lookup_doi_metadata search_env ''10.9/z'' = Some crossref_work"
    by code_simp
  have regb: "lookup_doi_metadata bare_registry_env ''10.9/z'' = Some crossref_bare"
    by code_simp
  have snr: "snd mnr = \<lparr> en_abstract = Some ''abstract from Crossref'', en_url = Some ''https://doi.org/10.9/z'',
         en_keywords = Some ''keywords from Crossref'', en_subject_area = Some ''Testing'',
         en_citation_count = Some 5 \<rparr>"
    unfolding mnr_def mn1_def by code_simp
  have countn: "en_citation_count (snd mn2) = Some 5"
    unfolding mn2_def mn1_def by code_simp
  have countb: "en_citation_count (snd mb2) = Some 3 \<and> en_subject_area (snd mb2) = None"
    unfolding mb2_def mb1_def by code_simp
  have flags: "OPENALEX_AVAILABLE search_env \<and> HABANERO_AVAILABLE search_env
               \<and> OPENALEX_AVAILABLE bare_registry_env \<and> HABANERO_AVAILABLE bare_registry_env
               \<and> truthy (g_title grobid_work_no_doi) \<and> \<not> truthy None
               \<and> truthy (openalex_doi openalex_work)"
    by (simp add: search_env_def bare_registry_env_def grobid_work_no_doi_def truthy_def od)
  have cr1: "search_path_crossref search_env scenario1 skeleton1 openalex_work = Some crossref_work"
    by code_simp
  have cr2: "search_path_crossref search_only_env scenario1 skeleton1 openalex_work = None"
    by code_simp
  have cr3: "search_path_crossref bare_registry_env scenario1 skeleton1 openalex_work = Some crossref_bare"
    by code_simp
  have p1: "openalex_path search_env ''publication'' scenario1 skeleton1 openalex_work = Inr r1"
    unfolding r1_def by (simp add: search_path_scenario1)
  have p2: "openalex_path search_only_env ''publication'' scenario1 skeleton1 openalex_work = Inr r2"
    unfolding r2_def by (simp add: search_only_path_scenario1)
  have p3: "openalex_path bare_registry_env ''publication'' scenario1 skeleton1 openalex_work = Inr r3"
    unfolding r3_def by (simp add: bare_registry_path_scenario1)
  have st: "truthy (e_abstract stored_entry) \<and> truthy (e_url stored_entry)
            \<and> truthy (e_keywords stored_entry) \<and> truthy (e_subject_area stored_entry)
            \<and> e_abstract stored_entry = Some ''stored abstract''
            \<and> e_url stored_entry = Some ''https://example.org/paper''
            \<and> e_keywords stored_entry = Some ''testing''
            \<and> e_subject_area stored_entry = Some ''Methods''
            \<and> e_citation_count stored_entry = Some 1
            \<and> c_citation_count crossref_work = Some 5
            \<and> truthy (c_abstract crossref_work) \<and> truthy (c_url crossref_work)
            \<and> truthy (c_keywords crossref_work) \<and> truthy (c_subject_area crossref_work)
            \<and> c_abstract crossref_work = Some ''abstract from Crossref''
            \<and> c_url crossref_work = Some ''https://doi.org/10.9/z''
            \<and> c_keywords crossref_work = Some ''keywords from Crossref''
            \<and> c_subject_area crossref_work = Some ''Testing''"
    by (simp add: stored_entry_def crossref_work_def truthy_def)
  have ba: "\<not> truthy (c_abstract crossref_bare) \<and> \<not> truthy (c_url crossref_bare)
            \<and> \<not> truthy (c_keywords crossref_bare)
            \<and> truthy (o_abstract openalex_work) \<and> truthy (o_url openalex_work)
            \<and> truthy (o_keywords openalex_work)
            \<and> o_abstract openalex_work = Some ''abstract from OpenAlex''
            \<and> o_url openalex_work = Some ''https://oa.example.org/paper.pdf''
            \<and> o_keywords openalex_work = Some ''keywords from OpenAlex''"
    by (simp add: crossref_bare_def openalex_work_def truthy_def)
  have t1: "truthy (en_abstract (snd md1)) \<and> truthy (en_url (snd md1))
            \<and> truthy (en_keywords (snd md1)) \<and> truthy (en_subject_area (snd md1))"
    by (simp add: s1 truthy_def)
  note inst1 = C1_enrichment_precedence [where ?md1.0 = md1 and ?md2.0 = md2 and e = search_env
      and doi = "Some ''10.9/z''" and gd = "Some ''10.9/z''" and citation_text = scenario1
      and g = grobid_work and default_type = "''publication''" and fb = skeleton1
      and oa = openalex_work and r = r1 and cr = crossref_work and entry = stored_entry
      and metadata = crossref_work]
  note inst2 = C1_enrichment_precedence [where e = search_only_env
      and citation_text = scenario1 and default_type = "''publication''" and fb = skeleton1
      and oa = openalex_work and r = r2 and entry = stored_entry and metadata = crossref_work]
  note inst3 = C1_enrichment_precedence [where e = bare_registry_env
      and citation_text = scenario1 and default_type = "''publication''" and fb = skeleton1
      and oa = openalex_work and r = r3 and cr = crossref_bare and entry = stored_entry
      and metadata = crossref_work]
  note instn = C1_enrichment_precedence [where ?md1.0 = mn1 and ?md2.0 = mn2 and mdr = mnr
      and e = search_env and doi = None and gd = None and citation_text = scenario2
      and g = grobid_work_no_doi and ?oa1.0 = openalex_work and ?cr1.0 = crossref_work,
      THEN conjunct1]
  note instb = C1_enrichment_precedence [where ?md1.0 = mb1 and ?md2.0 = mb2 and mdr = mbr
      and e = bare_registry_env and doi = None and gd = None and citation_text = scenario2
      and g = grobid_work_no_doi and ?oa1.0 = openalex_work and ?cr1.0 = crossref_bare,
      THEN conjunct1]
  have a: "en_abstract (snd md2) = en_abstract (snd md1) \<and> en_url (snd md2) = en_url (snd md1)
           \<and> en_keywords (snd md2) = en_keywords (snd md1)
           \<and> en_subject_area (snd md2) = en_subject_area (snd md1)"
    using inst1 [THEN conjunct1] t1 md1_def md2_def by (simp add: truthy_def)
  have s2: "snd md2 = \<lparr> en_abstract = Some ''abstract from Crossref'', en_url = Some ''https://doi.org/10.9/z'',
         en_keywords = Some ''keywords from Crossref'', en_subject_area = Some ''Testing'',
         en_citation_count = Some 5 \<rparr>"
    using a count s1 by (cases "snd md2") simp
  have n: "en_abstract (snd mn2) = c_abstract crossref_work \<and> en_url (snd mn2) = c_url crossref_work
           \<and> en_keywords (snd mn2) = c_keywords crossref_work
           \<and> en_subject_area (snd mn2) = c_subject_area crossref_work"
    using instn mn1_def mn2_def mnr_def lo od reg flags st by (simp add: truthy_def)
  have sn2: "snd mn2 = \<lparr> en_abstract = Some ''abstract from Crossref'', en_url = Some ''https://doi.org/10.9/z'',
         en_keywords = Some ''keywords from Crossref'', en_subject_area = Some ''Testing'',
         en_citation_count = Some 5 \<rparr>"
    using n countn st by (cases "snd mn2") simp
  have b0: "en_abstract (snd mb2) = o_abstract openalex_work \<and> en_url (snd mb2) = o_url openalex_work
           \<and> en_keywords (snd mb2) = o_keywords openalex_work"
    using instb mb1_def mb2_def mbr_def lob od regb flags ba by (simp add: truthy_def)
  have sb2: "snd mb2 = \<lparr> en_abstract = Some ''abstract from OpenAlex'',
         en_url = Some ''https://oa.example.org/paper.pdf'',
         en_keywords = Some ''keywords from OpenAlex'', en_subject_area = None,
         en_citation_count = Some 3 \<rparr>"
    using b0 countb ba by (cases "snd mb2") simp
  have b: "p_abstract r1 = c_abstract crossref_work \<and> p_url r1 = c_url crossref_work
           \<and> p_keywords r1 = c_keywords crossref_work"
    using inst1 [THEN conjunct2, THEN conjunct1] p1 cr1 st by (simp add: truthy_def)
  have c: "p_abstract r2 = o_abstract openalex_work"
    using inst2 [THEN conjunct2, THEN conjunct2, THEN conjunct1] p2 cr2 by simp
  have d: "p_abstract r3 = o_abstract openalex_work \<and> p_url r3 = o_url openalex_work
           \<and> p_keywords r3 = o_keywords openalex_work"
    using inst3 [THEN conjunct2, THEN conjunct1] p3 cr3 ba by (simp add: truthy_def)
  have f: "e_abstract (refreshed_entry stored_entry crossref_work) = Some ''stored abstract''
           \<and> e_url (refreshed_entry stored_entry crossref_work) = Some ''https://example.org/paper''
           \<and> e_keywords (refreshed_entry stored_entry crossref_work) = Some ''testing''
           \<and> e_subject_area (refreshed_entry stored_entry crossref_work) = Some ''Methods''
           \<and> e_citation_count (refreshed_entry stored_entry crossref_work) = Some 5"
    using inst1 [THEN conjunct2, THEN conjunct2, THEN conjunct2] st by (simp add: truthy_def)
  show ?thesis
    using s1 s2 nodoi sn1 lo ba od reg snr sn2 regb sb2 cr1 cr2 cr3 b c d f st p1 p2 p3
    unfolding md1_def md2_def mn1_def mnr_def mn2_def mb1_def mb2_def by simp
qed

text \<open>The claim as stated fails on the search-assisted path. For the first scenario
  \<open>search_env\<close> has no registry entry under the identifier of the text, so the search comes
  first and answers with an abstract; the registry, asked afterwards with the identifier
  that the search supplied, answers with another, and that one is in the result.\<close>

theorem C1_enrichment_precedence_counterexample:
  "map_option o_abstract
     (lookup_openalex search_env scenario1 (Some ''Journal of Testing 12, 345 (2021)'')
        [''Smith'', ''J. A novel method''] (Some 2021))
     = Some (Some ''abstract from OpenAlex'')
   \<and> map_sum id (map_option p_abstract) (parse_citation search_env scenario1 ''publication'')
     = Inr (Some (Some ''abstract from Crossref''))"
proof -
  have a: "lookup_openalex search_env scenario1 (Some ''Journal of Testing 12, 345 (2021)'')
             [''Smith'', ''J. A novel method''] (Some 2021) = Some openalex_work"
    using search_env_search by (simp add: skeleton1_def)
  have t: "fb_title skeleton1 \<noteq> []" by (simp add: skeleton1_def)
  have b: "parse_citation search_env scenario1 ''publication''
             = map_sum id Some (openalex_path search_env ''publication'' scenario1 skeleton1 openalex_work)"
    by (simp add: parse_citation_def Let_def strip_scenario1 length_scenario1 nonempty_scenario1
          doi_scenario1 search_env_flags search_env_registry skeleton_scenario1 search_env_search t
          truthy_def)
  have c: "map_option o_abstract (Some openalex_work) = Some (Some ''abstract from OpenAlex'')"
    by (simp add: openalex_work_def)
  have d: "map_sum id (map_option p_abstract)
             (map_sum id Some (openalex_path search_env ''publication'' scenario1 skeleton1 openalex_work))
           = Inr (Some (Some ''abstract from Crossref''))"
    by (simp add: search_path_scenario1)
  show ?thesis
    unfolding a b using c d by blast
qed

section \<open>Submitting a citation\<close>

text \<open>No call of \<open>create_entry_from_citation\<close> reports a new entry: whenever the duplicate
  check finds nothing, \<open>create_entry\<close> raises on \<open>entry.project_area\<close>; the only other
  exception is the \<open>OverflowError\<close> of the duplicate check.\<close>

lemma create_entry_outcome:
  "create_entry d entry = Inl AttributeError \<or> create_entry d entry = Inl OverflowError
   \<or> (\<exists>i. create_entry d entry = Inr ((i, False), d))"
  by (auto simp: create_entry_def entry_project_area_def check_duplicate_def
        split: option.splits sum.splits list.splits if_splits)

lemma create_entry_from_citation_never_new:
  "fst (create_entry_from_citation e clash d citation_text entry_type) \<noteq> Inr (Some i, True)"
proof (cases "parse_citation e citation_text entry_type")
  case (Inl err)
  then show ?thesis by (simp add: create_entry_from_citation_def)
next
  case (Inr po)
  show ?thesis
  proof (cases po)
    case None
    with Inr show ?thesis by (simp add: create_entry_from_citation_def)
  next
    case (Some parsed)
    from create_entry_outcome [of d "entry_of_parsed parsed"]
    consider (attr) "create_entry d (entry_of_parsed parsed) = Inl AttributeError"
      | (over) "create_entry d (entry_of_parsed parsed) = Inl OverflowError"
      | (dup) j where "create_entry d (entry_of_parsed parsed) = Inr ((j, False), d)"
      by blast
    then show ?thesis
    proof cases
      case attr
      with Inr Some show ?thesis by (simp add: create_entry_from_citation_def)
    next
      case over
      with Inr Some show ?thesis by (simp add: create_entry_from_citation_def)
    next
      case dup
      with Inr Some show ?thesis by (simp add: create_entry_from_citation_def)
    qed
  qed
qed

text \<open>A submission never writes: it ends with a duplicate's id, with no record, or with the
  exception, before any author is linked.\<close>

lemma create_entry_from_citation_store:
  "snd (create_entry_from_citation e clash d citation_text entry_type) = d"
proof (cases "parse_citation e citation_text entry_type")
  case (Inl err)
  then show ?thesis by (simp add: create_entry_from_citation_def)
next
  case (Inr po)
  show ?thesis
  proof (cases po)
    case None
    with Inr show ?thesis by (simp add: create_entry_from_citation_def)
  next
    case (Some parsed)
    from create_entry_outcome [of d "entry_of_parsed parsed"]
    consider (attr) "create_entry d (entry_of_parsed parsed) = Inl AttributeError"
      | (over) "create_entry d (entry_of_parsed parsed) = Inl OverflowError"
      | (dup) j where "create_entry d (entry_of_parsed parsed) = Inr ((j, False), d)"
      by blast
    then show ?thesis
    proof cases
      case attr
      with Inr Some show ?thesis by (simp add: create_entry_from_citation_def)
    next
      case over
      with Inr Some show ?thesis by (simp add: create_entry_from_citation_def)
    next
      case dup
      with Inr Some show ?thesis by (simp add: create_entry_from_citation_def)
    qed
  qed
qed

text \<open>
  Claim C2. The first submission of a citation whose record has a title and a year but no
  identifier should create an entry and return its fresh id with \<open>is_new\<close> true. For the
  citation \<open>scenario2\<close>, submitted to the empty store with no provider available, the record
  has the title \<open>A novel method for testing things\<close>, the year 2021 and no identifier;
  \<open>check_duplicate\<close> finds nothing, \<open>create_entry\<close> reads \<open>entry.project_area\<close>, which \<open>Entry\<close>
  does not have, and the call raises \<open>AttributeError\<close>, leaving the store empty.
\<close>

theorem C2_first_submission_raises:
  "map_sum id (map_option (\<lambda>p. (p_title p, p_year p, p_doi p)))
       (parse_citation no_providers scenario2 ''publication'')
     = Inr (Some (Some ''A novel method for testing things'', Some 2021, None))
   \<and> check_duplicate empty_db
        (entry_of_parsed (the (projr (parse_citation no_providers scenario2 ''publication'')))) = Inr None
   \<and> create_entry_from_citation no_providers clash empty_db scenario2 ''publication''
     = (Inl AttributeError, empty_db)"
  by (simp add: parse_scenario2 create_entry_from_citation_def create_entry_def check_duplicate_def
        entry_of_parsed_def empty_db_def select_by_doi_def select_by_title_year_def
        select_by_title_def entry_project_area_def truthy_def truthy_int_def sqlite_int_def Let_def)

end
